theory Spec2Isabelle
  imports Complex_Main "HOL-Library.Sublist" "HOL-Library.Log_Nat"
begin


section \<open>Python values used by the runner\<close>

text \<open>
  The runner (\<^verbatim>\<open>inspect_runner.py\<close>) is Python. Strings are modelled as lists of
  8-bit characters read as code points 0..255 (Latin-1); the character classes and case
  mappings below are the ones Python applies to those code points. Integers are
  unbounded (\<open>int\<close>). A finite float is carried by the rational number it denotes.
\<close>

subsection \<open>Strings\<close>

definition code :: "char \<Rightarrow> nat" where
  "code c = of_char c"

text \<open>\<^verbatim>\<open>str.lower()\<close>: A-Z and the upper-case letters of Latin-1 move up by 32.\<close>

definition lower_char :: "char \<Rightarrow> char" where
  "lower_char c =
     (let n = code c
      in if (65 \<le> n \<and> n \<le> 90) \<or> (192 \<le> n \<and> n \<le> 222 \<and> n \<noteq> 215)
         then char_of (n + 32) else c)"

definition lower :: "string \<Rightarrow> string" where
  "lower s = map lower_char s"

text \<open>\<^verbatim>\<open>p in s\<close> on strings: \<open>p\<close> occurs in \<open>s\<close> as a contiguous run.\<close>

fun contains :: "string \<Rightarrow> string \<Rightarrow> bool" where
  "contains p [] = (p = [])"
| "contains p (c # cs) = (prefix p (c # cs) \<or> contains p cs)"

text \<open>\<^verbatim>\<open>str(n)\<close> for an integer: decimal digits, with a minus sign when negative.\<close>

definition digit_char :: "nat \<Rightarrow> char" where
  "digit_char d = ''0123456789'' ! d"

fun digits10 :: "nat \<Rightarrow> string" where
  "digits10 n =
     (if n < 10 then [digit_char n]
      else digits10 (n div 10) @ [digit_char (n mod 10)])"

declare digits10.simps [simp del]

definition str_int :: "int \<Rightarrow> string" where
  "str_int i = (if i < 0 then CHR ''-'' # digits10 (nat (- i)) else digits10 (nat i))"

subsection \<open>Floats and numbers\<close>

datatype pyfloat = Fin rat | PInf | NInf | NaN

datatype pynum = PyInt int | PyFloat pyfloat

text \<open>
  \<^verbatim>\<open>str(x)\<close> of a number: exact for an integer; the shortest-repr printing of a float
  is a parameter \<open>float_repr\<close> of the functions that need it.
\<close>

definition str_num :: "(pyfloat \<Rightarrow> string) \<Rightarrow> pynum \<Rightarrow> string" where
  "str_num float_repr x = (case x of PyInt i \<Rightarrow> str_int i | PyFloat f \<Rightarrow> float_repr f)"

section \<open>Provider table\<close>

record provider_config =
  name :: string
  base_url :: "string option"
  api_key_env :: string
  model_prefix :: string
  description :: string

definition PROVIDERS :: "(string \<times> provider_config) list" where
  "PROVIDERS =
    [(''openrouter'', \<lparr>name = ''OpenRouter'', base_url = Some ''https://openrouter.ai/api/v1'',
        api_key_env = ''OPENROUTER_API_KEY'', model_prefix = ''openai/'',
        description = ''Unified access to 200+ models via OpenRouter''\<rparr>),
     (''openai'', \<lparr>name = ''OpenAI'', base_url = Some ''https://api.openai.com/v1'',
        api_key_env = ''OPENAI_API_KEY'', model_prefix = ''openai/'',
        description = ''Direct OpenAI API access''\<rparr>),
     (''anthropic'', \<lparr>name = ''Anthropic'', base_url = None,
        api_key_env = ''ANTHROPIC_API_KEY'', model_prefix = ''anthropic/'',
        description = ''Direct Anthropic API access''\<rparr>),
     (''google'', \<lparr>name = ''Google AI'', base_url = None,
        api_key_env = ''GOOGLE_API_KEY'', model_prefix = ''google/'',
        description = ''Direct Google AI (Gemini) API access''\<rparr>),
     (''together'', \<lparr>name = ''Together AI'', base_url = Some ''https://api.together.xyz/v1'',
        api_key_env = ''TOGETHER_API_KEY'', model_prefix = ''openai/'',
        description = ''Together AI - fast open-source model inference''\<rparr>),
     (''fireworks'', \<lparr>name = ''Fireworks AI'',
        base_url = Some ''https://api.fireworks.ai/inference/v1'',
        api_key_env = ''FIREWORKS_API_KEY'', model_prefix = ''openai/'',
        description = ''Fireworks AI - fast model inference''\<rparr>)]"

section \<open>Command builder\<close>

definition reasoning_patterns :: "string list" where
  "reasoning_patterns =
    [''o1'', ''o3'', ''gpt-5'',
     ''claude-3-7'', ''claude-3.7'', ''claude-4'',
     ''deepseek-r1'', ''deepseek/r1'',
     ''gemini-2.5'', ''gemini-3'', ''deep-think'', ''deepthink'',
     ''phi-4-reasoning'', ''phi-reasoning'',
     ''-reasoning'', ''-thinking'', ''_reasoning'', ''_thinking'']"

definition is_reasoning_model :: "string \<Rightarrow> bool" where
  "is_reasoning_model model_id =
     (let model_lower = lower model_id
      in list_ex (\<lambda>pattern. contains pattern model_lower) reasoning_patterns)"

definition is_openai_reasoning :: "string \<Rightarrow> bool" where
  "is_openai_reasoning model_id =
     list_ex (\<lambda>p. contains p (lower model_id)) [''o1'', ''o3'', ''gpt-5'']"

text \<open>
  The first part of the command: the task, the model with the provider's prefix, the
  limit and the log format; OpenAI-compatible providers other than \<^verbatim>\<open>openai\<close> add the
  base URL when the configuration has a non-empty one.
\<close>

definition base_cmd ::
  "string \<Rightarrow> string \<Rightarrow> int \<Rightarrow> string \<Rightarrow> provider_config \<Rightarrow> string list" where
  "base_cmd task_name model_id limit provider cfg =
     (if provider = ''anthropic'' then
        [''inspect'', ''eval'', task_name, ''--model'', ''anthropic/'' @ model_id,
         ''--limit'', str_int limit, ''--log-format'', ''json'']
      else if provider = ''google'' then
        [''inspect'', ''eval'', task_name, ''--model'', ''google/'' @ model_id,
         ''--limit'', str_int limit, ''--log-format'', ''json'']
      else
        [''inspect'', ''eval'', task_name, ''--model'', model_prefix cfg @ model_id,
         ''--limit'', str_int limit, ''--log-format'', ''json'']
        @ (case base_url cfg of
             Some url \<Rightarrow>
               if url \<noteq> [] \<and> provider \<noteq> ''openai'' then [''--model-base-url'', url] else []
           | None \<Rightarrow> []))"

text \<open>
  The branch for a reasoning model. \<^verbatim>\<open>reasoning_effort if reasoning_effort is not None\<close>
  keeps an empty string; \<^verbatim>\<open>reasoning_effort or "medium"\<close> and \<^verbatim>\<open>if reasoning_effort:\<close>
  treat the empty string as absent.
\<close>

definition reasoning_flags :: "string \<Rightarrow> string \<Rightarrow> string option \<Rightarrow> string list" where
  "reasoning_flags provider model_id reasoning_effort =
     (if provider = ''openrouter'' \<and> is_openai_reasoning model_id then
        [''--reasoning-effort'', (case reasoning_effort of Some e \<Rightarrow> e | None \<Rightarrow> ''none'')]
      else if provider = ''openrouter'' then
        (case reasoning_effort of
           Some e \<Rightarrow> if e \<noteq> [] then [''--reasoning-effort'', e] else []
         | None \<Rightarrow> [])
      else if provider = ''openai'' then
        [''--reasoning-effort'',
         (case reasoning_effort of Some e \<Rightarrow> if e \<noteq> [] then e else ''medium'' | None \<Rightarrow> ''medium''),
         ''--reasoning-summary'', ''auto'']
      else if provider = ''anthropic'' then []
      else if provider = ''google'' then []
      else
        (case reasoning_effort of
           Some e \<Rightarrow> if e \<noteq> [] then [''--reasoning-effort'', e] else []
         | None \<Rightarrow> []))"

definition seed_flags :: "int option \<Rightarrow> string list" where
  "seed_flags seed =
     (case seed of
        Some s \<Rightarrow> [''--seed'', str_int s, ''--sample-shuffle'', str_int s]
      | None \<Rightarrow> [''--sample-shuffle''])"

definition effective_max_tokens :: "int option \<Rightarrow> int" where
  "effective_max_tokens max_tokens = (case max_tokens of Some n \<Rightarrow> n | None \<Rightarrow> 1024)"

definition token_flags :: "int option \<Rightarrow> string list" where
  "token_flags max_tokens =
     [''--max-tokens'', str_int (effective_max_tokens max_tokens),
      ''-T'', ''max_non_cot_tokens='' @ str_int (effective_max_tokens max_tokens)]"

definition build_inspect_command ::
  "(pyfloat \<Rightarrow> string) \<Rightarrow> string \<Rightarrow> string \<Rightarrow> int \<Rightarrow> string \<Rightarrow> provider_config \<Rightarrow>
   pynum option \<Rightarrow> int option \<Rightarrow> int option \<Rightarrow> string option \<Rightarrow> string list" where
  "build_inspect_command float_repr task_name model_id limit provider cfg
       temperature seed max_tokens reasoning_effort =
     base_cmd task_name model_id limit provider cfg
     @ (if is_reasoning_model model_id then
          reasoning_flags provider model_id reasoning_effort
        else
          (case temperature of
             Some t \<Rightarrow> [''--temperature'', str_num float_repr t]
           | None \<Rightarrow> []))
     @ seed_flags seed
     @ token_flags max_tokens"

text \<open>An option \<open>flag\<close> directly followed by the value \<open>v\<close> in a command line.\<close>

fun has_flag_value :: "string \<Rightarrow> string \<Rightarrow> string list \<Rightarrow> bool" where
  "has_flag_value flag v (x # y # rest) = ((x = flag \<and> y = v) \<or> has_flag_value flag v (y # rest))"
| "has_flag_value flag v _ = False"

text \<open>
  No value supplied by the caller is itself the option \<open>flag\<close>: the task name, the
  prefixed model, the base URL and the requested effort.
\<close>

definition arg_free ::
  "string \<Rightarrow> string \<Rightarrow> string \<Rightarrow> string \<Rightarrow> provider_config \<Rightarrow> string option \<Rightarrow> bool" where
  "arg_free flag task_name model_id provider cfg reasoning_effort =
     (task_name \<noteq> flag \<and> model_prefix cfg @ model_id \<noteq> flag \<and> base_url cfg \<noteq> Some flag
      \<and> reasoning_effort \<noteq> Some flag)"

text \<open>Truth value of \<^verbatim>\<open>reasoning_effort\<close>: given and not the empty string.\<close>

definition effort_given :: "string option \<Rightarrow> bool" where
  "effort_given reasoning_effort = (case reasoning_effort of Some e \<Rightarrow> e \<noteq> [] | None \<Rightarrow> False)"

text \<open>\<^verbatim>\<open>reasoning_effort or default\<close>.\<close>

definition effort_or :: "string \<Rightarrow> string option \<Rightarrow> string" where
  "effort_or d reasoning_effort =
     (case reasoning_effort of Some e \<Rightarrow> if e \<noteq> [] then e else d | None \<Rightarrow> d)"

text \<open>The entries of \<open>PROVIDERS\<close> used in the examples.\<close>

definition openrouter_cfg :: provider_config where
  "openrouter_cfg = \<lparr>name = ''OpenRouter'', base_url = Some ''https://openrouter.ai/api/v1'',
        api_key_env = ''OPENROUTER_API_KEY'', model_prefix = ''openai/'',
        description = ''Unified access to 200+ models via OpenRouter''\<rparr>"

definition openai_cfg :: provider_config where
  "openai_cfg = \<lparr>name = ''OpenAI'', base_url = Some ''https://api.openai.com/v1'',
        api_key_env = ''OPENAI_API_KEY'', model_prefix = ''openai/'',
        description = ''Direct OpenAI API access''\<rparr>"

definition anthropic_cfg :: provider_config where
  "anthropic_cfg = \<lparr>name = ''Anthropic'', base_url = None,
        api_key_env = ''ANTHROPIC_API_KEY'', model_prefix = ''anthropic/'',
        description = ''Direct Anthropic API access''\<rparr>"


section \<open>Float arithmetic\<close>

text \<open>
  A Python float is an IEEE 754 binary64 number. A finite one is carried by its exact
  rational value (\<open>Fin\<close>); the sign of a zero is not kept. Every arithmetic operation
  returns the exact result rounded to the nearest representable number, ties to the even
  significand, and infinity on overflow.
\<close>

definition pow2 :: "int \<Rightarrow> rat" where
  "pow2 e = 2 powi e"

text \<open>For a positive \<open>x\<close>, the exponent \<open>e\<close> with \<open>2^e \<le> x < 2^(e+1)\<close>.\<close>

definition ilog2 :: "rat \<Rightarrow> int" where
  "ilog2 x =
     (let (p, q) = quotient_of x;
          d = bitlen p - bitlen q
      in if pow2 d \<le> x then d else d - 1)"

definition round_half_even :: "rat \<Rightarrow> int" where
  "round_half_even q =
     (let n = \<lfloor>q\<rfloor>; r = q - of_int n
      in if r < 1 / 2 then n
         else if 1 / 2 < r then n + 1
         else if even n then n else n + 1)"

text \<open>
  Rounding to binary64: 53 significant bits, the least exponent of a normal number is
  -1022 (below it the spacing stays \<open>2^-1074\<close>), and a rounded magnitude of \<open>2^1024\<close> or
  more (an exponent of 1024 or more) is infinite.
\<close>

definition fl_round :: "rat \<Rightarrow> pyfloat" where
  "fl_round x =
     (if x = 0 then Fin 0
      else
        let m = \<bar>x\<bar>;
            e = max (ilog2 m) (- 1022);
            u = pow2 (e - 52);
            r = of_int (round_half_even (m / u)) * u
        in if 1024 \<le> ilog2 r then (if 0 < x then PInf else NInf)
           else Fin (if 0 < x then r else - r))"

fun fl_neg :: "pyfloat \<Rightarrow> pyfloat" where
  "fl_neg (Fin a) = Fin (- a)"
| "fl_neg PInf = NInf"
| "fl_neg NInf = PInf"
| "fl_neg NaN = NaN"

fun fl_add :: "pyfloat \<Rightarrow> pyfloat \<Rightarrow> pyfloat" where
  "fl_add (Fin a) (Fin b) = fl_round (a + b)"
| "fl_add NaN _ = NaN"
| "fl_add _ NaN = NaN"
| "fl_add PInf NInf = NaN"
| "fl_add NInf PInf = NaN"
| "fl_add PInf _ = PInf"
| "fl_add NInf _ = NInf"
| "fl_add _ PInf = PInf"
| "fl_add _ NInf = NInf"

definition fl_sub :: "pyfloat \<Rightarrow> pyfloat \<Rightarrow> pyfloat" where
  "fl_sub a b = fl_add a (fl_neg b)"

text \<open>The sign of a float: -1, 0 or 1; \<open>None\<close> for a NaN.\<close>

fun fl_sign :: "pyfloat \<Rightarrow> int option" where
  "fl_sign (Fin a) = Some (sgn (\<lfloor>a\<rfloor> + \<lceil>a\<rceil>))"
| "fl_sign PInf = Some 1"
| "fl_sign NInf = Some (- 1)"
| "fl_sign NaN = None"

fun fl_mul :: "pyfloat \<Rightarrow> pyfloat \<Rightarrow> pyfloat" where
  "fl_mul (Fin a) (Fin b) = fl_round (a * b)"
| "fl_mul x y =
     (case (fl_sign x, fl_sign y) of
        (Some sx, Some sy) \<Rightarrow>
          if sx * sy = 0 then NaN else if 0 < sx * sy then PInf else NInf
      | _ \<Rightarrow> NaN)"

text \<open>
  \<^verbatim>\<open>x / y\<close> on floats raises \<^verbatim>\<open>ZeroDivisionError\<close> for a zero divisor; that exception is
  the value \<open>None\<close> here.
\<close>

fun fl_div :: "pyfloat \<Rightarrow> pyfloat \<Rightarrow> pyfloat option" where
  "fl_div x (Fin b) =
     (if b = 0 then None
      else case x of
        Fin a \<Rightarrow> Some (fl_round (a / b))
      | PInf \<Rightarrow> Some (if 0 < b then PInf else NInf)
      | NInf \<Rightarrow> Some (if 0 < b then NInf else PInf)
      | NaN \<Rightarrow> Some NaN)"
| "fl_div (Fin a) PInf = Some (Fin 0)"
| "fl_div (Fin a) NInf = Some (Fin 0)"
| "fl_div _ _ = Some NaN"

text \<open>\<^verbatim>\<open>x < y\<close> on floats; a comparison with a NaN is false.\<close>

fun fl_less :: "pyfloat \<Rightarrow> pyfloat \<Rightarrow> bool" where
  "fl_less (Fin a) (Fin b) = (a < b)"
| "fl_less NaN _ = False"
| "fl_less _ NaN = False"
| "fl_less NInf y = (y \<noteq> NInf)"
| "fl_less x PInf = (x \<noteq> PInf)"
| "fl_less _ _ = False"

text \<open>\<^verbatim>\<open>float(n)\<close> of an integer within the range of the floats.\<close>

definition fl_of_int :: "int \<Rightarrow> pyfloat" where
  "fl_of_int n = fl_round (of_int n)"

text \<open>\<^verbatim>\<open>fabs(x)\<close>, \<^verbatim>\<open>isfinite(x)\<close> and \<^verbatim>\<open>x >= y\<close> on floats.\<close>

fun fl_abs :: "pyfloat \<Rightarrow> pyfloat" where
  "fl_abs (Fin a) = Fin \<bar>a\<bar>"
| "fl_abs PInf = PInf"
| "fl_abs NInf = PInf"
| "fl_abs NaN = NaN"

fun fl_finite :: "pyfloat \<Rightarrow> bool" where
  "fl_finite (Fin a) = True"
| "fl_finite _ = False"

definition fl_ge :: "pyfloat \<Rightarrow> pyfloat \<Rightarrow> bool" where
  "fl_ge x y = (x \<noteq> NaN \<and> y \<noteq> NaN \<and> \<not> fl_less x y)"


section \<open>Parsed JSON and the operations the runner applies to it\<close>

text \<open>
  A log file is read with \<^verbatim>\<open>json.load\<close>; what the runner handles is the resulting Python
  value. A dictionary is the list of its items (a key is looked up from the front).
  Python checks types when an operation runs, so each operation below returns either its
  result or the exception Python raises.
\<close>

datatype json =
    JNull
  | JBool bool
  | JInt int
  | JFloat pyfloat
  | JStr string
  | JArr "json list"
  | JObj "(string \<times> json) list"

datatype pyerr =
    AttributeError
  | TypeError
  | KeyError
  | IndexError
  | ValueError
  | OverflowError
  | ZeroDivisionError
  | TimeoutExpired
  | JSONDecodeError
  | PermissionError
  | FileNotFoundError
  | BadZipFile
  | OtherError

definition bind_err :: "pyerr + 'a \<Rightarrow> ('a \<Rightarrow> pyerr + 'b) \<Rightarrow> pyerr + 'b" where
  "bind_err m f = (case m of Inl e \<Rightarrow> Inl e | Inr x \<Rightarrow> f x)"

text \<open>Truth value of a Python object, as \<^verbatim>\<open>if x:\<close> takes it.\<close>

fun truthy :: "json \<Rightarrow> bool" where
  "truthy JNull = False"
| "truthy (JBool b) = b"
| "truthy (JInt i) = (i \<noteq> 0)"
| "truthy (JFloat f) = (f \<noteq> Fin 0)"
| "truthy (JStr s) = (s \<noteq> [])"
| "truthy (JArr xs) = (xs \<noteq> [])"
| "truthy (JObj kvs) = (kvs \<noteq> [])"

text \<open>\<^verbatim>\<open>d.get(k, default)\<close> on the items of a dictionary.\<close>

definition get_item :: "(string \<times> json) list \<Rightarrow> string \<Rightarrow> json \<Rightarrow> json" where
  "get_item kvs k d = (case map_of kvs k of Some v \<Rightarrow> v | None \<Rightarrow> d)"

text \<open>\<^verbatim>\<open>x.get(k, default)\<close> on any value: only a dictionary has the method.\<close>

fun py_get :: "json \<Rightarrow> string \<Rightarrow> json \<Rightarrow> pyerr + json" where
  "py_get (JObj kvs) k d = Inr (get_item kvs k d)"
| "py_get _ k d = Inl AttributeError"

text \<open>
  \<^verbatim>\<open>x[0]\<close> on a value that passed \<^verbatim>\<open>if x:\<close>. The keys of a parsed dictionary are
  strings, so the key 0 is never among them.
\<close>

fun py_first :: "json \<Rightarrow> pyerr + json" where
  "py_first (JArr (x # xs)) = Inr x"
| "py_first (JArr []) = Inl IndexError"
| "py_first (JStr (c # cs)) = Inr (JStr [c])"
| "py_first (JStr []) = Inl IndexError"
| "py_first (JObj kvs) = Inl KeyError"
| "py_first _ = Inl TypeError"

text \<open>
  \<^verbatim>\<open>k in x\<close> for a string \<open>k\<close>: a key of a dictionary, an element of a list, a
  substring of a string.
\<close>

fun py_in :: "string \<Rightarrow> json \<Rightarrow> pyerr + bool" where
  "py_in k (JObj kvs) = Inr (k \<in> set (map fst kvs))"
| "py_in k (JArr xs) = Inr (JStr k \<in> set xs)"
| "py_in k (JStr s) = Inr (contains k s)"
| "py_in k _ = Inl TypeError"

text \<open>\<^verbatim>\<open>x[k]\<close> for a string \<open>k\<close>.\<close>

fun py_item :: "json \<Rightarrow> string \<Rightarrow> pyerr + json" where
  "py_item (JObj kvs) k = (case map_of kvs k of Some v \<Rightarrow> Inr v | None \<Rightarrow> Inl KeyError)"
| "py_item _ k = Inl TypeError"

text \<open>\<^verbatim>\<open>len(x)\<close> and the elements a \<^verbatim>\<open>for\<close> loop over \<open>x\<close> visits.\<close>

fun py_len :: "json \<Rightarrow> pyerr + nat" where
  "py_len (JArr xs) = Inr (length xs)"
| "py_len (JObj kvs) = Inr (length kvs)"
| "py_len (JStr s) = Inr (length s)"
| "py_len _ = Inl TypeError"

fun py_iter :: "json \<Rightarrow> pyerr + json list" where
  "py_iter (JArr xs) = Inr xs"
| "py_iter (JObj kvs) = Inr (map (\<lambda>kv. JStr (fst kv)) kvs)"
| "py_iter (JStr s) = Inr (map (\<lambda>c. JStr [c]) s)"
| "py_iter _ = Inl TypeError"

subsection \<open>Character classes, case and stripping\<close>

text \<open>
  \<^verbatim>\<open>str.isspace\<close>, which is also the class \<^verbatim>\<open>\s\<close> of a regular expression on strings,
  and the class \<^verbatim>\<open>\w\<close> (alphanumeric or underscore), on the code points below 256.
\<close>

definition is_space :: "char \<Rightarrow> bool" where
  "is_space c =
     (let n = code c
      in (9 \<le> n \<and> n \<le> 13) \<or> (28 \<le> n \<and> n \<le> 32) \<or> n = 133 \<or> n = 160)"

definition is_word :: "char \<Rightarrow> bool" where
  "is_word c =
     (let n = code c
      in (48 \<le> n \<and> n \<le> 57) \<or> (65 \<le> n \<and> n \<le> 90) \<or> n = 95 \<or> (97 \<le> n \<and> n \<le> 122)
         \<or> n = 170 \<or> n = 178 \<or> n = 179 \<or> n = 181 \<or> n = 185 \<or> n = 186
         \<or> (188 \<le> n \<and> n \<le> 190) \<or> (192 \<le> n \<and> n \<le> 214) \<or> (216 \<le> n \<and> n \<le> 246)
         \<or> 248 \<le> n)"

text \<open>
  \<^verbatim>\<open>str.upper()\<close>. The sharp s (223) becomes \<^verbatim>\<open>SS\<close>. The micro sign (181) and the y with
  diaeresis (255) have their upper-case letters outside Latin-1 and are left as they are
  here; neither they nor their upper-case letters are among A-E, the only letters an
  upper-cased string is compared with below.
\<close>

definition upper_char :: "char \<Rightarrow> string" where
  "upper_char c =
     (let n = code c
      in if (97 \<le> n \<and> n \<le> 122) \<or> (224 \<le> n \<and> n \<le> 254 \<and> n \<noteq> 247)
         then [char_of (n - 32)]
         else if n = 223 then ''SS'' else [c])"

definition upper :: "string \<Rightarrow> string" where
  "upper s = concat (map upper_char s)"

definition strip :: "string \<Rightarrow> string" where
  "strip s = rev (dropWhile is_space (rev (dropWhile is_space s)))"

subsection \<open>The answer pattern\<close>

text \<open>
  \<^verbatim>\<open>re.search(r'(?:ANSWER|Answer|answer)[:\s]*([A-Ea-e])\b', text)\<close>: the leftmost
  position where one of the three spellings stands, followed by any number of colons and
  white space, a letter A-E in either case, and a word boundary (the end of the text or
  a character outside \<^verbatim>\<open>\w\<close>). The separators and the letters are disjoint classes, so
  giving back separators never creates a match; at a position at most one spelling
  matches. The result is group 1, the letter.
\<close>

definition answer_keywords :: "string list" where
  "answer_keywords = [''ANSWER'', ''Answer'', ''answer'']"

definition is_sep :: "char \<Rightarrow> bool" where
  "is_sep c = (c = CHR '':'' \<or> is_space c)"

definition is_choice_letter :: "char \<Rightarrow> bool" where
  "is_choice_letter c = (c \<in> set ''ABCDEabcde'')"

definition answer_at :: "string \<Rightarrow> char option" where
  "answer_at s =
     (if list_ex (\<lambda>k. prefix k s) answer_keywords then
        (case dropWhile is_sep (drop 6 s) of
           [] \<Rightarrow> None
         | c # r \<Rightarrow>
             if is_choice_letter c \<and> (case r of [] \<Rightarrow> True | d # r' \<Rightarrow> \<not> is_word d)
             then Some c else None)
      else None)"

fun answer_search :: "string \<Rightarrow> char option" where
  "answer_search [] = None"
| "answer_search (c # cs) =
     (case answer_at (c # cs) of Some x \<Rightarrow> Some x | None \<Rightarrow> answer_search cs)"

text \<open>\<^verbatim>\<open>re.search\<close> raises \<^verbatim>\<open>TypeError\<close> on anything but a string.\<close>

fun search_answer :: "json \<Rightarrow> pyerr + char option" where
  "search_answer (JStr t) = Inr (answer_search t)"
| "search_answer _ = Inl TypeError"

text \<open>\<^verbatim>\<open>x.upper()\<close> on any value: only a string has the method.\<close>

fun py_upper :: "json \<Rightarrow> pyerr + string" where
  "py_upper (JStr s) = Inr (upper s)"
| "py_upper _ = Inl AttributeError"

section \<open>Per-sample correctness\<close>

definition valid_answers :: "string list" where
  "valid_answers = [''A'', ''B'', ''C'', ''D'', ''E'']"

text \<open>
  The loop over the blocks of a message: \<open>Some a\<close> when the loop returns the answer
  \<open>a\<close>, \<open>None\<close> when it runs to its end.
\<close>

fun scan_blocks :: "json list \<Rightarrow> pyerr + string option" where
  "scan_blocks [] = Inr None"
| "scan_blocks (block # rest) =
     (case block of
        JObj kvs \<Rightarrow>
          if get_item kvs ''type'' JNull = JStr ''text'' then
            (case search_answer (get_item kvs ''text'' (JStr [])) of
               Inl e \<Rightarrow> Inl e
             | Inr (Some c) \<Rightarrow> Inr (Some (upper [c]))
             | Inr None \<Rightarrow> scan_blocks rest)
          else if get_item kvs ''type'' JNull = JStr ''reasoning'' then
            (let summary = get_item kvs ''summary'' (JStr [])
             in if truthy summary then
                  (case search_answer summary of
                     Inl e \<Rightarrow> Inl e
                   | Inr (Some c) \<Rightarrow> Inr (Some (upper [c]))
                   | Inr None \<Rightarrow> scan_blocks rest)
                else scan_blocks rest)
          else scan_blocks rest
      | _ \<Rightarrow> scan_blocks rest)"

text \<open>The first stage: the content of the first choice's message.\<close>

definition from_message :: "json \<Rightarrow> pyerr + string option" where
  "from_message output =
     bind_err (py_get output ''choices'' (JArr [])) (\<lambda>choices.
       if truthy choices then
         bind_err (py_first choices) (\<lambda>choice0.
         bind_err (py_get choice0 ''message'' (JObj [])) (\<lambda>message.
         bind_err (py_get message ''content'' (JArr [])) (\<lambda>content.
           case content of
             JArr blocks \<Rightarrow> scan_blocks blocks
           | JStr text \<Rightarrow>
               (case answer_search text of Some c \<Rightarrow> Inr (Some (upper [c])) | None \<Rightarrow> Inr None)
           | _ \<Rightarrow> Inr None)))
       else Inr None)"

text \<open>The second stage: the raw completion.\<close>

definition from_completion :: "json \<Rightarrow> pyerr + string option" where
  "from_completion output =
     bind_err (py_get output ''completion'' (JStr [])) (\<lambda>completion.
       if truthy completion then
         bind_err (search_answer completion) (\<lambda>m.
           case m of Some c \<Rightarrow> Inr (Some (upper [c])) | None \<Rightarrow> Inr None)
       else Inr None)"

text \<open>
  The last stages: the explanation of the \<^verbatim>\<open>choice\<close> scorer, then its value. The result
  is the returned string, the empty string when nothing is found.
\<close>

definition from_scores :: "json \<Rightarrow> pyerr + string" where
  "from_scores s =
     bind_err (py_get s ''scores'' (JObj [])) (\<lambda>scores.
     bind_err (py_in ''choice'' scores) (\<lambda>has_choice.
       if has_choice then
         bind_err (py_item scores ''choice'') (\<lambda>choice_data.
         bind_err (py_get choice_data ''explanation'' (JStr [])) (\<lambda>explanation.
         bind_err (py_get choice_data ''value'' (JStr [])) (\<lambda>val.
         bind_err (if truthy explanation then search_answer explanation else Inr None) (\<lambda>m.
           case m of
             Some c \<Rightarrow> Inr (upper [c])
           | None \<Rightarrow>
               if truthy val then
                 bind_err (py_upper val) (\<lambda>u. if u \<in> set valid_answers then Inr u else Inr [])
               else Inr []))))
       else Inr []))"

definition extract_predicted :: "json \<Rightarrow> pyerr + string" where
  "extract_predicted s =
     bind_err (py_get s ''output'' (JObj [])) (\<lambda>output.
     bind_err (from_message output) (\<lambda>r1.
       case r1 of
         Some a \<Rightarrow> Inr a
       | None \<Rightarrow>
           bind_err (from_completion output) (\<lambda>r2.
             case r2 of
               Some a \<Rightarrow> Inr a
             | None \<Rightarrow> from_scores s)))"

text \<open>
  \<^verbatim>\<open>str(x)\<close>: a string is itself; the printing of any other value is the parameter
  \<open>str_json\<close>.
\<close>

definition py_str :: "(json \<Rightarrow> string) \<Rightarrow> json \<Rightarrow> string" where
  "py_str str_json x = (case x of JStr t \<Rightarrow> t | _ \<Rightarrow> str_json x)"

definition extract_expected :: "(json \<Rightarrow> string) \<Rightarrow> json \<Rightarrow> pyerr + json" where
  "extract_expected str_json s =
     bind_err (py_get s ''target'' (JStr [])) (\<lambda>target.
       if truthy target then Inr (JStr (strip (py_str str_json target)))
       else
         bind_err (py_get s ''scores'' (JObj [])) (\<lambda>scores.
         bind_err (py_in ''choice'' scores) (\<lambda>has_choice.
           if has_choice then
             bind_err (py_item scores ''choice'') (\<lambda>choice_data.
               py_get choice_data ''answer'' (JStr []))
           else Inr (JStr []))))"

text \<open>\<^verbatim>\<open>x == 1\<close>: the integer 1, the float 1.0 and \<^verbatim>\<open>True\<close> are equal to 1.\<close>

fun eq_one :: "json \<Rightarrow> bool" where
  "eq_one (JInt i) = (i = 1)"
| "eq_one (JFloat f) = (f = Fin 1)"
| "eq_one (JBool b) = b"
| "eq_one _ = False"

definition is_sample_correct :: "(json \<Rightarrow> string) \<Rightarrow> json \<Rightarrow> pyerr + bool" where
  "is_sample_correct str_json s =
     bind_err (py_get s ''scores'' (JObj [])) (\<lambda>scores.
     bind_err (py_in ''choice'' scores) (\<lambda>has_choice.
       if has_choice then
         bind_err (extract_predicted s) (\<lambda>predicted.
         bind_err (extract_expected str_json s) (\<lambda>expected.
           if predicted \<noteq> [] \<and> truthy expected then
             bind_err (py_upper expected) (\<lambda>e. Inr (upper predicted = e))
           else Inr False))
       else
         bind_err (py_get s ''score'' (JObj [])) (\<lambda>score.
           case score of
             JObj kvs \<Rightarrow> Inr (eq_one (get_item kvs ''value'' JNull))
           | _ \<Rightarrow> Inr False)))"

subsection \<open>Vocabulary of the claims about samples\<close>

text \<open>
  The content of the first choice's message (\<^verbatim>\<open>output.choices[0].message.content\<close>) of a
  sample whose fields on the way are dictionaries and whose choices are a non-empty list.
\<close>

definition message_content :: "json \<Rightarrow> json option" where
  "message_content s =
     (case s of
        JObj kvs \<Rightarrow>
          (case get_item kvs ''output'' (JObj []) of
             JObj okvs \<Rightarrow>
               (case get_item okvs ''choices'' (JArr []) of
                  JArr (JObj ckvs # rest) \<Rightarrow>
                    (case get_item ckvs ''message'' (JObj []) of
                       JObj mkvs \<Rightarrow> Some (get_item mkvs ''content'' (JArr []))
                     | _ \<Rightarrow> None)
                | _ \<Rightarrow> None)
           | _ \<Rightarrow> None)
      | _ \<Rightarrow> None)"

text \<open>
  The raw response of a message content, as the values in which an answer is looked for,
  in order: the content itself when it is a string; when it is a list, for every block
  that is a dictionary, the \<^verbatim>\<open>text\<close> of a block of type \<^verbatim>\<open>text\<close> and the \<^verbatim>\<open>summary\<close> of a
  block of type \<^verbatim>\<open>reasoning\<close> unless that summary is empty. Any other block gives
  nothing.
\<close>

definition searched_block :: "json \<Rightarrow> json list" where
  "searched_block block =
     (case block of
        JObj kvs \<Rightarrow>
          if get_item kvs ''type'' JNull = JStr ''text'' then [get_item kvs ''text'' (JStr [])]
          else if get_item kvs ''type'' JNull = JStr ''reasoning''
                  \<and> truthy (get_item kvs ''summary'' (JStr []))
          then [get_item kvs ''summary'' (JStr [])]
          else []
      | _ \<Rightarrow> [])"

definition searched_texts :: "json \<Rightarrow> json list" where
  "searched_texts content =
     (case content of
        JStr t \<Rightarrow> [JStr t]
      | JArr blocks \<Rightarrow> concat (map searched_block blocks)
      | _ \<Rightarrow> [])"

text \<open>The sample has an entry \<^verbatim>\<open>choice\<close> in its \<^verbatim>\<open>scores\<close>.\<close>

definition scored_by_choice :: "json \<Rightarrow> bool" where
  "scored_by_choice s =
     (bind_err (py_get s ''scores'' (JObj [])) (py_in ''choice'') = Inr True)"

text \<open>The verdict of the old log format: \<^verbatim>\<open>score.value == 1\<close>.\<close>

definition old_format_verdict :: "json \<Rightarrow> bool" where
  "old_format_verdict s =
     (case s of
        JObj kvs \<Rightarrow>
          (case get_item kvs ''score'' (JObj []) of
             JObj sk \<Rightarrow> eq_one (get_item sk ''value'' JNull)
           | _ \<Rightarrow> False)
      | _ \<Rightarrow> False)"

subsection \<open>Example samples\<close>

text \<open>
  The response is \<^verbatim>\<open>Answer: B\<close> and the target is B; the scorer recorded answer A and
  the verdict I (incorrect).
\<close>

definition sample_scored_wrong :: json where
  "sample_scored_wrong =
     JObj [(''output'', JObj [(''choices'',
              JArr [JObj [(''message'', JObj [(''content'', JStr ''Answer: B'')])]])]),
           (''target'', JStr ''B''),
           (''scores'', JObj [(''choice'', JObj [(''value'', JStr ''I''), (''answer'', JStr ''A'')])])]"

text \<open>The response holds \<^verbatim>\<open>Answer: B\<close>, after an earlier match of the pattern.\<close>

definition sample_earlier_match :: json where
  "sample_earlier_match =
     JObj [(''output'', JObj [(''choices'',
              JArr [JObj [(''message'',
                JObj [(''content'', JStr ''To answer a question: Answer: B'')])]])]),
           (''target'', JStr ''B''),
           (''scores'', JObj [(''choice'', JObj [(''value'', JStr ''C''), (''answer'', JStr ''B'')])])]"

text \<open>
  The response is a list of blocks: an image, a reasoning block without a summary, a text
  without an answer and the text \<^verbatim>\<open>Answer: b\<close>; the scorer recorded the verdict I
  (incorrect).
\<close>

definition blocks_answer_last :: "json list" where
  "blocks_answer_last =
     [JObj [(''type'', JStr ''image''), (''image'', JStr ''data:'')],
      JObj [(''type'', JStr ''reasoning''), (''summary'', JNull)],
      JObj [(''type'', JStr ''text''), (''text'', JStr ''Let me think.'')],
      JObj [(''type'', JStr ''text''), (''text'', JStr ''Answer: b'')]]"

definition sample_blocks :: json where
  "sample_blocks =
     JObj [(''output'', JObj [(''choices'',
              JArr [JObj [(''message'', JObj [(''content'', JArr blocks_answer_last)])]])]),
           (''target'', JStr ''B''),
           (''scores'', JObj [(''choice'', JObj [(''value'', JStr ''I''), (''answer'', JStr ''A'')])])]"

text \<open>
  The response text is \<^verbatim>\<open>Answer: B\<close>, after a reasoning block whose summary holds
  \<^verbatim>\<open>Answer: A\<close>.
\<close>

definition sample_reasoning_first :: json where
  "sample_reasoning_first =
     JObj [(''output'', JObj [(''choices'',
              JArr [JObj [(''message'', JObj [(''content'',
                JArr [JObj [(''type'', JStr ''reasoning''), (''summary'', JStr ''Answer: A'')],
                      JObj [(''type'', JStr ''text''), (''text'', JStr ''Answer: B'')]])])]])]),
           (''target'', JStr ''B''),
           (''scores'', JObj [(''choice'', JObj [(''value'', JStr ''B''), (''answer'', JStr ''B'')])])]"

text \<open>The response is \<^verbatim>\<open>Answer: B\<close>; the sample is scored in the old format.\<close>

definition sample_old_format :: json where
  "sample_old_format =
     JObj [(''output'', JObj [(''choices'',
              JArr [JObj [(''message'', JObj [(''content'', JStr ''Answer: B'')])]])]),
           (''target'', JStr ''B''),
           (''score'', JObj [(''value'', JInt 0)])]"

text \<open>No output at all, and an old-format score of 1.\<close>

definition sample_score_one :: json where
  "sample_score_one = JObj [(''score'', JObj [(''value'', JInt 1)])]"

text \<open>A response without an answer, scored by the choice scorer as I (incorrect).\<close>

definition sample_nothing :: json where
  "sample_nothing =
     JObj [(''output'', JObj [(''choices'',
              JArr [JObj [(''message'', JObj [(''content'', JStr ''I do not know.'')])]]),
              (''completion'', JStr ''I do not know.'')]),
           (''target'', JStr ''B''),
           (''scores'', JObj [(''choice'', JObj [(''value'', JStr ''I''), (''explanation'', JStr ''I do not know.'')])])]"

section \<open>Benchmark tables\<close>

definition SUPPORTED_BENCHMARKS :: "(string \<times> string) list" where
  "SUPPORTED_BENCHMARKS =
    [
     (''apps'', ''inspect_evals/apps''), (''agent_bench'', ''inspect_evals/agent_bench''),
     (''bigcodebench'', ''inspect_evals/bigcodebench''), (''core_bench'', ''inspect_evals/core_bench''),
     (''class_eval'', ''inspect_evals/class_eval''), (''ds1000'', ''inspect_evals/ds1000''),
     (''humaneval'', ''inspect_evals/humaneval''), (''mbpp'', ''inspect_evals/mbpp''),
     (''mle_bench'', ''inspect_evals/mle_bench''), (''mle_bench_lite'', ''inspect_evals/mle_bench_lite''),
     (''paperbench'', ''inspect_evals/paperbench''), (''swe_bench'', ''inspect_evals/swe_bench''),
     (''swe_bench_verified'', ''inspect_evals/swe_bench_verified''), (''scicode'', ''inspect_evals/scicode''),
     (''usaco'', ''inspect_evals/usaco''), (''assistant_bench'', ''inspect_evals/assistant_bench''),
     (''assistant_bench_closed'', ''inspect_evals/assistant_bench_closed_book''), (''assistant_bench_web'', ''inspect_evals/assistant_bench_web_search''),
     (''bfcl'', ''inspect_evals/bfcl''), (''browse_comp'', ''inspect_evals/browse_comp''),
     (''gaia'', ''inspect_evals/gaia''), (''gaia_level1'', ''inspect_evals/gaia_level1''),
     (''gaia_level2'', ''inspect_evals/gaia_level2''), (''gaia_level3'', ''inspect_evals/gaia_level3''),
     (''gdpval'', ''inspect_evals/gdpval''), (''mind2web'', ''inspect_evals/mind2web''),
     (''osworld'', ''inspect_evals/osworld''), (''osworld_small'', ''inspect_evals/osworld_small''),
     (''sycophancy'', ''inspect_evals/sycophancy''), (''cve_bench'', ''inspect_evals/cve_bench''),
     (''cyberseceval_3'', ''inspect_evals/cyberseceval_3''), (''cyberseceval_2'', ''inspect_evals/cyberseceval_2''),
     (''threecb'', ''inspect_evals/threecb''), (''cybench'', ''inspect_evals/cybench''),
     (''cybermetric'', ''inspect_evals/cybermetric''), (''gdm_intercode_ctf'', ''inspect_evals/gdm_intercode_ctf''),
     (''gdm_in_house_ctf'', ''inspect_evals/gdm_in_house_ctf''), (''sevenllm'', ''inspect_evals/sevenllm''),
     (''sandboxbench'', ''inspect_evals/sandboxbench''), (''sec_qa'', ''inspect_evals/sec_qa''),
     (''ahb'', ''inspect_evals/ahb''), (''abstention_bench'', ''inspect_evals/abstention_bench''),
     (''agentdojo'', ''inspect_evals/agentdojo''), (''agentharm'', ''inspect_evals/agentharm''),
     (''fortress'', ''inspect_evals/fortress''), (''lab_bench'', ''inspect_evals/lab_bench''),
     (''mask'', ''inspect_evals/mask''), (''make_me_pay'', ''inspect_evals/make_me_pay''),
     (''makemesay'', ''inspect_evals/makemesay''), (''mind2web_sc'', ''inspect_evals/mind2web_sc''),
     (''stereoset'', ''inspect_evals/stereoset''), (''strong_reject'', ''inspect_evals/strong_reject''),
     (''coconot'', ''inspect_evals/coconot''), (''wmdp'', ''inspect_evals/wmdp''),
     (''b3'', ''inspect_evals/b3''), (''toxigen'', ''inspect_evals/toxigen''),
     (''xstest'', ''inspect_evals/xstest''), (''aime2024'', ''inspect_evals/aime2024''),
     (''aime2025'', ''inspect_evals/aime2025''), (''gsm8k'', ''inspect_evals/gsm8k''),
     (''math'', ''inspect_evals/math''), (''mgsm'', ''inspect_evals/mgsm''),
     (''mathvista'', ''inspect_evals/mathvista''), (''arc'', ''inspect_evals/arc_challenge''),
     (''bbh'', ''inspect_evals/bbh''), (''bbeh'', ''inspect_evals/bbeh''),
     (''boolq'', ''inspect_evals/boolq''), (''drop'', ''inspect_evals/drop''),
     (''hellaswag'', ''inspect_evals/hellaswag''), (''ifeval'', ''inspect_evals/ifeval''),
     (''lingoly'', ''inspect_evals/lingoly''), (''mmmu'', ''inspect_evals/mmmu''),
     (''musr'', ''inspect_evals/musr''), (''niah'', ''inspect_evals/niah''),
     (''novelty_bench'', ''inspect_evals/novelty_bench''), (''paws'', ''inspect_evals/paws''),
     (''piqa'', ''inspect_evals/piqa''), (''race_h'', ''inspect_evals/race_h''),
     (''squad'', ''inspect_evals/squad''), (''vimgolf'', ''inspect_evals/vimgolf''),
     (''winogrande'', ''inspect_evals/winogrande''), (''worldsense'', ''inspect_evals/worldsense''),
     (''infinite_bench'', ''inspect_evals/infinite_bench''), (''agieval'', ''inspect_evals/agieval''),
     (''air_bench'', ''inspect_evals/air_bench''), (''chembench'', ''inspect_evals/chembench''),
     (''commonsense_qa'', ''inspect_evals/commonsense_qa''), (''gpqa'', ''inspect_evals/gpqa''),
     (''gpqa_diamond'', ''inspect_evals/gpqa_diamond''), (''healthbench'', ''inspect_evals/healthbench''),
     (''hle'', ''inspect_evals/hle''), (''livebench'', ''inspect_evals/livebench''),
     (''mmlu_pro'', ''inspect_evals/mmlu_pro''), (''mmlu'', ''inspect_evals/mmlu_0_shot''),
     (''mmlu_5_shot'', ''inspect_evals/mmlu_5_shot''), (''medqa'', ''inspect_evals/medqa''),
     (''onet'', ''inspect_evals/onet''), (''pre_flight'', ''inspect_evals/pre_flight''),
     (''pubmedqa'', ''inspect_evals/pubmedqa''), (''sosbench'', ''inspect_evals/sosbench''),
     (''sciknoweval'', ''inspect_evals/sciknoweval''), (''simpleqa'', ''inspect_evals/simpleqa''),
     (''truthfulqa'', ''inspect_evals/truthfulqa''), (''uccb'', ''inspect_evals/uccb''),
     (''agentic_misalignment'', ''inspect_evals/agentic_misalignment''), (''gdm_sp_apps'', ''inspect_evals/gdm_sp_apps''),
     (''gdm_sr_self_reasoning'', ''inspect_evals/gdm_sr_self_reasoning''), (''gdm_stealth'', ''inspect_evals/gdm_stealth''),
     (''docvqa'', ''inspect_evals/docvqa''), (''mmiu'', ''inspect_evals/mmiu''),
     (''vstar_bench'', ''inspect_evals/vstar_bench''), (''zerobench'', ''inspect_evals/zerobench''),
     (''bbq'', ''inspect_evals/bbq''), (''bold'', ''inspect_evals/bold''),
     (''personality_bfi'', ''inspect_evals/personality_bfi''), (''personality_trait'', ''inspect_evals/personality_trait''),
     (''personality_prime'', ''inspect_evals/personality_prime''), (''writingbench'', ''inspect_evals/writingbench'')]"

record dependency_info =
  package :: "string option"
  install_cmd :: "string option"
  requirements :: "string list"
  dep_description :: string

definition BENCHMARK_DEPENDENCIES :: "(string \<times> dependency_info) list" where
  "BENCHMARK_DEPENDENCIES =
    [
     (''swe_bench'', \<lparr>package = Some ''swebench'', install_cmd = Some ''pip install inspect-evals[swe_bench]'',
        requirements = [''Python 3.11+'', ''Docker''],
        dep_description = ''Software engineering benchmark requiring code execution sandbox''\<rparr>),
     (''swe_bench_verified'', \<lparr>package = Some ''swebench'', install_cmd = Some ''pip install inspect-evals[swe_bench]'',
        requirements = [''Python 3.11+'', ''Docker''],
        dep_description = ''Verified subset of SWE-bench''\<rparr>),
     (''mle_bench'', \<lparr>package = Some ''mlebench'', install_cmd = Some ''pip install inspect-evals[mle_bench]'',
        requirements = [''Python 3.11+''],
        dep_description = ''Machine learning engineering benchmark''\<rparr>),
     (''mle_bench_lite'', \<lparr>package = Some ''mlebench'', install_cmd = Some ''pip install inspect-evals[mle_bench]'',
        requirements = [''Python 3.11+''],
        dep_description = ''Lite version of MLE-bench''\<rparr>),
     (''gaia'', \<lparr>package = Some ''playwright'', install_cmd = Some ''pip install inspect-evals[gaia] && playwright install'',
        requirements = [''Playwright browsers''],
        dep_description = ''General AI assistants benchmark with web browsing''\<rparr>),
     (''gaia_level1'', \<lparr>package = Some ''playwright'', install_cmd = Some ''pip install inspect-evals[gaia] && playwright install'',
        requirements = [''Playwright browsers''],
        dep_description = ''GAIA Level 1 tasks''\<rparr>),
     (''gaia_level2'', \<lparr>package = Some ''playwright'', install_cmd = Some ''pip install inspect-evals[gaia] && playwright install'',
        requirements = [''Playwright browsers''],
        dep_description = ''GAIA Level 2 tasks''\<rparr>),
     (''gaia_level3'', \<lparr>package = Some ''playwright'', install_cmd = Some ''pip install inspect-evals[gaia] && playwright install'',
        requirements = [''Playwright browsers''],
        dep_description = ''GAIA Level 3 tasks''\<rparr>),
     (''cybench'', \<lparr>package = None, install_cmd = None,
        requirements = [''Docker'', ''65GB+ disk space''],
        dep_description = ''Cybersecurity benchmark requiring Docker containers''\<rparr>),
     (''gdm_intercode_ctf'', \<lparr>package = None, install_cmd = None,
        requirements = [''Docker'', ''32GB+ RAM''],
        dep_description = ''GDM CTF benchmark requiring Docker''\<rparr>),
     (''gdm_in_house_ctf'', \<lparr>package = None, install_cmd = None,
        requirements = [''Docker'', ''32GB+ RAM''],
        dep_description = ''GDM in-house CTF benchmark requiring Docker''\<rparr>),
     (''osworld'', \<lparr>package = None, install_cmd = None,
        requirements = [''Docker''],
        dep_description = ''OS-level task benchmark requiring Docker''\<rparr>),
     (''osworld_small'', \<lparr>package = None, install_cmd = None,
        requirements = [''Docker''],
        dep_description = ''Small subset of OSWorld''\<rparr>),
     (''sciknoweval'', \<lparr>package = Some ''gensim'', install_cmd = Some ''pip install gensim'',
        requirements = [''Python 3.10-3.12 (not 3.13+)''],
        dep_description = ''Scientific knowledge evaluation (gensim dependency)''\<rparr>)]"

definition get_benchmark_dependency_info :: "string \<Rightarrow> dependency_info option" where
  "get_benchmark_dependency_info benchmark = map_of BENCHMARK_DEPENDENCIES benchmark"

section \<open>Events\<close>

text \<open>
  An event is the dictionary the generator yields,
  \<^verbatim>\<open>{"type": ..., "data": {...}}\<close>, as a JSON object. \<^verbatim>\<open>None\<close> is \<open>JNull\<close>.
\<close>

datatype ErrorCode =
    INSPECT_NOT_INSTALLED
  | EVALS_NOT_INSTALLED
  | BENCHMARK_NOT_FOUND
  | PROVIDER_NOT_FOUND
  | API_KEY_MISSING
  | EVALUATION_TIMEOUT
  | EVALUATION_FAILED
  | INVALID_PARAMETER
  | PARSE_ERROR

fun code_value :: "ErrorCode \<Rightarrow> string" where
  "code_value INSPECT_NOT_INSTALLED = ''INSPECT_NOT_INSTALLED''"
| "code_value EVALS_NOT_INSTALLED = ''EVALS_NOT_INSTALLED''"
| "code_value BENCHMARK_NOT_FOUND = ''BENCHMARK_NOT_FOUND''"
| "code_value PROVIDER_NOT_FOUND = ''PROVIDER_NOT_FOUND''"
| "code_value API_KEY_MISSING = ''API_KEY_MISSING''"
| "code_value EVALUATION_TIMEOUT = ''EVALUATION_TIMEOUT''"
| "code_value EVALUATION_FAILED = ''EVALUATION_FAILED''"
| "code_value INVALID_PARAMETER = ''INVALID_PARAMETER''"
| "code_value PARSE_ERROR = ''PARSE_ERROR''"

type_synonym event = json

text \<open>The details are added only when they are a non-empty dictionary.\<close>

definition create_error :: "ErrorCode \<Rightarrow> string \<Rightarrow> (string \<times> json) list \<Rightarrow> event" where
  "create_error c message details =
     JObj [(''type'', JStr ''error''),
           (''data'', JObj ([(''code'', JStr (code_value c)),
                            (''error'', JStr message),
                            (''message'', JStr message)]
                           @ (if details \<noteq> [] then [(''details'', JObj details)] else [])))]"

definition create_progress :: "string \<Rightarrow> (string \<times> json) list \<Rightarrow> event" where
  "create_progress message extra =
     JObj [(''type'', JStr ''progress''), (''data'', JObj ((''message'', JStr message) # extra))]"

definition create_result ::
  "int \<Rightarrow> int \<Rightarrow> bool \<Rightarrow> json \<Rightarrow> json \<Rightarrow> (string \<times> json) list \<Rightarrow> event" where
  "create_result question tot correct running_score latency_ms extra =
     JObj [(''type'', JStr ''result''),
           (''data'', JObj ([(''question'', JInt question),
                            (''currentQuestion'', JInt question),
                            (''questionIndex'', JInt (question - 1)),
                            (''total'', JInt tot),
                            (''correct'', JBool correct),
                            (''runningScore'', running_score),
                            (''running_score'', running_score),
                            (''latencyMs'', latency_ms),
                            (''latency_ms'', latency_ms)] @ extra))]"

definition create_complete :: "json \<Rightarrow> int \<Rightarrow> int \<Rightarrow> (string \<times> json) list \<Rightarrow> event" where
  "create_complete score correct tot extra =
     JObj [(''type'', JStr ''complete''),
           (''data'', JObj ([(''score'', score), (''correct'', JInt correct),
                            (''total'', JInt tot)] @ extra))]"

text \<open>The type and the data fields of an event.\<close>

definition event_type :: "event \<Rightarrow> string" where
  "event_type ev =
     (case ev of
        JObj kvs \<Rightarrow> (case get_item kvs ''type'' JNull of JStr t \<Rightarrow> t | _ \<Rightarrow> [])
      | _ \<Rightarrow> [])"

definition event_field :: "event \<Rightarrow> string \<Rightarrow> json" where
  "event_field ev k =
     (case ev of
        JObj kvs \<Rightarrow> (case get_item kvs ''data'' JNull of JObj d \<Rightarrow> get_item d k JNull | _ \<Rightarrow> JNull)
      | _ \<Rightarrow> JNull)"

definition is_terminal :: "event \<Rightarrow> bool" where
  "is_terminal ev = (event_type ev = ''complete'' \<or> event_type ev = ''error'')"

section \<open>Numbers in events\<close>

definition num_json :: "pynum \<Rightarrow> json" where
  "num_json x = (case x of PyInt i \<Rightarrow> JInt i | PyFloat f \<Rightarrow> JFloat f)"

definition opt_json :: "('a \<Rightarrow> json) \<Rightarrow> 'a option \<Rightarrow> json" where
  "opt_json f x = (case x of Some v \<Rightarrow> f v | None \<Rightarrow> JNull)"

text \<open>
  Arithmetic and comparison of Python numbers. In arithmetic an integer (within the range
  of the floats) meets a float as a float; a comparison is by the exact values.
\<close>

definition to_float :: "pynum \<Rightarrow> pyfloat" where
  "to_float x = (case x of PyInt i \<Rightarrow> fl_of_int i | PyFloat f \<Rightarrow> f)"

definition num_exact :: "pynum \<Rightarrow> pyfloat" where
  "num_exact x = (case x of PyInt i \<Rightarrow> Fin (of_int i) | PyFloat f \<Rightarrow> f)"

definition num_less :: "pynum \<Rightarrow> pynum \<Rightarrow> bool" where
  "num_less x y = fl_less (num_exact x) (num_exact y)"

definition num_add :: "pynum \<Rightarrow> pynum \<Rightarrow> pynum" where
  "num_add x y =
     (case (x, y) of
        (PyInt a, PyInt b) \<Rightarrow> PyInt (a + b)
      | _ \<Rightarrow> PyFloat (fl_add (to_float x) (to_float y)))"

definition num_sub :: "pynum \<Rightarrow> pynum \<Rightarrow> pynum" where
  "num_sub x y =
     (case (x, y) of
        (PyInt a, PyInt b) \<Rightarrow> PyInt (a - b)
      | _ \<Rightarrow> PyFloat (fl_sub (to_float x) (to_float y)))"

text \<open>
  True division \<^verbatim>\<open>x / y\<close>: always a float; of two integers the correctly rounded
  quotient.
\<close>

definition num_truediv :: "pynum \<Rightarrow> pynum \<Rightarrow> pyerr + pyfloat" where
  "num_truediv x y =
     (case (x, y) of
        (PyInt a, PyInt b) \<Rightarrow>
          if b = 0 then Inl ZeroDivisionError else Inr (fl_round (of_int a / of_int b))
      | _ \<Rightarrow>
          (case fl_div (to_float x) (to_float y) of
             None \<Rightarrow> Inl ZeroDivisionError
           | Some q \<Rightarrow> Inr q))"

section \<open>Requests and their validation\<close>

record request =
  rq_model_id :: string
  rq_benchmark :: string
  rq_limit :: int
  rq_api_key :: "string option"
  rq_provider :: string
  rq_temperature :: "pynum option"
  rq_max_tokens :: "int option"
  rq_seed :: "int option"
  rq_epochs :: int
  rq_timeout :: "int option"

text \<open>\<^verbatim>\<open>sep.join(xs)\<close>.\<close>

fun join :: "string \<Rightarrow> string list \<Rightarrow> string" where
  "join sep [] = []"
| "join sep [x] = x"
| "join sep (x # y # ys) = x @ sep @ join sep (y # ys)"

text \<open>
  \<^verbatim>\<open>re.compile(r'^[a-zA-Z0-9._:/-]+$').match(model_id)\<close>: a non-empty run of the listed
  characters up to the end of the string, or up to a line feed that ends the string
  (\<^verbatim>\<open>$\<close> also matches before a final line feed).
\<close>

definition model_id_char :: "char \<Rightarrow> bool" where
  "model_id_char c =
     (let n = code c
      in (97 \<le> n \<and> n \<le> 122) \<or> (65 \<le> n \<and> n \<le> 90) \<or> (48 \<le> n \<and> n \<le> 57)
         \<or> c \<in> set ''._:/-'')"

definition model_id_pattern_match :: "string \<Rightarrow> bool" where
  "model_id_pattern_match m =
     (let body = (if m \<noteq> [] \<and> last m = CHR 0x0A then butlast m else m)
      in body \<noteq> [] \<and> list_all model_id_char body)"

definition temperature_out_of_range :: "pynum \<Rightarrow> bool" where
  "temperature_out_of_range t = (num_less t (PyInt 0) \<or> num_less (PyInt 2) t)"

definition validate_parameters ::
  "string \<Rightarrow> string \<Rightarrow> int \<Rightarrow> string \<Rightarrow> pynum option \<Rightarrow> int option \<Rightarrow> int option
   \<Rightarrow> event option" where
  "validate_parameters model_id benchmark limit provider temperature seed epochs =
     (if model_id = [] \<or> strip model_id = [] then
        Some (create_error INVALID_PARAMETER ''Model ID must be a non-empty string''
                [(''parameter'', JStr ''model_id''), (''value'', JStr model_id)])
      else if \<not> model_id_pattern_match model_id \<or> 200 < length model_id then
        Some (create_error INVALID_PARAMETER
                ''Model ID contains invalid characters or is too long (max 200 chars)''
                [(''parameter'', JStr ''model_id''), (''value'', JStr (take 50 model_id))])
      else if limit < 1 then
        Some (create_error INVALID_PARAMETER ''Limit must be a positive integer''
                [(''parameter'', JStr ''limit''), (''value'', JInt limit)])
      else if 10000 < limit then
        Some (create_error INVALID_PARAMETER ''Limit cannot exceed 10,000 samples''
                [(''parameter'', JStr ''limit''), (''value'', JInt limit)])
      else if (case temperature of Some t \<Rightarrow> temperature_out_of_range t | None \<Rightarrow> False) then
        Some (create_error INVALID_PARAMETER ''Temperature must be between 0 and 2''
                [(''parameter'', JStr ''temperature''), (''value'', opt_json num_json temperature)])
      else if (case seed of Some s \<Rightarrow> s < 0 | None \<Rightarrow> False) then
        Some (create_error INVALID_PARAMETER ''Seed must be a non-negative integer''
                [(''parameter'', JStr ''seed''), (''value'', opt_json JInt seed)])
      else if (case epochs of Some e \<Rightarrow> e < 1 \<or> 100 < e | None \<Rightarrow> False) then
        Some (create_error INVALID_PARAMETER ''Epochs must be between 1 and 100''
                [(''parameter'', JStr ''epochs''), (''value'', opt_json JInt epochs)])
      else if lower provider \<notin> set (map fst PROVIDERS) then
        Some (create_error PROVIDER_NOT_FOUND
                (''Unknown provider '' @ [CHR 0x27] @ provider @ [CHR 0x27]
                 @ ''. Available providers: '' @ join '', '' (map fst PROVIDERS))
                [(''parameter'', JStr ''provider''), (''value'', JStr provider),
                 (''available'', JArr (map (\<lambda>p. JStr (fst p)) PROVIDERS))])
      else if benchmark \<notin> set (map fst SUPPORTED_BENCHMARKS) then
        Some (create_error BENCHMARK_NOT_FOUND
                (''Benchmark '' @ [CHR 0x27] @ benchmark @ [CHR 0x27]
                 @ '' not supported. Available: ''
                 @ str_int (int (length SUPPORTED_BENCHMARKS)) @ '' benchmarks'')
                [(''parameter'', JStr ''benchmark''), (''value'', JStr benchmark)])
      else None)"

section \<open>The world outside the runner\<close>

text \<open>
  How a run of the external tool ends: with an exception of \<^verbatim>\<open>subprocess.run\<close> (a
  timeout among them), or with a return code and its captured output.
\<close>

datatype proc_outcome =
    Raised pyerr
  | Completed int string string

text \<open>
  What the file at a path is when it is read: whether \<^verbatim>\<open>zipfile.is_zipfile\<close> holds; what
  opening it as an archive gives (an exception, or the member names in order, each with
  what \<^verbatim>\<open>json.load\<close> gives on the member); and what opening it as text and loading it
  gives.
\<close>

record log_file =
  is_zipfile :: bool
  as_archive :: "pyerr + (string \<times> (pyerr + json)) list"
  as_text :: "pyerr + json"

text \<open>
  The world: the two import checks, the environment variables, the external tool (by
  epoch, command and timeout), the file system (by epoch), \<^verbatim>\<open>os.path.abspath\<close>, and the
  library functions whose text output is not modelled: \<^verbatim>\<open>str\<close> of a float and of a
  parsed value that is not a string, the text of an exception, the format \<^verbatim>\<open>.1f\<close> of a
  score times 100, the latency read from a sample (a value, or an exception), and the
  two readings of the clock that a complete event carries. The last field tells which
  interpreter runs the program: the builtin \<^verbatim>\<open>sum\<close> of CPython 3.12 and later
  compensates the rounding errors of a sum of floats, that of the earlier versions adds
  one float after the other.
\<close>

record world =
  INSPECT_AI_AVAILABLE :: bool
  INSPECT_EVALS_AVAILABLE :: bool
  getenv :: "string \<Rightarrow> string option"
  subprocess_run :: "nat \<Rightarrow> string list \<Rightarrow> int \<Rightarrow> proc_outcome"
  path_exists :: "nat \<Rightarrow> string \<Rightarrow> bool"
  file_at :: "nat \<Rightarrow> string \<Rightarrow> log_file"
  abspath :: "string \<Rightarrow> string"
  w_float_repr :: "pyfloat \<Rightarrow> string"
  w_str_json :: "json \<Rightarrow> string"
  w_exc_text :: "pyerr \<Rightarrow> string"
  w_percent_text :: "pynum \<Rightarrow> string"
  w_latency_of :: "json \<Rightarrow> pyerr + json"
  w_duration_seconds :: pyfloat
  w_timestamp :: string
  w_compensated_sum :: bool

section \<open>Reading the log file\<close>

datatype file_access =
    Checked_Zip string
  | Opened_Archive string
  | Opened_Text string

text \<open>The exceptions \<^verbatim>\<open>parse_log_results\<close> turns into the result \<^verbatim>\<open>None\<close>.\<close>

definition caught_by_parse :: "pyerr \<Rightarrow> bool" where
  "caught_by_parse e =
     (e = JSONDecodeError \<or> e = FileNotFoundError \<or> e = PermissionError \<or> e = BadZipFile)"

definition parse_failure :: "pyerr \<Rightarrow> pyerr + json" where
  "parse_failure e = (if caught_by_parse e then Inr JNull else Inl e)"

text \<open>
  The loop over the members of the archive: the samples in order, and the last header.
\<close>

fun read_members ::
  "(string \<times> (pyerr + json)) list \<Rightarrow> json list \<Rightarrow> json \<Rightarrow> pyerr + (json list \<times> json)" where
  "read_members [] samples header_data = Inr (samples, header_data)"
| "read_members ((entry, loaded) # rest) samples header_data =
     (if prefix ''samples/'' entry \<and> suffix ''.json'' entry then
        (case loaded of
           Inl e \<Rightarrow> Inl e
         | Inr sample_data \<Rightarrow> read_members rest (samples @ [sample_data]) header_data)
      else if entry = ''header.json'' then
        (case loaded of
           Inl e \<Rightarrow> Inl e
         | Inr h \<Rightarrow> read_members rest samples h)
      else read_members rest samples header_data)"

text \<open>
  \<^verbatim>\<open>parse_log_results\<close>. The result is the parsed value, with \<open>JNull\<close> for \<^verbatim>\<open>None\<close>, or
  the exception that escapes; with it comes the list of the accesses made to the file.
  The path separator is \<^verbatim>\<open>/\<close>.
\<close>

definition parse_log_results ::
  "world \<Rightarrow> nat \<Rightarrow> string \<Rightarrow> (pyerr + json) \<times> file_access list" where
  "parse_log_results w epoch log_path =
     (let logs_dir = abspath w ''logs'';
          resolved_path = abspath w log_path
      in if \<not> prefix (logs_dir @ ''/'') resolved_path \<and> resolved_path \<noteq> logs_dir then
           (Inr JNull, [])
         else
           let f = file_at w epoch log_path
           in if suffix ''.eval'' log_path \<and> is_zipfile f then
                ((case as_archive f of
                    Inl e \<Rightarrow> parse_failure e
                  | Inr entries \<Rightarrow>
                      (case read_members entries [] (JObj []) of
                         Inl e \<Rightarrow> parse_failure e
                       | Inr (samples, header_data) \<Rightarrow>
                           bind_err (py_get header_data ''status'' (JStr ''success'')) (\<lambda>status.
                           bind_err (py_get header_data ''results'' (JObj [])) (\<lambda>results.
                             Inr (JObj [(''status'', status), (''results'', results),
                                        (''samples'', JArr samples)]))))),
                 [Checked_Zip log_path, Opened_Archive log_path])
              else
                ((case as_text f of Inl e \<Rightarrow> parse_failure e | Inr v \<Rightarrow> Inr v),
                 (if suffix ''.eval'' log_path then [Checked_Zip log_path] else [])
                 @ [Opened_Text log_path]))"

subsection \<open>Absolute paths\<close>

text \<open>
  \<^verbatim>\<open>os.path.abspath\<close> of the POSIX path module, for a process whose working directory is
  \<open>cwd\<close>: a relative path is joined to the working directory, and the result is
  normalised (empty and \<^verbatim>\<open>.\<close> components dropped, \<^verbatim>\<open>..\<close> taking the component before it
  away).
\<close>

fun split_on :: "char \<Rightarrow> string \<Rightarrow> string list" where
  "split_on sep [] = [[]]"
| "split_on sep (c # cs) =
     (if c = sep then [] # split_on sep cs
      else (case split_on sep cs of [] \<Rightarrow> [[c]] | x # xs \<Rightarrow> (c # x) # xs))"

definition norm_step :: "bool \<Rightarrow> string list \<Rightarrow> string \<Rightarrow> string list" where
  "norm_step initial_slashes new_comps part =
     (if part = [] \<or> part = ''.'' then new_comps
      else if part \<noteq> ''..'' \<or> (\<not> initial_slashes \<and> new_comps = [])
              \<or> (new_comps \<noteq> [] \<and> last new_comps = ''..'')
      then new_comps @ [part]
      else if new_comps \<noteq> [] then butlast new_comps
      else new_comps)"

definition normpath :: "string \<Rightarrow> string" where
  "normpath path =
     (if path = [] then ''.''
      else
        let initial_slashes =
              (if prefix ''/'' path then
                 (if prefix ''//'' path \<and> \<not> prefix ''///'' path then 2 else 1)
               else (0::nat));
            comps = foldl (norm_step (initial_slashes \<noteq> 0)) [] (split_on CHR ''/'' path);
            joined = replicate initial_slashes CHR ''/'' @ join ''/'' comps
        in if joined = [] then ''.'' else joined)"

definition posix_abspath :: "string \<Rightarrow> string \<Rightarrow> string" where
  "posix_abspath cwd path =
     (if prefix ''/'' path then normpath path
      else if cwd = [] \<or> suffix ''/'' cwd then normpath (cwd @ path)
      else normpath (cwd @ ''/'' @ path))"

section \<open>Scanning the captured output\<close>

text \<open>
  Removing terminal escape sequences,
  \<^verbatim>\<open>re.compile(r'\x1B(?:[@-Z\\-_]|\[[0-?]*[ -/]*[@-~])').sub('', text)\<close>: after the escape
  character either one character of 64..90 or 92..95, or an opening bracket, characters of
  48..63, characters of 32..47 and one final character of 64..126. The three classes are
  disjoint, so the longest runs are the only way to match. \<open>ansi_tail\<close> is the number of
  characters the sequence takes after the escape character.
\<close>

definition in_range :: "nat \<Rightarrow> nat \<Rightarrow> char \<Rightarrow> bool" where
  "in_range lo hi c = (lo \<le> code c \<and> code c \<le> hi)"

definition ansi_tail :: "string \<Rightarrow> nat option" where
  "ansi_tail s =
     (case s of
        [] \<Rightarrow> None
      | c # r \<Rightarrow>
          if in_range 64 90 c \<or> in_range 92 95 c then Some 1
          else if c = CHR ''['' then
            (let params = takeWhile (in_range 48 63) r;
                 r2 = drop (length params) r;
                 inters = takeWhile (in_range 32 47) r2;
                 r3 = drop (length inters) r2
             in case r3 of
                  [] \<Rightarrow> None
                | f # r4 \<Rightarrow>
                    if in_range 64 126 f then Some (length params + length inters + 2)
                    else None)
          else None)"

fun strip_ansi :: "string \<Rightarrow> string" where
  "strip_ansi [] = []"
| "strip_ansi (c # cs) =
     (if c = CHR 0x1B then
        (case ansi_tail cs of
           Some n \<Rightarrow> strip_ansi (drop n cs)
         | None \<Rightarrow> c # strip_ansi cs)
      else c # strip_ansi cs)"

text \<open>
  \<^verbatim>\<open>re.search(r'(logs/[\w\-\+\.]+\.(?:eval|json))', line)\<close>: at the leftmost position
  where \<^verbatim>\<open>logs/\<close> stands and a match exists, the longest run of name characters that ends
  with \<^verbatim>\<open>.eval\<close> or \<^verbatim>\<open>.json\<close> after at least one character (the extension's characters
  are name characters themselves, so the match lies inside the run).
\<close>

definition is_name_char :: "char \<Rightarrow> bool" where
  "is_name_char c = (is_word c \<or> c = CHR ''-'' \<or> c = CHR ''+'' \<or> c = CHR ''.'')"

definition log_match_at :: "string \<Rightarrow> string option" where
  "log_match_at s =
     (if prefix ''logs/'' s then
        (let run = takeWhile is_name_char (drop 5 s)
         in case find (\<lambda>k. suffix ''.eval'' (take k run) \<or> suffix ''.json'' (take k run))
                   (rev [6..<Suc (length run)]) of
              Some k \<Rightarrow> Some (''logs/'' @ take k run)
            | None \<Rightarrow> None)
      else None)"

fun log_search :: "string \<Rightarrow> string option" where
  "log_search [] = None"
| "log_search (c # cs) =
     (case log_match_at (c # cs) of Some p \<Rightarrow> Some p | None \<Rightarrow> log_search cs)"

definition mentions_log :: "string \<Rightarrow> bool" where
  "mentions_log line =
     (contains ''Log:'' line
      \<or> (contains ''logs/'' (lower line) \<and> (contains ''.eval'' line \<or> contains ''.json'' line)))"

fun first_log_path :: "string list \<Rightarrow> string option" where
  "first_log_path [] = None"
| "first_log_path (line # rest) =
     (if mentions_log line then
        (case log_search line of Some p \<Rightarrow> Some p | None \<Rightarrow> first_log_path rest)
      else first_log_path rest)"

definition find_log_path :: "string \<Rightarrow> string option" where
  "find_log_path stdout =
     first_log_path (split_on CHR 0x0A (strip (strip_ansi stdout)))"

text \<open>
  \<^verbatim>\<open>re.search(r'accuracy[:\s]+([0-9.]+)', text, re.IGNORECASE)\<close>: the leftmost position
  where the word stands in any case, followed by at least one colon or white space and at
  least one digit or dot; the result is the run of digits and dots.
\<close>

definition is_digit :: "char \<Rightarrow> bool" where
  "is_digit c = in_range 48 57 c"

definition accuracy_at :: "string \<Rightarrow> string option" where
  "accuracy_at s =
     (if lower (take 8 s) = ''accuracy'' then
        (let r = drop 8 s;
             seps = takeWhile is_sep r;
             num = takeWhile (\<lambda>c. is_digit c \<or> c = CHR ''.'') (drop (length seps) r)
         in if seps \<noteq> [] \<and> num \<noteq> [] then Some num else None)
      else None)"

fun accuracy_search :: "string \<Rightarrow> string option" where
  "accuracy_search [] = None"
| "accuracy_search (c # cs) =
     (case accuracy_at (c # cs) of Some g \<Rightarrow> Some g | None \<Rightarrow> accuracy_search cs)"

text \<open>
  \<^verbatim>\<open>float(s)\<close> for a string of digits and dots, the only strings the runner converts: a
  literal with at most one dot and at least one digit, rounded to the nearest float;
  anything else raises \<^verbatim>\<open>ValueError\<close>.
\<close>

definition digit_value :: "char \<Rightarrow> nat" where
  "digit_value c = code c - 48"

definition digits_value :: "string \<Rightarrow> nat" where
  "digits_value ds = foldl (\<lambda>acc c. 10 * acc + digit_value c) 0 ds"

definition py_float :: "string \<Rightarrow> pyerr + pyfloat" where
  "py_float s =
     (let ds = filter is_digit s;
          dots = filter (\<lambda>c. c = CHR ''.'') s;
          frac_digits = (if dots = [] then [] else tl (dropWhile is_digit s))
      in if length ds + length dots = length s \<and> ds \<noteq> [] \<and> length dots \<le> 1 then
           Inr (fl_round (of_nat (digits_value ds) / 10 ^ length frac_digits))
         else Inl ValueError)"

text \<open>\<^verbatim>\<open>int(x)\<close> of a float: towards zero; an infinity or a NaN raises.\<close>

fun int_of_float :: "pyfloat \<Rightarrow> pyerr + int" where
  "int_of_float (Fin r) = Inr (if 0 \<le> r then \<lfloor>r\<rfloor> else \<lceil>r\<rceil>)"
| "int_of_float PInf = Inl OverflowError"
| "int_of_float NInf = Inl OverflowError"
| "int_of_float NaN = Inl ValueError"

text \<open>
  \<^verbatim>\<open>int(s)\<close> of a string: white space around, an optional sign, and decimal digits that
  single underscores may separate. The white space that \<^verbatim>\<open>int\<close> skips is not that of
  \<^verbatim>\<open>str.strip\<close>: the conversion replaces by a blank the white space from code point 127
  on and then skips the white space of C (tab to carriage return, and the blank), so the
  separators at the code points 28 to 31 are not skipped. (The limit Python puts on the
  number of digits is not modelled.)
\<close>

definition is_int_space :: "char \<Rightarrow> bool" where
  "is_int_space c =
     (let n = code c in (9 \<le> n \<and> n \<le> 13) \<or> n = 32 \<or> n = 133 \<or> n = 160)"

definition int_strip :: "string \<Rightarrow> string" where
  "int_strip s = rev (dropWhile is_int_space (rev (dropWhile is_int_space s)))"

definition valid_int_body :: "string \<Rightarrow> bool" where
  "valid_int_body b =
     (b \<noteq> [] \<and> is_digit (hd b) \<and> is_digit (last b)
      \<and> list_all (\<lambda>c. is_digit c \<or> c = CHR ''_'') b \<and> \<not> contains ''__'' b)"

definition py_int :: "string \<Rightarrow> pyerr + int" where
  "py_int s =
     (let t = int_strip s;
          negative = (t \<noteq> [] \<and> hd t = CHR ''-'');
          body = (if t \<noteq> [] \<and> (hd t = CHR ''-'' \<or> hd t = CHR ''+'') then tl t else t)
      in if valid_int_body body then
           Inr ((if negative then - 1 else 1) * int (digits_value (filter is_digit body)))
         else Inl ValueError)"

section \<open>One epoch\<close>

record epoch_result =
  er_epoch :: int
  er_score :: pynum
  er_correct :: int
  er_total :: int

definition epoch_result_json :: "epoch_result \<Rightarrow> json" where
  "epoch_result_json r =
     JObj [(''epoch'', JInt (er_epoch r)), (''score'', num_json (er_score r)),
           (''correct'', JInt (er_correct r)), (''total'', JInt (er_total r))]"

subsection \<open>A failed process\<close>

definition dependency_error_patterns :: "string list" where
  "dependency_error_patterns =
     [''please install'', ''modulenotfounderror'', ''no module named'', ''importerror'',
      ''docker'', ''package not found'', ''swebench'', ''mlebench'', ''playwright'', ''gensim'']"

definition dependency_info_json :: "dependency_info \<Rightarrow> json" where
  "dependency_info_json d =
     JObj [(''package'', opt_json JStr (package d)),
           (''install_cmd'', opt_json JStr (install_cmd d)),
           (''requirements'', JArr (map JStr (requirements d))),
           (''description'', JStr (dep_description d))]"

definition dependency_message :: "string \<Rightarrow> dependency_info \<Rightarrow> string" where
  "dependency_message benchmark d =
     ''Benchmark '' @ [CHR 0x27] @ benchmark @ [CHR 0x27]
       @ '' requires additional dependencies.'' @ [CHR 0x0A, CHR 0x0A]
     @ (if dep_description d \<noteq> [] then ''Description: '' @ dep_description d @ [CHR 0x0A]
        else [])
     @ (if requirements d \<noteq> [] then
          ''Requirements: '' @ join '', '' (requirements d) @ [CHR 0x0A]
        else [])
     @ (case install_cmd d of
          Some c \<Rightarrow>
            if c \<noteq> [] then [CHR 0x0A] @ ''To install: '' @ c @ [CHR 0x0A]
            else [CHR 0x0A] @ ''This benchmark requires system-level dependencies (Docker). Please ensure Docker is installed and running.'' @ [CHR 0x0A]
        | None \<Rightarrow>
            [CHR 0x0A] @ ''This benchmark requires system-level dependencies (Docker). Please ensure Docker is installed and running.'' @ [CHR 0x0A])"

definition failed_process_event :: "string \<Rightarrow> int \<Rightarrow> string \<Rightarrow> string \<Rightarrow> event" where
  "failed_process_event benchmark returncode stdout stderr =
     (let error_msg = (if stderr \<noteq> [] then stderr
                       else if stdout \<noteq> [] then stdout else ''Unknown error'');
          dep_info = get_benchmark_dependency_info benchmark;
          is_dependency_error =
            list_ex (\<lambda>pattern. contains pattern (lower error_msg)) dependency_error_patterns
      in case dep_info of
           Some d \<Rightarrow>
             if is_dependency_error then
               create_error EVALUATION_FAILED (dependency_message benchmark d)
                 [(''stderr'', JStr (take 1000 error_msg)), (''returncode'', JInt returncode),
                  (''dependency_info'', dependency_info_json d)]
             else
               create_error EVALUATION_FAILED
                 ''Benchmark evaluation failed. Please check your API key and try again.''
                 [(''stderr'', JStr (take 1000 error_msg)), (''returncode'', JInt returncode)]
         | None \<Rightarrow>
             if is_dependency_error then
               create_error EVALUATION_FAILED
                 (''Benchmark '' @ [CHR 0x27] @ benchmark @ [CHR 0x27]
                  @ '' failed due to missing dependencies. Check the error details for more information.'')
                 [(''stderr'', JStr (take 1000 error_msg)), (''returncode'', JInt returncode)]
             else
               create_error EVALUATION_FAILED
                 ''Benchmark evaluation failed. Please check your API key and try again.''
                 [(''stderr'', JStr (take 1000 error_msg)), (''returncode'', JInt returncode)])"

subsection \<open>Results from a parsed log\<close>

text \<open>
  \<^verbatim>\<open>sum(1 for s in samples if is_sample_correct(s))\<close>: the samples are judged in order,
  and the first exception ends the sum.
\<close>

fun count_correct :: "(json \<Rightarrow> string) \<Rightarrow> json list \<Rightarrow> pyerr + nat" where
  "count_correct sj [] = Inr 0"
| "count_correct sj (s # ss) =
     (case is_sample_correct sj s of
        Inl e \<Rightarrow> Inl e
      | Inr b \<Rightarrow>
          (case count_correct sj ss of
             Inl e \<Rightarrow> Inl e
           | Inr n \<Rightarrow> Inr ((if b then 1 else 0) + n)))"

text \<open>
  The body of the loop that yields the result events, for the sample at index \<open>i\<close>:
  the event, or the exception raised before it is yielded.
\<close>

definition result_event ::
  "world \<Rightarrow> json list \<Rightarrow> nat \<Rightarrow> nat \<Rightarrow> nat \<Rightarrow> json \<Rightarrow> pyerr + event" where
  "result_event w samples tot epoch i sample =
     bind_err (is_sample_correct (w_str_json w) sample) (\<lambda>sample_correct.
     bind_err (extract_predicted sample) (\<lambda>predicted.
     bind_err (extract_expected (w_str_json w) sample) (\<lambda>expected.
     bind_err (count_correct (w_str_json w) (take (i + 1) samples)) (\<lambda>running_correct.
     bind_err (w_latency_of w sample) (\<lambda>latency_ms.
     bind_err (num_truediv (PyInt (int running_correct)) (PyInt (int i + 1))) (\<lambda>running_score.
       Inr (create_result (int i + 1) (int tot) sample_correct (JFloat running_score) latency_ms
              [(''predicted'', JStr (take 50 predicted)),
               (''expected'', JStr (take 50 (py_str (w_str_json w) expected))),
               (''epoch'', JInt (int epoch + 1))])))))))"

text \<open>
  The loop from index \<open>i\<close> on, over the samples that remain: the events yielded, and the
  exception that ended the loop, if one did.
\<close>

fun result_loop ::
  "world \<Rightarrow> json list \<Rightarrow> nat \<Rightarrow> nat \<Rightarrow> nat \<Rightarrow> json list \<Rightarrow> event list \<times> pyerr option" where
  "result_loop w samples tot epoch i [] = ([], None)"
| "result_loop w samples tot epoch i (sample # rest) =
     (case result_event w samples tot epoch i sample of
        Inl e \<Rightarrow> ([], Some e)
      | Inr ev \<Rightarrow>
          (let (evs, r) = result_loop w samples tot epoch (Suc i) rest in (ev # evs, r)))"

text \<open>
  The statistics of an epoch read from the parsed log: the sample list, its length, the
  number of correct samples and the score (the integer 0 for an empty log).
\<close>

definition log_statistics :: "world \<Rightarrow> nat \<Rightarrow> json \<Rightarrow> pyerr + (json list \<times> epoch_result)" where
  "log_statistics w epoch log_data =
     bind_err (py_get log_data ''samples'' (JArr [])) (\<lambda>samples_value.
     bind_err (py_len samples_value) (\<lambda>tot.
     bind_err (py_iter samples_value) (\<lambda>samples.
     bind_err (count_correct (w_str_json w) samples) (\<lambda>correct.
     bind_err (if 0 < tot then
                 bind_err (num_truediv (PyInt (int correct)) (PyInt (int tot)))
                   (\<lambda>q. Inr (PyFloat q))
               else Inr (PyInt 0)) (\<lambda>score.
       Inr (samples,
            \<lparr>er_epoch = int epoch + 1, er_score = score,
             er_correct = int correct, er_total = int tot\<rparr>))))))"

subsection \<open>Results scraped from the captured output\<close>

definition scrape_statistics :: "int \<Rightarrow> nat \<Rightarrow> string \<Rightarrow> pyerr + epoch_result" where
  "scrape_statistics limit epoch number_text =
     bind_err (py_float number_text) (\<lambda>parsed.
     bind_err (if fl_less (Fin 1) parsed then
                 (case fl_div parsed (Fin 100) of
                    None \<Rightarrow> Inl ZeroDivisionError
                  | Some q \<Rightarrow> Inr q)
               else Inr parsed) (\<lambda>score.
     bind_err (int_of_float (fl_mul score (fl_of_int limit))) (\<lambda>correct.
       Inr \<lparr>er_epoch = int epoch + 1, er_score = PyFloat score,
            er_correct = correct, er_total = limit\<rparr>)))"

subsection \<open>The body of the loop over the epochs\<close>

text \<open>
  What the \<^verbatim>\<open>try\<close> block of an epoch does: the events it yields, and how it ends: with
  an exception, with a \<^verbatim>\<open>return\<close> after an error event (\<open>None\<close>), or with the result
  of the epoch.
\<close>

definition epoch_complete_events :: "world \<Rightarrow> int \<Rightarrow> epoch_result \<Rightarrow> event list" where
  "epoch_complete_events w epochs r =
     (if 1 < epochs then
        [create_progress
           (''Epoch '' @ str_int (er_epoch r) @ '' complete: ''
            @ w_percent_text w (er_score r) @ ''%'') []]
      else [])"

definition scrape_output ::
  "world \<Rightarrow> request \<Rightarrow> nat \<Rightarrow> string \<Rightarrow> event list \<times> (pyerr + epoch_result option)" where
  "scrape_output w rq epoch stdout =
     (let started = [create_progress ''Parsing results from output...'' []]
      in case accuracy_search stdout of
           Some number_text \<Rightarrow>
             (case scrape_statistics (rq_limit rq) epoch number_text of
                Inl e \<Rightarrow> (started, Inl e)
              | Inr r \<Rightarrow> (started @ epoch_complete_events w (rq_epochs rq) r, Inr (Some r)))
         | None \<Rightarrow>
             (started @ [create_error PARSE_ERROR ''Could not parse benchmark results''
                           [(''output_preview'', JStr (take 500 stdout))]],
              Inr None))"

definition epoch_try ::
  "world \<Rightarrow> request \<Rightarrow> string list \<Rightarrow> int \<Rightarrow> nat
   \<Rightarrow> event list \<times> (pyerr + epoch_result option)" where
  "epoch_try w rq cmd eval_timeout epoch =
     (case subprocess_run w epoch cmd eval_timeout of
        Raised e \<Rightarrow> ([], Inl e)
      | Completed returncode stdout stderr \<Rightarrow>
          if returncode \<noteq> 0 then
            ([failed_process_event (rq_benchmark rq) returncode stdout stderr], Inr None)
          else
            (case find_log_path stdout of
               Some log_path \<Rightarrow>
                 if path_exists w epoch log_path then
                   (case fst (parse_log_results w epoch log_path) of
                      Inl e \<Rightarrow> ([], Inl e)
                    | Inr log_data \<Rightarrow>
                        if \<not> truthy log_data then
                          ([create_error PARSE_ERROR
                              (''Failed to parse results from '' @ log_path) []], Inr None)
                        else
                          (case log_statistics w epoch log_data of
                             Inl e \<Rightarrow> ([], Inl e)
                           | Inr (samples, r) \<Rightarrow>
                               (let (evs, x) =
                                      (if epoch = 0 then
                                         result_loop w samples (length samples) epoch 0 samples
                                       else ([], None))
                                in case x of
                                     Some e \<Rightarrow> (evs, Inl e)
                                   | None \<Rightarrow>
                                       (evs @ epoch_complete_events w (rq_epochs rq) r,
                                        Inr (Some r)))))
                 else scrape_output w rq epoch stdout
             | None \<Rightarrow> scrape_output w rq epoch stdout))"

text \<open>The \<^verbatim>\<open>except\<close> clauses of an epoch: the error event for an exception.\<close>

definition handler_event :: "world \<Rightarrow> int \<Rightarrow> pyerr \<Rightarrow> event" where
  "handler_event w eval_timeout e =
     (if e = TimeoutExpired then
        create_error EVALUATION_TIMEOUT
          (''Evaluation timed out after '' @ str_int (eval_timeout div 60)
           @ '' minutes. Consider reducing the sample limit or using a faster model.'')
          [(''timeout_seconds'', JInt eval_timeout)]
      else if e = JSONDecodeError then
        create_error PARSE_ERROR (''Failed to parse JSON results: '' @ w_exc_text w e) []
      else if e = PermissionError then
        create_error EVALUATION_FAILED
          (''Permission denied accessing log files: '' @ w_exc_text w e) []
      else
        create_error EVALUATION_FAILED
          (''Evaluation failed unexpectedly: '' @ w_exc_text w e) [])"

text \<open>
  One pass of the loop: the events of the epoch, and its result, or \<open>None\<close> when the
  generator returned after an error event.
\<close>

definition run_epoch ::
  "world \<Rightarrow> request \<Rightarrow> string \<Rightarrow> string \<Rightarrow> provider_config \<Rightarrow> int \<Rightarrow> nat
   \<Rightarrow> event list \<times> epoch_result option" where
  "run_epoch w rq provider task_name cfg eval_timeout epoch =
     (let starting =
            (if 1 < rq_epochs rq then
               [create_progress
                  (''Starting epoch '' @ str_int (int epoch + 1) @ ''/''
                   @ str_int (rq_epochs rq) @ ''...'') []]
             else []);
          cmd = build_inspect_command (w_float_repr w) task_name (rq_model_id rq) (rq_limit rq)
                  provider cfg (rq_temperature rq) (rq_seed rq) (rq_max_tokens rq) None;
          executing = [create_progress (''Executing: '' @ join '' '' (take 5 cmd) @ ''...'') []];
          (evs, r) = epoch_try w rq cmd eval_timeout epoch
      in case r of
           Inl e \<Rightarrow> (starting @ executing @ evs @ [handler_event w eval_timeout e], None)
         | Inr x \<Rightarrow> (starting @ executing @ evs, x))"

text \<open>
  The loop \<^verbatim>\<open>for epoch in range(epochs)\<close>, from \<open>epoch\<close> on with \<open>k\<close> passes left: the
  events, and all the epoch results when no pass returned.
\<close>

fun epochs_loop ::
  "world \<Rightarrow> request \<Rightarrow> string \<Rightarrow> string \<Rightarrow> provider_config \<Rightarrow> int \<Rightarrow> nat \<Rightarrow> nat
   \<Rightarrow> epoch_result list \<Rightarrow> event list \<times> epoch_result list option" where
  "epochs_loop w rq provider task_name cfg eval_timeout epoch 0 all_epoch_results =
     ([], Some all_epoch_results)"
| "epochs_loop w rq provider task_name cfg eval_timeout epoch (Suc k) all_epoch_results =
     (case run_epoch w rq provider task_name cfg eval_timeout epoch of
        (evs, None) \<Rightarrow> (evs, None)
      | (evs, Some r) \<Rightarrow>
          (let (evs', res) = epochs_loop w rq provider task_name cfg eval_timeout (Suc epoch) k
                               (all_epoch_results @ [r])
           in (evs @ evs', res)))"

section \<open>Aggregation over the epochs\<close>

text \<open>
  The builtin \<^verbatim>\<open>sum\<close> of a list of numbers, starting at the integer 0. Up to CPython
  3.11 it adds from the left. From CPython 3.12 on it adds integers exactly while they fit
  a C \<^verbatim>\<open>long\<close>; from the first float on it keeps, beside the running float sum \<open>f\<close>, a
  compensation \<open>c\<close> of the rounding errors of the float additions (integers are added
  to \<open>f\<close> without compensation), and adds \<open>c\<close> at the end when it is finite and not
  zero; an integer outside the range of a \<^verbatim>\<open>long\<close> sends the rest of the list to the
  addition from the left.
\<close>

definition fits_long :: "int \<Rightarrow> bool" where
  "fits_long i = (- (2 ^ 63) \<le> i \<and> i < 2 ^ 63)"

definition flush :: "pyfloat \<Rightarrow> pyfloat \<Rightarrow> pyfloat" where
  "flush f c = (if c \<noteq> Fin 0 \<and> fl_finite c then fl_add f c else f)"

fun sum_floats :: "pyfloat \<Rightarrow> pyfloat \<Rightarrow> pynum list \<Rightarrow> pynum" where
  "sum_floats f c [] = PyFloat (flush f c)"
| "sum_floats f c (PyFloat x # xs) =
     (let t = fl_add f x
      in sum_floats t
           (fl_add c (if fl_ge (fl_abs f) (fl_abs x) then fl_add (fl_sub f t) x
                      else fl_add (fl_sub x t) f))
           xs)"
| "sum_floats f c (PyInt j # xs) =
     (if fits_long j then sum_floats (fl_add f (fl_of_int j)) c xs
      else foldl num_add (num_add (PyFloat (flush f c)) (PyInt j)) xs)"

fun sum_ints :: "int \<Rightarrow> pynum list \<Rightarrow> pynum" where
  "sum_ints i [] = PyInt i"
| "sum_ints i (PyInt b # xs) =
     (if fits_long b \<and> fits_long (i + b) then sum_ints (i + b) xs
      else foldl num_add (PyInt (i + b)) xs)"
| "sum_ints i (PyFloat x # xs) = sum_floats (fl_add (fl_of_int i) x) (Fin 0) xs"

definition py_sum :: "bool \<Rightarrow> pynum list \<Rightarrow> pynum" where
  "py_sum compensated xs =
     (if compensated then sum_ints 0 xs else foldl num_add (PyInt 0) xs)"

text \<open>
  \<^verbatim>\<open>min\<close> and \<^verbatim>\<open>max\<close> of a list of numbers keep the first of equal elements and raise
  \<^verbatim>\<open>ValueError\<close> on an empty list.
\<close>

fun py_min :: "pynum list \<Rightarrow> pyerr + pynum" where
  "py_min [] = Inl ValueError"
| "py_min (x # xs) = Inr (foldl (\<lambda>m y. if num_less y m then y else m) x xs)"

fun py_max :: "pynum list \<Rightarrow> pyerr + pynum" where
  "py_max [] = Inl ValueError"
| "py_max (x # xs) = Inr (foldl (\<lambda>m y. if num_less m y then y else m) x xs)"

definition run_identity :: "world \<Rightarrow> request \<Rightarrow> string \<Rightarrow> provider_config \<Rightarrow> (string \<times> json) list" where
  "run_identity w rq provider cfg =
     [(''model'', JStr (rq_model_id rq)), (''benchmark'', JStr (rq_benchmark rq)),
      (''provider'', JStr provider), (''provider_name'', JStr (name cfg))]"

definition run_clock :: "world \<Rightarrow> request \<Rightarrow> (string \<times> json) list" where
  "run_clock w rq =
     [(''duration_seconds'', JFloat (w_duration_seconds w)),
      (''timestamp'', JStr (w_timestamp w)), (''seed'', opt_json JInt (rq_seed rq))]"

text \<open>The complete event, or the exception the aggregation raises.\<close>

definition final_event ::
  "world \<Rightarrow> request \<Rightarrow> string \<Rightarrow> provider_config \<Rightarrow> epoch_result list \<Rightarrow> pyerr + event" where
  "final_event w rq provider cfg all_epoch_results =
     (if 1 < rq_epochs rq then
        (let scores = map er_score all_epoch_results
         in bind_err (num_truediv (py_sum (w_compensated_sum w) scores)
                       (PyInt (int (length scores)))) (\<lambda>avg_score.
            bind_err (py_min scores) (\<lambda>min_score.
            bind_err (py_max scores) (\<lambda>max_score.
              Inr (create_complete (JFloat avg_score)
                     (sum_list (map er_correct all_epoch_results))
                     (sum_list (map er_total all_epoch_results))
                     (run_identity w rq provider cfg
                      @ [(''min_score'', num_json min_score),
                         (''max_score'', num_json max_score),
                         (''score_variance'', num_json (num_sub max_score min_score)),
                         (''epochs'', JInt (rq_epochs rq)),
                         (''epoch_results'', JArr (map epoch_result_json all_epoch_results))]
                      @ run_clock w rq))))))
      else
        (let result_data =
               (case all_epoch_results of
                  r # rest \<Rightarrow> r
                | [] \<Rightarrow> \<lparr>er_epoch = 0, er_score = PyInt 0, er_correct = 0,
                         er_total = rq_limit rq\<rparr>)
         in Inr (create_complete (num_json (er_score result_data)) (er_correct result_data)
                   (er_total result_data) (run_identity w rq provider cfg @ run_clock w rq))))"

section \<open>The generator\<close>

definition docker_benchmarks :: "string list" where
  "docker_benchmarks =
     [''swe_bench'', ''swe_bench_verified'', ''cybench'', ''gdm_intercode_ctf'',
      ''gdm_in_house_ctf'', ''osworld'', ''osworld_small'']"

text \<open>\<^verbatim>\<open>timeout or int(os.getenv("EVAL_TIMEOUT", "600"))\<close>.\<close>

definition base_timeout :: "world \<Rightarrow> request \<Rightarrow> pyerr + int" where
  "base_timeout w rq =
     (case rq_timeout rq of
        Some t \<Rightarrow> if t \<noteq> 0 then Inr t
                  else py_int (case getenv w ''EVAL_TIMEOUT'' of Some v \<Rightarrow> v | None \<Rightarrow> ''600'')
      | None \<Rightarrow> py_int (case getenv w ''EVAL_TIMEOUT'' of Some v \<Rightarrow> v | None \<Rightarrow> ''600''))"

definition eval_timeout_of :: "request \<Rightarrow> int \<Rightarrow> int" where
  "eval_timeout_of rq base =
     (if rq_benchmark rq \<in> set docker_benchmarks then max 1800 (1800 + rq_limit rq * 300)
      else if is_reasoning_model (rq_model_id rq) then max base (rq_limit rq * 60)
      else base)"

definition dispatch_event :: "request \<Rightarrow> string \<Rightarrow> string \<Rightarrow> provider_config \<Rightarrow> event" where
  "dispatch_event rq provider task_name cfg =
     create_progress
       (''Running '' @ task_name @ '' via '' @ name cfg @ '' with limit='' @ str_int (rq_limit rq)
        @ (case rq_seed rq of
             Some s \<Rightarrow> if s \<noteq> 0 then '', seed='' @ str_int s else []
           | None \<Rightarrow> [])
        @ (if 1 < rq_epochs rq then '', epochs='' @ str_int (rq_epochs rq) else [])
        @ ''...'')
       [(''provider'', JStr provider), (''seed'', opt_json JInt (rq_seed rq)),
        (''epochs'', JInt (rq_epochs rq))]"

text \<open>
  \<^verbatim>\<open>run_with_inspect_ai\<close>: the events the generator yields, in order, and the exception
  that ends it, if one escapes. The key passed to the external tool in its environment
  only matters here by being present.
\<close>

definition run_with_inspect_ai :: "world \<Rightarrow> request \<Rightarrow> event list \<times> pyerr option" where
  "run_with_inspect_ai w rq =
     (let provider = lower (rq_provider rq)
      in if \<not> INSPECT_AI_AVAILABLE w then
           ([create_error INSPECT_NOT_INSTALLED
               ''inspect-ai not installed. Run: pip install inspect-ai'' []], None)
         else if \<not> INSPECT_EVALS_AVAILABLE w then
           ([create_error EVALS_NOT_INSTALLED
               ''inspect-evals not installed. Run: pip install inspect-evals'' []], None)
         else
           (case validate_parameters (rq_model_id rq) (rq_benchmark rq) (rq_limit rq) provider
                   (rq_temperature rq) (rq_seed rq) (Some (rq_epochs rq)) of
              Some validation_error \<Rightarrow> ([validation_error], None)
            | None \<Rightarrow>
                (case map_of SUPPORTED_BENCHMARKS (rq_benchmark rq) of
                   None \<Rightarrow> ([], Some KeyError)
                 | Some task_name \<Rightarrow>
                     (case map_of PROVIDERS provider of
                        None \<Rightarrow> ([], Some KeyError)
                      | Some cfg \<Rightarrow>
                          (let given = (case rq_api_key rq of Some k \<Rightarrow> k | None \<Rightarrow> []);
                               api_key =
                                 (if given \<noteq> [] then given
                                  else (case getenv w (api_key_env cfg) of
                                          Some k \<Rightarrow> k | None \<Rightarrow> []))
                           in if api_key = [] then
                                ([create_error API_KEY_MISSING
                                    (''API key not configured for provider '' @ [CHR 0x27]
                                     @ provider @ [CHR 0x27] @ ''. Please set ''
                                     @ api_key_env cfg @ '' environment variable.'')
                                    [(''provider'', JStr provider),
                                     (''env_var'', JStr (api_key_env cfg))]], None)
                              else
                                (case base_timeout w rq of
                                   Inl e \<Rightarrow> ([], Some e)
                                 | Inr base \<Rightarrow>
                                     (let eval_timeout = eval_timeout_of rq base;
                                          (evs, res) =
                                            epochs_loop w rq provider task_name cfg eval_timeout
                                              0 (nat (rq_epochs rq)) []
                                      in case res of
                                           None \<Rightarrow>
                                             (dispatch_event rq provider task_name cfg # evs, None)
                                         | Some all_epoch_results \<Rightarrow>
                                             (case final_event w rq provider cfg
                                                     all_epoch_results of
                                                Inl e \<Rightarrow>
                                                  (dispatch_event rq provider task_name cfg # evs,
                                                   Some e)
                                              | Inr ev \<Rightarrow>
                                                  (dispatch_event rq provider task_name cfg # evs
                                                   @ [ev], None)))))))))"

section \<open>Vocabulary of the claims about a run\<close>

text \<open>
  No log artifact is found: the captured output names no log path, or the path it names
  does not exist.
\<close>

definition no_artifact :: "world \<Rightarrow> nat \<Rightarrow> string \<Rightarrow> bool" where
  "no_artifact w epoch stdout =
     (case find_log_path stdout of None \<Rightarrow> True | Some p \<Rightarrow> \<not> path_exists w epoch p)"

text \<open>
  The score taken from a scraped finite value \<open>a\<close>: a value above 1 is read as a
  percentage and divided by 100.
\<close>

definition scraped_score :: "rat \<Rightarrow> pyfloat" where
  "scraped_score a = (if 1 < a then fl_round (a / 100) else Fin a)"

text \<open>The result events among the events of a run, in order.\<close>

definition result_events :: "event list \<Rightarrow> event list" where
  "result_events evs = filter (\<lambda>ev. event_type ev = ''result'') evs"

text \<open>The number of events that report a correct sample.\<close>

definition correct_count :: "event list \<Rightarrow> nat" where
  "correct_count evs = length (filter (\<lambda>ev. event_field ev ''correct'' = JBool True) evs)"

text \<open>
  An event list without a terminal event; one that ends with its only terminal event, an
  error; and one that ends with its only terminal event, of either type.
\<close>

definition non_terminal :: "event list \<Rightarrow> bool" where
  "non_terminal evs = (\<forall>ev \<in> set evs. event_type ev = ''progress'' \<or> event_type ev = ''result'')"

definition ends_with_error :: "event list \<Rightarrow> bool" where
  "ends_with_error evs = (\<exists>pre ev. evs = pre @ [ev] \<and> non_terminal pre \<and> event_type ev = ''error'')"

definition one_terminal_last :: "event list \<Rightarrow> bool" where
  "one_terminal_last evs =
     (\<exists>pre t. evs = pre @ [t] \<and> is_terminal t \<and> (\<forall>ev \<in> set pre. \<not> is_terminal ev))"

text \<open>The events are what the result loop yields on some list of samples.\<close>

definition loop_output :: "world \<Rightarrow> event list \<Rightarrow> bool" where
  "loop_output w evs = (\<exists>samples tot x. result_loop w samples tot 0 0 samples = (evs, x))"

text \<open>A least and a greatest element of a list of numbers.\<close>

definition is_least :: "pynum list \<Rightarrow> pynum \<Rightarrow> bool" where
  "is_least xs m = (m \<in> set xs \<and> (\<forall>x \<in> set xs. \<not> num_less x m))"

definition is_greatest :: "pynum list \<Rightarrow> pynum \<Rightarrow> bool" where
  "is_greatest xs m = (m \<in> set xs \<and> (\<forall>x \<in> set xs. \<not> num_less m x))"

section \<open>Example worlds and requests\<close>

text \<open>
  Stand-ins for the text functions that are parameters: the examples print no float but
  0.5 and no parsed value that is not a string.
\<close>

definition repr_half :: "pyfloat \<Rightarrow> string" where
  "repr_half f = ''0.5''"

definition no_text :: "json \<Rightarrow> string" where
  "no_text x = []"

text \<open>
  A world in which both packages are installed, the OpenRouter key is set, the working
  directory is \<^verbatim>\<open>/srv/app\<close>, the external tool succeeds and prints \<open>stdout\<close>, and every
  existing path holds the file \<open>f\<close>.
\<close>

definition example_world :: "string \<Rightarrow> (string \<Rightarrow> bool) \<Rightarrow> log_file \<Rightarrow> world" where
  "example_world stdout existing f =
     \<lparr>INSPECT_AI_AVAILABLE = True,
      INSPECT_EVALS_AVAILABLE = True,
      getenv = (\<lambda>v. if v = ''OPENROUTER_API_KEY'' then Some ''sk-or-test'' else None),
      subprocess_run = (\<lambda>epoch cmd tmo. Completed 0 stdout []),
      path_exists = (\<lambda>epoch p. existing p),
      file_at = (\<lambda>epoch p. f),
      abspath = posix_abspath ''/srv/app'',
      w_float_repr = repr_half,
      w_str_json = no_text,
      w_exc_text = (\<lambda>e. []),
      w_percent_text = (\<lambda>x. []),
      w_latency_of = (\<lambda>s. Inr (JFloat (Fin 0))),
      w_duration_seconds = Fin 0,
      w_timestamp = [],
      w_compensated_sum = False\<rparr>"

definition text_file :: "pyerr + json \<Rightarrow> log_file" where
  "text_file loaded = \<lparr>is_zipfile = False, as_archive = Inl BadZipFile, as_text = loaded\<rparr>"

definition example_request :: request where
  "example_request =
     \<lparr>rq_model_id = ''gpt-4o'', rq_benchmark = ''mmlu'', rq_limit = 10, rq_api_key = None,
      rq_provider = ''openrouter'', rq_temperature = None, rq_max_tokens = None,
      rq_seed = None, rq_epochs = 1, rq_timeout = None\<rparr>"

definition example_log :: json where
  "example_log =
     JObj [(''status'', JStr ''success''),
           (''samples'', JArr [sample_scored_wrong, sample_nothing, sample_earlier_match])]"

text \<open>The tool names a log that exists and holds the example log.\<close>

definition world_with_log :: world where
  "world_with_log = example_world ''Log: logs/run1.json'' (\<lambda>p. True) (text_file (Inr example_log))"

text \<open>The tool names a log that exists and is not valid JSON.\<close>

definition world_unparsable :: world where
  "world_unparsable =
     example_world ''Log: logs/run1.json'' (\<lambda>p. True) (text_file (Inl JSONDecodeError))"

text \<open>The tool names no log and prints no accuracy figure.\<close>

definition world_no_results :: world where
  "world_no_results = example_world ''no results'' (\<lambda>p. False) (text_file (Inl FileNotFoundError))"

text \<open>The tool names no log and prints an accuracy figure, as a fraction and in percent.\<close>

definition world_fraction :: world where
  "world_fraction = example_world ''accuracy: 0.85'' (\<lambda>p. False) (text_file (Inl FileNotFoundError))"

definition world_percent :: world where
  "world_percent = example_world ''Accuracy: 85'' (\<lambda>p. False) (text_file (Inl FileNotFoundError))"

text \<open>The variable \<^verbatim>\<open>EVAL_TIMEOUT\<close> is set to a text that is no number.\<close>

definition world_bad_timeout :: world where
  "world_bad_timeout =
     world_with_log\<lparr>getenv := (\<lambda>v. if v = ''EVAL_TIMEOUT'' then Some ''abc''
                                   else if v = ''OPENROUTER_API_KEY'' then Some ''sk-or-test''
                                   else None)\<rparr>"

text \<open>
  Three epochs whose logs hold 4 correct samples of 5, 3 of 5 and 7 of 10: the per-epoch
  scores are the floats 0.8, 0.6 and 0.7.
\<close>

definition log_with :: "nat \<Rightarrow> nat \<Rightarrow> json" where
  "log_with good bad =
     JObj [(''status'', JStr ''success''),
           (''samples'', JArr (replicate good sample_scored_wrong @ replicate bad sample_nothing))]"

definition world_three_epochs :: world where
  "world_three_epochs =
     world_with_log\<lparr>file_at := (\<lambda>epoch p.
        text_file (Inr (if epoch = 0 then log_with 4 1
                        else if epoch = 1 then log_with 3 2 else log_with 7 3)))\<rparr>"

definition world_three_epochs_compensated :: world where
  "world_three_epochs_compensated = world_three_epochs\<lparr>w_compensated_sum := True\<rparr>"

definition request_three_epochs :: request where
  "request_three_epochs = example_request\<lparr>rq_epochs := 3\<rparr>"

text \<open>
  The complete event of the run of three epochs, with the score \<open>avg\<close>, and the result
  events of the run over the example log.
\<close>

definition three_epochs_complete :: "rat \<Rightarrow> event" where
  "three_epochs_complete avg =
     create_complete (JFloat (Fin avg)) 14 20
       [(''model'', JStr ''gpt-4o''), (''benchmark'', JStr ''mmlu''),
        (''provider'', JStr ''openrouter''), (''provider_name'', JStr ''OpenRouter''),
        (''min_score'', JFloat (Fin (5404319552844595 / 9007199254740992))),
        (''max_score'', JFloat (Fin (3602879701896397 / 4503599627370496))),
        (''score_variance'', JFloat (Fin (1801439850948199 / 9007199254740992))),
        (''epochs'', JInt 3),
        (''epoch_results'', JArr (map epoch_result_json
           [\<lparr>er_epoch = 1, er_score = PyFloat (Fin (3602879701896397 / 4503599627370496)),
             er_correct = 4, er_total = 5\<rparr>,
            \<lparr>er_epoch = 2, er_score = PyFloat (Fin (5404319552844595 / 9007199254740992)),
             er_correct = 3, er_total = 5\<rparr>,
            \<lparr>er_epoch = 3, er_score = PyFloat (Fin (3152519739159347 / 4503599627370496)),
             er_correct = 7, er_total = 10\<rparr>])),
        (''duration_seconds'', JFloat (Fin 0)), (''timestamp'', JStr []), (''seed'', JNull)]"

definition example_result :: "int \<Rightarrow> bool \<Rightarrow> rat \<Rightarrow> string \<Rightarrow> event" where
  "example_result question correct running predicted =
     create_result question 3 correct (JFloat (Fin running)) (JFloat (Fin 0))
       [(''predicted'', JStr predicted), (''expected'', JStr ''B''), (''epoch'', JInt 1)]"

definition example_results :: "event list" where
  "example_results =
     [example_result 1 True 1 ''B'',
      example_result 2 False (1 / 2) [],
      example_result 3 False (6004799503160661 / 18014398509481984) ''A'']"

section \<open>Properties of the command builder\<close>

lemma digit_char_in: "d < 10 \<Longrightarrow> digit_char d \<in> set ''0123456789''"
  unfolding digit_char_def by (rule nth_mem) simp

lemma digits10_in: "set (digits10 n) \<subseteq> set ''0123456789''"
proof (induction n rule: digits10.induct)
  case (1 n)
  show ?case
  proof (cases "n < 10")
    case True
    then show ?thesis using digit_char_in[of n] by (subst digits10.simps) simp
  next
    case False
    then show ?thesis using 1 digit_char_in[of "n mod 10"] by (subst digits10.simps) simp
  qed
qed

lemma str_int_not_flag: "str_int i \<noteq> CHR ''-'' # CHR ''-'' # rest"
proof
  assume a: "str_int i = CHR ''-'' # CHR ''-'' # rest"
  show False
  proof (cases "i < 0")
    case True
    with a have "digits10 (nat (- i)) = CHR ''-'' # rest" by (simp add: str_int_def)
    then have "CHR ''-'' \<in> set (digits10 (nat (- i)))" by simp
    with digits10_in show False by fastforce
  next
    case False
    with a have "digits10 (nat i) = CHR ''-'' # CHR ''-'' # rest" by (simp add: str_int_def)
    then have "CHR ''-'' \<in> set (digits10 (nat i))" by simp
    with digits10_in show False by fastforce
  qed
qed

lemma str_int_flags:
  "str_int i \<noteq> ''--temperature''" "str_int i \<noteq> ''--reasoning-effort''"
  "''--temperature'' \<noteq> str_int i" "''--reasoning-effort'' \<noteq> str_int i"
  using str_int_not_flag[of i] by (simp_all add: eq_commute)

lemma base_cmd_free:
  assumes "arg_free flag t m p cfg re" "flag \<in> {''--temperature'', ''--reasoning-effort''}"
  shows "flag \<notin> set (base_cmd t m l p cfg)"
  using assms
  by (auto simp: base_cmd_def arg_free_def str_int_flags split: option.splits if_splits)

lemma seed_flags_free:
  "flag \<in> {''--temperature'', ''--reasoning-effort''} \<Longrightarrow> flag \<notin> set (seed_flags seed)"
  by (auto simp: seed_flags_def str_int_flags split: option.splits)

lemma token_flags_free:
  "flag \<in> {''--temperature'', ''--reasoning-effort''} \<Longrightarrow> flag \<notin> set (token_flags mt)"
  by (auto simp: token_flags_def str_int_flags)

lemma has_flag_value_append1:
  "has_flag_value f v ys \<Longrightarrow> has_flag_value f v (xs @ ys)"
proof (induction xs)
  case Nil then show ?case by simp
next
  case (Cons x xs)
  then have h: "has_flag_value f v (xs @ ys)" by simp
  then show ?case by (cases "xs @ ys") auto
qed

lemma has_flag_value_append2:
  "has_flag_value f v xs \<Longrightarrow> has_flag_value f v (xs @ ys)"
  by (induction f v xs rule: has_flag_value.induct) auto


lemma build_reasoning:
  "is_reasoning_model m \<Longrightarrow>
   build_inspect_command fr t m l p cfg temp seed mt re =
     base_cmd t m l p cfg @ reasoning_flags p m re @ seed_flags seed @ token_flags mt"
  by (simp add: build_inspect_command_def)

lemma reasoning_flags_no_temperature:
  "re \<noteq> Some ''--temperature'' \<Longrightarrow> ''--temperature'' \<notin> set (reasoning_flags p m re)"
  by (auto simp: reasoning_flags_def split: option.splits if_splits)

lemma flag_in_middle:
  "has_flag_value f v ys \<Longrightarrow> has_flag_value f v (xs @ ys @ zs)"
  by (simp add: has_flag_value_append1 has_flag_value_append2)

text \<open>
  Claim C1, as amended. For a model identifier that matches a reasoning pattern, and
  arguments none of which is itself the text of the option, the command never holds
  \<^verbatim>\<open>--temperature\<close>. What it holds of \<^verbatim>\<open>--reasoning-effort\<close> depends on the provider:
  \<^item> \<^verbatim>\<open>openrouter\<close> with an OpenAI reasoning model (o1, o3, gpt-5): the option with the
    requested effort, \<^verbatim>\<open>none\<close> when no effort is requested;
  \<^item> \<^verbatim>\<open>openai\<close>: the option with the requested effort, \<^verbatim>\<open>medium\<close> when none (or the
    empty string) is requested, and \<^verbatim>\<open>--reasoning-summary auto\<close>;
  \<^item> \<^verbatim>\<open>anthropic\<close> and \<^verbatim>\<open>google\<close>: no \<^verbatim>\<open>--reasoning-effort\<close> at all;
  \<^item> every other case (another model through \<^verbatim>\<open>openrouter\<close>, or another provider): the
    option only when a non-empty effort is requested.
\<close>

theorem reasoning_model_flags:
  assumes r: "is_reasoning_model model_id"
    and a1: "arg_free ''--temperature'' task_name model_id provider cfg reasoning_effort"
    and a2: "arg_free ''--reasoning-effort'' task_name model_id provider cfg reasoning_effort"
  shows
   "(let cmd = build_inspect_command float_repr task_name model_id limit provider cfg
                 temperature seed max_tokens reasoning_effort
     in ''--temperature'' \<notin> set cmd
      \<and> (if provider = ''openrouter'' \<and> is_openai_reasoning model_id then
           has_flag_value ''--reasoning-effort''
             (case reasoning_effort of Some e \<Rightarrow> e | None \<Rightarrow> ''none'') cmd
         else if provider = ''openai'' then
           has_flag_value ''--reasoning-effort''
             (effort_or ''medium'' reasoning_effort) cmd
           \<and> has_flag_value ''--reasoning-summary'' ''auto'' cmd
         else if provider = ''anthropic'' \<or> provider = ''google'' then
           ''--reasoning-effort'' \<notin> set cmd
         else if effort_given reasoning_effort then
           has_flag_value ''--reasoning-effort'' (effort_or [] reasoning_effort) cmd
         else ''--reasoning-effort'' \<notin> set cmd))"
proof -
  let ?cmd = "build_inspect_command float_repr task_name model_id limit provider cfg
                 temperature seed max_tokens reasoning_effort"
  let ?rf = "reasoning_flags provider model_id reasoning_effort"
  have eq: "?cmd = base_cmd task_name model_id limit provider cfg @ ?rf
                   @ seed_flags seed @ token_flags max_tokens"
    using r by (rule build_reasoning)
  have temp: "''--temperature'' \<notin> set ?cmd"
    using a1 base_cmd_free[OF a1] seed_flags_free[of "''--temperature''" seed]
      token_flags_free[of "''--temperature''" max_tokens]
      reasoning_flags_no_temperature[of reasoning_effort provider model_id]
    by (simp add: eq arg_free_def)
  have rest_free: "''--reasoning-effort'' \<notin> set ?cmd" if "?rf = []"
    using that base_cmd_free[OF a2] seed_flags_free[of "''--reasoning-effort''" seed]
      token_flags_free[of "''--reasoning-effort''" max_tokens]
    by (simp add: eq)
  have inc: "has_flag_value f v ?cmd" if "has_flag_value f v ?rf" for f v
    using that by (simp add: eq flag_in_middle)
  have pol: "(if provider = ''openrouter'' \<and> is_openai_reasoning model_id then
           has_flag_value ''--reasoning-effort''
             (case reasoning_effort of Some e \<Rightarrow> e | None \<Rightarrow> ''none'') ?cmd
         else if provider = ''openai'' then
           has_flag_value ''--reasoning-effort''
             (effort_or ''medium'' reasoning_effort) ?cmd
           \<and> has_flag_value ''--reasoning-summary'' ''auto'' ?cmd
         else if provider = ''anthropic'' \<or> provider = ''google'' then
           ''--reasoning-effort'' \<notin> set ?cmd
         else if effort_given reasoning_effort then
           has_flag_value ''--reasoning-effort'' (effort_or [] reasoning_effort) ?cmd
         else ''--reasoning-effort'' \<notin> set ?cmd)"
  proof (cases "provider = ''openrouter'' \<and> is_openai_reasoning model_id")
    case True
    then have "has_flag_value ''--reasoning-effort''
             (case reasoning_effort of Some e \<Rightarrow> e | None \<Rightarrow> ''none'') ?rf"
      by (simp add: reasoning_flags_def)
    with True show ?thesis using inc by simp
  next
    case nor: False
    show ?thesis
    proof (cases "provider = ''openai''")
      case True
      then have "has_flag_value ''--reasoning-effort''
             (effort_or ''medium'' reasoning_effort) ?rf"
        and "has_flag_value ''--reasoning-summary'' ''auto'' ?rf"
        by (auto simp: reasoning_flags_def effort_given_def effort_or_def split: option.splits)
      with True show ?thesis using inc by simp
    next
      case noa: False
      show ?thesis
      proof (cases "provider = ''anthropic'' \<or> provider = ''google''")
        case True
        then have "?rf = []" by (auto simp: reasoning_flags_def)
        with True nor noa show ?thesis using rest_free by auto
      next
        case nog: False
        show ?thesis
        proof (cases "effort_given reasoning_effort")
          case True
          then have "has_flag_value ''--reasoning-effort'' (effort_or [] reasoning_effort) ?rf"
            using nor noa nog
            by (auto simp: reasoning_flags_def effort_given_def effort_or_def split: option.splits)
          with True nor noa nog show ?thesis using inc by auto
        next
          case False
          then have "?rf = []"
            using nor noa nog
            by (auto simp: reasoning_flags_def effort_given_def effort_or_def split: option.splits)
          with False nor noa nog show ?thesis using rest_free by auto
        qed
      qed
    qed
  qed
  show ?thesis unfolding Let_def using temp pol by blast
qed


text \<open>The example configurations are the entries of the provider table.\<close>

lemma cfg_openrouter: "map_of PROVIDERS ''openrouter'' = Some openrouter_cfg"
  by (simp add: PROVIDERS_def openrouter_cfg_def)
lemma cfg_anthropic: "map_of PROVIDERS ''anthropic'' = Some anthropic_cfg"
  by (simp add: PROVIDERS_def anthropic_cfg_def)
lemma cfg_openai: "map_of PROVIDERS ''openai'' = Some openai_cfg"
  by (simp add: PROVIDERS_def openai_cfg_def)

text \<open>
  The theorem at \<^verbatim>\<open>o3-mini\<close>: through \<^verbatim>\<open>openrouter\<close> the effort is \<^verbatim>\<open>none\<close>, through
  \<^verbatim>\<open>openai\<close> it is \<^verbatim>\<open>medium\<close>; the requested temperature 0.5 is dropped.
\<close>

theorem reasoning_model_flags_witness:
  "is_reasoning_model ''o3-mini''
   \<and> ''--temperature'' \<notin> set (build_inspect_command repr_half ''inspect_evals/mmlu_0_shot''
         ''o3-mini'' 10 ''openrouter'' openrouter_cfg (Some (PyFloat (Fin (1/2)))) None None None)
   \<and> has_flag_value ''--reasoning-effort'' ''none''
        (build_inspect_command repr_half ''inspect_evals/mmlu_0_shot''
         ''o3-mini'' 10 ''openrouter'' openrouter_cfg (Some (PyFloat (Fin (1/2)))) None None None)
   \<and> has_flag_value ''--reasoning-effort'' ''medium''
        (build_inspect_command repr_half ''inspect_evals/mmlu_0_shot''
         ''o3-mini'' 10 ''openai'' openai_cfg (Some (PyFloat (Fin (1/2)))) None None None)"
proof -
  have r: "is_reasoning_model ''o3-mini''" by code_simp
  have o: "is_openai_reasoning ''o3-mini''" by code_simp
  have a1: "arg_free ''--temperature'' ''inspect_evals/mmlu_0_shot'' ''o3-mini'' ''openrouter''
              openrouter_cfg None"
    by (simp add: arg_free_def openrouter_cfg_def)
  have a2: "arg_free ''--reasoning-effort'' ''inspect_evals/mmlu_0_shot'' ''o3-mini'' ''openrouter''
              openrouter_cfg None"
    by (simp add: arg_free_def openrouter_cfg_def)
  have b1: "arg_free ''--temperature'' ''inspect_evals/mmlu_0_shot'' ''o3-mini'' ''openai''
              openai_cfg None"
    by (simp add: arg_free_def openai_cfg_def)
  have b2: "arg_free ''--reasoning-effort'' ''inspect_evals/mmlu_0_shot'' ''o3-mini'' ''openai''
              openai_cfg None"
    by (simp add: arg_free_def openai_cfg_def)
  show ?thesis
    using r o
      reasoning_model_flags[OF r a1 a2, of repr_half 10 "Some (PyFloat (Fin (1/2)))" None None]
      reasoning_model_flags[OF r b1 b2, of repr_half 10 "Some (PyFloat (Fin (1/2)))" None None]
    by (simp add: Let_def effort_or_def)
qed

text \<open>
  Claim C1 as stated asks for a \<^verbatim>\<open>--reasoning-effort\<close> option for every provider. For
  \<^verbatim>\<open>claude-3-7-sonnet\<close> through \<^verbatim>\<open>anthropic\<close> the command has none.
\<close>

theorem anthropic_reasoning_no_effort_flag:
  "is_reasoning_model ''claude-3-7-sonnet''
   \<and> ''--reasoning-effort'' \<notin> set (build_inspect_command repr_half
        ''inspect_evals/mmlu_0_shot'' ''claude-3-7-sonnet'' 10 ''anthropic'' anthropic_cfg
        (Some (PyFloat (Fin (1/2)))) None None None)"
proof -
  have r: "is_reasoning_model ''claude-3-7-sonnet''" by code_simp
  have "build_inspect_command repr_half
        ''inspect_evals/mmlu_0_shot'' ''claude-3-7-sonnet'' 10 ''anthropic'' anthropic_cfg
        (Some (PyFloat (Fin (1/2)))) None None None
     = [''inspect'', ''eval'', ''inspect_evals/mmlu_0_shot'', ''--model'',
        ''anthropic/claude-3-7-sonnet'', ''--limit'', ''10'', ''--log-format'', ''json'',
        ''--sample-shuffle'', ''--max-tokens'', ''1024'', ''-T'', ''max_non_cot_tokens=1024'']"
    by code_simp
  then show ?thesis using r by simp
qed

text \<open>
  The token budget. The command always ends with \<^verbatim>\<open>--max-tokens n -T
  max_non_cot_tokens=n\<close>, where \<open>n\<close> is the requested \<^verbatim>\<open>max_tokens\<close> when one is given and
  1024 when none is. So the value replaces the external tool's per-benchmark default, and
  it is at least 1024 when no budget is requested or the requested one is at least 1024.
\<close>

theorem token_budget_emitted:
  "(\<exists>pre. build_inspect_command float_repr task_name model_id limit provider cfg
            temperature seed max_tokens reasoning_effort
          = pre @ [''--max-tokens'', str_int (effective_max_tokens max_tokens),
                   ''-T'', ''max_non_cot_tokens='' @ str_int (effective_max_tokens max_tokens)])
   \<and> effective_max_tokens max_tokens = (case max_tokens of Some n \<Rightarrow> n | None \<Rightarrow> 1024)"
  by (simp add: build_inspect_command_def token_flags_def effective_max_tokens_def
      flip: append_assoc)

text \<open>
  Claim C9 fails for a requested budget below 1024. The comment above the computation
  announces a minimum, and names 5 as the budget that truncates the answers; the
  computation only fills in 1024 for a missing value. A request with \<^verbatim>\<open>max_tokens = 5\<close>,
  which the service accepts, is passed on as 5 in both places.
\<close>

theorem small_token_budget_passed_through:
  "build_inspect_command repr_half ''inspect_evals/mmlu_0_shot'' ''gpt-4o'' 10
      ''openrouter'' openrouter_cfg None None (Some 5) None
   = [''inspect'', ''eval'', ''inspect_evals/mmlu_0_shot'', ''--model'', ''openai/gpt-4o'',
      ''--limit'', ''10'', ''--log-format'', ''json'',
      ''--model-base-url'', ''https://openrouter.ai/api/v1'', ''--sample-shuffle'',
      ''--max-tokens'', ''5'', ''-T'', ''max_non_cot_tokens=5'']
   \<and> has_flag_value ''--max-tokens'' ''5''
     (build_inspect_command repr_half ''inspect_evals/mmlu_0_shot'' ''gpt-4o'' 10
        ''openrouter'' openrouter_cfg None None (Some 5) None)
   \<and> has_flag_value ''-T'' ''max_non_cot_tokens=5''
     (build_inspect_command repr_half ''inspect_evals/mmlu_0_shot'' ''gpt-4o'' 10
        ''openrouter'' openrouter_cfg None None (Some 5) None)
   \<and> effective_max_tokens (Some 5) = 5
   \<and> effective_max_tokens (Some 5) < 1024"
  by code_simp



section \<open>Float rounding\<close>

text \<open>
  The exponent function is correct, and a rounding is determined by the scaled value:
  the lemmas below evaluate a rounding from two bounds and one integer rounding.
\<close>

lemma pow2_pos: "0 < pow2 e" by (simp add: pow2_def)

lemma pow2_add: "pow2 (a + b) = pow2 a * pow2 b"
  by (simp add: pow2_def power_int_add)

lemma pow2_mono: "a \<le> b \<Longrightarrow> pow2 a \<le> pow2 b"
  by (simp add: pow2_def power_int_increasing)

lemma pow2_strict_mono: "a < b \<Longrightarrow> pow2 a < pow2 b"
  by (simp add: pow2_def power_int_strict_increasing)

lemma pow2_nat: "0 \<le> e \<Longrightarrow> pow2 e = 2 ^ nat e"
  unfolding pow2_def power_int_def by simp

lemma ilog2_bounds:
  assumes "0 < x"
  shows "pow2 (ilog2 x) \<le> x \<and> x < pow2 (ilog2 x + 1)"
proof -
  obtain p q where pq: "quotient_of x = (p, q)" by (cases "quotient_of x")
  then have q: "0 < q" and x: "x = of_int p / of_int q"
    using quotient_of_denom_pos[OF pq] quotient_of_div[OF pq] by auto
  with assms have p: "0 < p" by (simp add: zero_less_divide_iff)
  let ?a = "bitlen p" and ?b = "bitlen q"
  let ?d = "?a - ?b"
  have a1: "1 \<le> ?a" and b1: "1 \<le> ?b"
    using p q bitlen_eq_zero_iff[of p] bitlen_eq_zero_iff[of q] bitlen_nonneg[of p] bitlen_nonneg[of q]
    by linarith+
  from bitlen_bounds[OF p] have pl: "(2::int) ^ nat (?a - 1) \<le> p" and pu: "p < 2 ^ nat ?a" by auto
  from bitlen_bounds[OF q] have ql: "(2::int) ^ nat (?b - 1) \<le> q" and qu: "q < 2 ^ nat ?b" by auto
  have pl': "pow2 (?a - 1) \<le> of_int p"
  proof -
    from pl have "(of_int (2 ^ nat (?a - 1)) :: rat) \<le> of_int p" by (simp only: of_int_le_iff)
    then show ?thesis using a1 by (simp add: pow2_nat)
  qed
  have pu': "of_int p < pow2 ?a"
  proof -
    from pu have "(of_int p :: rat) < of_int (2 ^ nat ?a)" by (simp only: of_int_less_iff)
    then show ?thesis using a1 by (simp add: pow2_nat)
  qed
  have ql': "pow2 (?b - 1) \<le> of_int q"
  proof -
    from ql have "(of_int (2 ^ nat (?b - 1)) :: rat) \<le> of_int q" by (simp only: of_int_le_iff)
    then show ?thesis using b1 by (simp add: pow2_nat)
  qed
  have qu': "of_int q < pow2 ?b"
  proof -
    from qu have "(of_int q :: rat) < of_int (2 ^ nat ?b)" by (simp only: of_int_less_iff)
    then show ?thesis using b1 by (simp add: pow2_nat)
  qed
  have qpos: "(0::rat) < of_int q" using q by simp
  have up: "x < pow2 (?d + 1)"
  proof -
    have "pow2 (?d + 1) * pow2 (?b - 1) = pow2 ?a"
      using pow2_add[of "?d + 1" "?b - 1"] by simp
    then have "of_int p < pow2 (?d + 1) * pow2 (?b - 1)" using pu' by simp
    also have "\<dots> \<le> pow2 (?d + 1) * of_int q"
      using ql' pow2_pos[of "?d + 1"] by (simp add: mult_left_mono)
    finally show ?thesis using qpos by (simp add: x pos_divide_less_eq)
  qed
  have lo: "pow2 (?d - 1) < x"
  proof -
    have e: "pow2 (?d - 1) * pow2 ?b = pow2 (?a - 1)"
      using pow2_add[of "?d - 1" "?b"] by simp
    have "pow2 (?d - 1) * of_int q < pow2 (?d - 1) * pow2 ?b"
      using qu' pow2_pos[of "?d - 1"] by (simp add: mult_strict_left_mono)
    also have "\<dots> \<le> of_int p" using pl' e by simp
    finally show ?thesis using qpos by (simp add: x pos_less_divide_eq)
  qed
  show ?thesis
  proof (cases "pow2 ?d \<le> x")
    case True
    then have "ilog2 x = ?d" by (simp add: ilog2_def pq)
    with True up show ?thesis by simp
  next
    case False
    then have "ilog2 x = ?d - 1" by (simp add: ilog2_def pq)
    with False lo show ?thesis by simp
  qed
qed

lemma ilog2_eqI:
  assumes "0 < x" "pow2 e \<le> x" "x < pow2 (e + 1)"
  shows "ilog2 x = e"
proof (rule ccontr)
  assume ne: "ilog2 x \<noteq> e"
  from ilog2_bounds[OF assms(1)] have l: "pow2 (ilog2 x) \<le> x" and u: "x < pow2 (ilog2 x + 1)"
    by auto
  show False
  proof (cases "ilog2 x < e")
    case True
    then have "pow2 (ilog2 x + 1) \<le> pow2 e" by (simp add: pow2_mono)
    with u assms(2) show False by simp
  next
    case False
    with ne have "e + 1 \<le> ilog2 x" by simp
    then have "pow2 (e + 1) \<le> pow2 (ilog2 x)" by (rule pow2_mono)
    with l assms(3) show False by simp
  qed
qed

lemma round_half_even_le:
  assumes "q \<le> of_int k"
  shows "round_half_even q \<le> k"
proof -
  have f: "\<lfloor>q\<rfloor> \<le> k" using assms by (simp add: floor_le_iff)
  show ?thesis
  proof (cases "q = of_int \<lfloor>q\<rfloor>")
    case True
    then have "q - of_int \<lfloor>q\<rfloor> = 0" by simp
    then show ?thesis using f by (simp add: round_half_even_def Let_def)
  next
    case False
    then have "of_int \<lfloor>q\<rfloor> < q" using of_int_floor_le[of q] by (auto simp: less_le)
    with assms have "(of_int \<lfloor>q\<rfloor> :: rat) < of_int k" by simp
    then have "\<lfloor>q\<rfloor> < k" by simp
    then show ?thesis by (simp add: round_half_even_def Let_def)
  qed
qed

lemma round_half_even_ge:
  assumes "of_int k \<le> q"
  shows "k \<le> round_half_even q"
proof -
  have "k \<le> \<lfloor>q\<rfloor>" using assms by (simp add: le_floor_iff)
  then show ?thesis by (simp add: round_half_even_def Let_def)
qed

lemma fl_round_pos:
  assumes x: "0 < x" and lo: "pow2 e \<le> x" and hi: "x < pow2 (e + 1)"
    and emin: "- 1022 \<le> e" and emax: "e \<le> 1022"
    and n: "round_half_even (x / pow2 (e - 52)) = n"
  shows "fl_round x = Fin (of_int n * pow2 (e - 52))"
proof -
  have il: "ilog2 x = e" using ilog2_eqI[OF x lo hi] by simp
  have ax: "\<bar>x\<bar> = x" using x by simp
  have "x / pow2 (e - 52) < pow2 53"
  proof -
    have "pow2 53 * pow2 (e - 52) = pow2 (e + 1)"
      using pow2_add[of 53 "e - 52"] by (simp add: add.commute)
    with hi have "x < pow2 53 * pow2 (e - 52)" by simp
    then show ?thesis using pow2_pos[of "e - 52"] by (simp only: pos_divide_less_eq)
  qed
  then have "x / pow2 (e - 52) \<le> of_int (2 ^ 53)" by (simp add: pow2_nat)
  from round_half_even_le[OF this] n have nle: "n \<le> 2 ^ 53" by simp
  have "of_int 1 \<le> x / pow2 (e - 52)"
  proof -
    have "pow2 (e - 52) \<le> pow2 e" by (simp add: pow2_mono)
    with lo have "pow2 (e - 52) \<le> x" by simp
    then show ?thesis using pow2_pos[of "e - 52"] by (simp add: pos_le_divide_eq)
  qed
  from round_half_even_ge[OF this] n have npos: "0 < n" by simp
  let ?r = "of_int n * pow2 (e - 52)"
  have rpos: "0 < ?r" using npos pow2_pos[of "e - 52"] by simp
  have "?r \<le> pow2 53 * pow2 (e - 52)"
  proof -
    have "(of_int n :: rat) \<le> of_int (2 ^ 53)" using nle by (simp only: of_int_le_iff)
    then have "(of_int n :: rat) \<le> pow2 53" by (simp add: pow2_nat)
    then show ?thesis using pow2_pos[of "e - 52"] by (simp add: mult_right_mono)
  qed
  also have "\<dots> = pow2 (e + 1)" using pow2_add[of 53 "e - 52"] by (simp add: add.commute)
  also have "\<dots> < pow2 1024" using emax by (simp add: pow2_strict_mono)
  finally have small: "?r < pow2 1024" .
  have noover: "\<not> 1024 \<le> ilog2 ?r"
  proof
    assume "1024 \<le> ilog2 ?r"
    then have "pow2 1024 \<le> pow2 (ilog2 ?r)" by (rule pow2_mono)
    also have "\<dots> \<le> ?r" using ilog2_bounds[OF rpos] by simp
    finally show False using small by simp
  qed
  have mx: "max e (- 1022) = e" using emin by simp
  show ?thesis
    using x noover by (simp add: fl_round_def Let_def ax il mx n)
qed

lemma fl_round_scaled:
  assumes x: "0 < x" and lo: "2 ^ 52 \<le> x * 2 ^ s" and hi: "x * 2 ^ s < 2 ^ 53"
    and s: "s \<le> 1074"
    and n: "round_half_even (x * 2 ^ s) = n"
  shows "fl_round x = Fin (of_int n / 2 ^ s)"
proof -
  define e where "e = 52 - int s"
  have em: "e - 52 = - int s" by (simp add: e_def)
  have p: "pow2 (e - 52) = 1 / 2 ^ s"
    unfolding em by (simp add: pow2_def power_int_minus field_simps)
  have d: "x / pow2 (e - 52) = x * 2 ^ s" unfolding p by simp
  have l: "pow2 e \<le> x"
  proof -
    have "pow2 e = pow2 52 * pow2 (e - 52)" using pow2_add[of 52 "e - 52"] by simp
    also have "\<dots> = 2 ^ 52 / 2 ^ s" unfolding p by (simp add: pow2_nat)
    finally show ?thesis using lo by (simp add: pos_divide_le_eq)
  qed
  have h: "x < pow2 (e + 1)"
  proof -
    have "pow2 (e + 1) = pow2 53 * pow2 (e - 52)"
      using pow2_add[of 53 "e - 52"] by (simp add: add.commute)
    also have "\<dots> = 2 ^ 53 / 2 ^ s" unfolding p by (simp add: pow2_nat)
    finally show ?thesis using hi by (simp add: pos_less_divide_eq)
  qed
  have n': "round_half_even (x / pow2 (e - 52)) = n" unfolding d by (rule n)
  have e1: "- 1022 \<le> e" and e2: "e \<le> 1022" using s by (simp_all add: e_def)
  have "fl_round x = Fin (of_int n * pow2 (e - 52))"
    using x l h e1 e2 n' by (rule fl_round_pos)
  then show ?thesis unfolding p by simp
qed

lemma floor_rat_numeral:
  "\<lfloor>(numeral a :: rat) / numeral b\<rfloor> = numeral a div numeral b"
  using floor_divide_of_int_eq[where ?'a = rat, of "numeral a" "numeral b"] by simp

lemmas rhe = round_half_even_def Let_def floor_rat_numeral

section \<open>Properties of the per-sample correctness\<close>

lemma upper_B: "upper ''B'' = ''B''" "upper ''b'' = ''B''"
  by code_simp+

lemma strip_B: "strip ''B'' = ''B''" by code_simp

lemma scan_blocks_Cons:
  "scan_blocks (b # bs) =
     (case searched_block b of
        [] \<Rightarrow> scan_blocks bs
      | v # vs \<Rightarrow>
          (case search_answer v of
             Inl e \<Rightarrow> Inl e
           | Inr (Some c) \<Rightarrow> Inr (Some (upper [c]))
           | Inr None \<Rightarrow> scan_blocks bs))"
  by (auto simp: searched_block_def Let_def split: json.splits)

lemma searched_block_short: "searched_block b = v # vs \<Longrightarrow> vs = []"
  by (auto simp: searched_block_def split: json.splits if_splits)

lemma scan_blocks_first:
  assumes "concat (map searched_block blocks) = map JStr pre @ JStr text # post"
    and "\<forall>t \<in> set pre. answer_search t = None"
    and "answer_search text = Some c"
  shows "scan_blocks blocks = Inr (Some (upper [c]))"
  using assms(1,2)
proof (induction blocks arbitrary: pre)
  case Nil
  then show ?case by simp
next
  case (Cons b bs)
  show ?case
  proof (cases "searched_block b")
    case Nil
    with Cons.prems have "concat (map searched_block bs) = map JStr pre @ JStr text # post"
      by simp
    from Cons.IH[OF this Cons.prems(2)] Nil show ?thesis by (simp add: scan_blocks_Cons del: scan_blocks.simps)
  next
    case (Cons v vs)
    then have vs: "vs = []" by (rule searched_block_short)
    show ?thesis
    proof (cases pre)
      case Nil
      with Cons.prems(1) Cons vs have "v = JStr text" by simp
      with Cons assms(3) show ?thesis by (simp add: scan_blocks_Cons del: scan_blocks.simps)
    next
      case (Cons p ps)
      with Cons.prems(1) \<open>searched_block b = v # vs\<close> vs
      have v: "v = JStr p" and r: "concat (map searched_block bs) = map JStr ps @ JStr text # post"
        by simp_all
      from Cons Cons.prems(2) have n: "answer_search p = None" and ns: "\<forall>t \<in> set ps. answer_search t = None"
        by simp_all
      from Cons.IH[OF r ns] v n \<open>searched_block b = v # vs\<close> show ?thesis
        by (simp add: scan_blocks_Cons del: scan_blocks.simps)
    qed
  qed
qed

lemma from_message_text:
  assumes mc: "message_content s = Some content"
    and st: "searched_texts content = map JStr pre @ JStr text # post"
    and nm: "\<forall>t \<in> set pre. answer_search t = None"
    and am: "answer_search text = Some c"
  shows "\<exists>kvs. s = JObj kvs
          \<and> from_message (get_item kvs ''output'' (JObj [])) = Inr (Some (upper [c]))"
proof -
  from mc obtain kvs okvs ckvs rest mkvs where s: "s = JObj kvs"
    and o: "get_item kvs ''output'' (JObj []) = JObj okvs"
    and c: "get_item okvs ''choices'' (JArr []) = JArr (JObj ckvs # rest)"
    and m: "get_item ckvs ''message'' (JObj []) = JObj mkvs"
    and t: "content = get_item mkvs ''content'' (JArr [])"
    by (auto simp: message_content_def split: json.splits list.splits)
  have "(case content of
           JArr blocks \<Rightarrow> scan_blocks blocks
         | JStr text \<Rightarrow>
             (case answer_search text of Some c \<Rightarrow> Inr (Some (upper [c])) | None \<Rightarrow> Inr None)
         | _ \<Rightarrow> Inr None) = Inr (Some (upper [c]))"
  proof (cases content)
    case (JStr t)
    with st have "pre = []" "t = text" by (auto simp: searched_texts_def Cons_eq_append_conv)
    with JStr am show ?thesis by simp
  next
    case (JArr blocks)
    with st have "concat (map searched_block blocks) = map JStr pre @ JStr text # post"
      by (simp add: searched_texts_def)
    from scan_blocks_first[OF this nm am] JArr show ?thesis by simp
  qed (use st in \<open>simp_all add: searched_texts_def\<close>)
  then have "from_message (JObj okvs) = Inr (Some (upper [c]))"
    using c m t by (simp add: from_message_def bind_err_def)
  with s o show ?thesis by simp
qed

text \<open>
  Claim C2, as amended. Take a parsed sample that has a \<^verbatim>\<open>choice\<close> entry in its scores and
  the target \<^verbatim>\<open>B\<close>. The raw response is the message content of the first choice: the
  content itself when it is a string, and when it is a list of blocks, in order, the text
  of every text block and the summary of every reasoning block that has one. If the first
  of these texts in which the answer pattern matches has a first match with the letter B
  (in either case), \<open>is_sample_correct\<close> returns true, whatever the scorer's own fields
  (value, answer, explanation) hold.
\<close>

theorem answer_in_response_decides:
  assumes mc: "message_content s = Some content"
    and st: "searched_texts content = map JStr pre @ JStr text # post"
    and nm: "\<forall>t \<in> set pre. answer_search t = None"
    and am: "answer_search text = Some c"
    and cb: "c = CHR ''B'' \<or> c = CHR ''b''"
    and sc: "scored_by_choice s"
    and tg: "py_get s ''target'' (JStr []) = Inr (JStr ''B'')"
  shows "is_sample_correct str_json s = Inr True"
proof -
  from from_message_text[OF mc st nm am] obtain kvs where
    s: "s = JObj kvs" and fm: "from_message (get_item kvs ''output'' (JObj [])) = Inr (Some (upper [c]))"
    by blast
  from cb have u: "upper [c] = ''B''" using upper_B by auto
  have ep: "extract_predicted s = Inr ''B''"
    by (simp add: extract_predicted_def s fm u bind_err_def)
  have ee: "extract_expected str_json s = Inr (JStr ''B'')"
    using tg by (simp add: extract_expected_def s bind_err_def py_str_def strip_B)
  from sc obtain scores where g: "py_get s ''scores'' (JObj []) = Inr scores"
    and i: "py_in ''choice'' scores = Inr True"
    by (auto simp: scored_by_choice_def bind_err_def split: sum.splits)
  show ?thesis
    by (simp add: is_sample_correct_def g i ep ee bind_err_def upper_B)
qed

text \<open>
  The theorem at a sample whose response is a list of blocks, the last of them the text
  \<^verbatim>\<open>Answer: b\<close> and the only one with an answer, for which the scorer recorded the answer
  A and the verdict incorrect.
\<close>

theorem answer_in_response_decides_witness:
  "message_content sample_blocks = Some (JArr blocks_answer_last)
   \<and> searched_texts (JArr blocks_answer_last)
       = map JStr [''Let me think.''] @ JStr ''Answer: b'' # []
   \<and> answer_search ''Let me think.'' = None
   \<and> answer_search ''Answer: b'' = Some CHR ''b''
   \<and> scored_by_choice sample_blocks
   \<and> py_get sample_blocks ''target'' (JStr []) = Inr (JStr ''B'')
   \<and> is_sample_correct no_text sample_blocks = Inr True"
proof -
  have mc: "message_content sample_blocks = Some (JArr blocks_answer_last)" by code_simp
  have st: "searched_texts (JArr blocks_answer_last)
              = map JStr [''Let me think.''] @ JStr ''Answer: b'' # []" by code_simp
  have n: "answer_search ''Let me think.'' = None" by code_simp
  then have nm: "\<forall>t \<in> set [''Let me think.'']. answer_search t = None" by simp
  have am: "answer_search ''Answer: b'' = Some CHR ''b''" by code_simp
  have sc: "scored_by_choice sample_blocks" by code_simp
  have tg: "py_get sample_blocks ''target'' (JStr []) = Inr (JStr ''B'')" by code_simp
  show ?thesis
    using mc st n am sc tg answer_in_response_decides[OF mc st nm am _ sc tg, of no_text]
    by simp
qed

text \<open>
  Claim C2 as stated fails in three ways. The response \<^verbatim>\<open>To answer a question: Answer: B\<close>
  holds \<^verbatim>\<open>Answer: B\<close>, but the first match of the pattern is \<^verbatim>\<open>answer a\<close>, so the predicted
  answer is A. A sample without a \<^verbatim>\<open>choice\<close> entry is judged by the scorer's value alone
  (\<^verbatim>\<open>score.value == 1\<close>). And the summary of a reasoning block that stands before the
  response text is searched first.
\<close>

theorem answer_b_in_response_judged_wrong:
  "contains ''Answer: B'' ''To answer a question: Answer: B''
   \<and> message_content sample_earlier_match = Some (JStr ''To answer a question: Answer: B'')
   \<and> py_get sample_earlier_match ''target'' (JStr []) = Inr (JStr ''B'')
   \<and> is_sample_correct no_text sample_earlier_match = Inr False
   \<and> message_content sample_old_format = Some (JStr ''Answer: B'')
   \<and> py_get sample_old_format ''target'' (JStr []) = Inr (JStr ''B'')
   \<and> is_sample_correct no_text sample_old_format = Inr False
   \<and> message_content sample_reasoning_first
       = Some (JArr [JObj [(''type'', JStr ''reasoning''), (''summary'', JStr ''Answer: A'')],
                     JObj [(''type'', JStr ''text''), (''text'', JStr ''Answer: B'')]])
   \<and> py_get sample_reasoning_first ''target'' (JStr []) = Inr (JStr ''B'')
   \<and> is_sample_correct no_text sample_reasoning_first = Inr False"
  by code_simp

lemma upper_char_nonempty: "upper_char c \<noteq> []"
  by (simp add: upper_char_def Let_def)

lemma upper_single_nonempty: "upper [c] \<noteq> []"
  by (simp add: upper_def upper_char_nonempty)

lemma scan_blocks_nonempty: "scan_blocks bs = Inr (Some a) \<Longrightarrow> a \<noteq> []"
proof (induction bs)
  case Nil
  then show ?case by simp
next
  case (Cons b bs)
  then show ?case
    by (auto simp: upper_single_nonempty Let_def
        split: json.splits if_splits sum.splits option.splits)
qed

lemma from_message_nonempty: "from_message output = Inr (Some a) \<Longrightarrow> a \<noteq> []"
  by (auto simp: from_message_def bind_err_def upper_single_nonempty
      dest: scan_blocks_nonempty
      split: sum.splits if_splits json.splits option.splits)

lemma from_completion_nonempty: "from_completion output = Inr (Some a) \<Longrightarrow> a \<noteq> []"
  by (auto simp: from_completion_def bind_err_def upper_single_nonempty
      split: sum.splits if_splits option.splits)

lemma py_get_Inr: "py_get x k d = Inr v \<Longrightarrow> \<exists>kvs. x = JObj kvs \<and> v = get_item kvs k d"
  by (cases x) auto

lemma extract_predicted_empty:
  assumes "extract_predicted s = Inr []"
  shows "\<exists>kvs. s = JObj kvs \<and> from_scores s = Inr []"
proof -
  from assms obtain out where o: "py_get s ''output'' (JObj []) = Inr out"
    by (auto simp: extract_predicted_def bind_err_def split: sum.splits)
  then obtain kvs where s: "s = JObj kvs" using py_get_Inr by blast
  from assms o obtain r1 where r1: "from_message out = Inr r1"
    by (auto simp: extract_predicted_def bind_err_def split: sum.splits)
  have n1: "r1 = None"
  proof (cases r1)
    case (Some a)
    with assms o r1 have "a = []" by (simp add: extract_predicted_def bind_err_def)
    with from_message_nonempty r1 Some show ?thesis by blast
  qed simp
  from assms o r1 n1 obtain r2 where r2: "from_completion out = Inr r2"
    by (auto simp: extract_predicted_def bind_err_def split: sum.splits)
  have n2: "r2 = None"
  proof (cases r2)
    case (Some a)
    with assms o r1 n1 r2 have "a = []" by (simp add: extract_predicted_def bind_err_def)
    with from_completion_nonempty r2 Some show ?thesis by blast
  qed simp
  from assms o r1 n1 r2 n2 have "from_scores s = Inr []"
    by (simp add: extract_predicted_def bind_err_def)
  with s show ?thesis by blast
qed

lemma from_scores_choice:
  assumes "from_scores (JObj kvs) = Inr r"
  shows "\<exists>b. py_in ''choice'' (get_item kvs ''scores'' (JObj [])) = Inr b
          \<and> (b \<longrightarrow> (\<exists>ckv. py_item (get_item kvs ''scores'' (JObj [])) ''choice'' = Inr (JObj ckv)))"
  using assms
  by (auto simp: from_scores_def bind_err_def split: sum.splits if_splits dest!: py_get_Inr)

text \<open>
  Claim C3, as amended. For every sample on which \<open>extract_predicted\<close> returns the empty
  string (no stage of the chain finds an answer, and none raises), \<open>is_sample_correct\<close>
  returns without raising: false when the sample has a \<^verbatim>\<open>choice\<close> entry in its scores,
  and otherwise the verdict of the old format, \<^verbatim>\<open>score.value == 1\<close>.
\<close>

theorem nothing_extracted_verdict:
  assumes "extract_predicted s = Inr []"
  shows "is_sample_correct str_json s = Inr (\<not> scored_by_choice s \<and> old_format_verdict s)"
proof -
  from extract_predicted_empty[OF assms] obtain kvs where
    s: "s = JObj kvs" and fs: "from_scores (JObj kvs) = Inr []" by blast
  let ?scores = "get_item kvs ''scores'' (JObj [])"
  from from_scores_choice[OF fs] obtain b where
    b: "py_in ''choice'' ?scores = Inr b"
    and cd: "b \<longrightarrow> (\<exists>ckv. py_item ?scores ''choice'' = Inr (JObj ckv))" by blast
  have sbc: "scored_by_choice s = b"
    by (simp add: scored_by_choice_def s bind_err_def b)
  show ?thesis
  proof (cases b)
    case True
    with cd obtain ckv where ckv: "py_item ?scores ''choice'' = Inr (JObj ckv)" by blast
    have "\<exists>e. extract_expected str_json s = Inr e"
      by (simp add: extract_expected_def s bind_err_def b True ckv)
    then obtain e where e: "extract_expected str_json s = Inr e" by blast
    show ?thesis
      using True sbc
      by (simp add: is_sample_correct_def s bind_err_def b assms[unfolded s] e[unfolded s])
  next
    case False
    then show ?thesis
      using sbc
      by (simp add: is_sample_correct_def s bind_err_def b old_format_verdict_def
          split: json.splits)
  qed
qed

text \<open>The theorem at a sample whose response holds no answer.\<close>

theorem nothing_extracted_verdict_witness:
  "extract_predicted sample_nothing = Inr []
   \<and> scored_by_choice sample_nothing
   \<and> is_sample_correct no_text sample_nothing = Inr False"
proof -
  have e: "extract_predicted sample_nothing = Inr []" by code_simp
  have c: "scored_by_choice sample_nothing" by code_simp
  show ?thesis using e c nothing_extracted_verdict[OF e, of no_text] by simp
qed

text \<open>
  Claim C3 as stated asks for false whenever nothing can be extracted. A sample with no
  output and an old-format score of 1 yields no predicted answer and is judged correct.
\<close>

theorem nothing_extracted_yet_correct:
  "extract_predicted sample_score_one = Inr []
   \<and> is_sample_correct no_text sample_score_one = Inr True"
  by code_simp

section \<open>Properties of the log reader and of an epoch\<close>

text \<open>
  Claim C6. For every log path whose resolved absolute path is neither the logs directory
  nor below it, \<open>parse_log_results\<close> returns \<^verbatim>\<open>None\<close> and has made no access to the file:
  it has neither tested it for an archive nor opened it.
\<close>

theorem rejects_outside_logs:
  assumes "\<not> prefix (abspath w ''logs'' @ ''/'') (abspath w log_path)"
    and "abspath w log_path \<noteq> abspath w ''logs''"
  shows "parse_log_results w epoch log_path = (Inr JNull, [])"
  using assms by (simp add: parse_log_results_def Let_def)

text \<open>
  The theorem at \<^verbatim>\<open>../../etc/passwd\<close>, for a process working in \<^verbatim>\<open>/srv/app\<close>; a path
  inside the logs directory is opened and read.
\<close>

theorem rejects_outside_logs_witness:
  "abspath world_with_log ''../../etc/passwd''
     = ''/etc/passwd''
   \<and> abspath world_with_log ''logs''
     = ''/srv/app/logs''
   \<and> parse_log_results world_with_log 0
        ''../../etc/passwd'' = (Inr JNull, [])
   \<and> parse_log_results world_with_log 0
        ''logs/run1.json'' = (Inr example_log, [Opened_Text ''logs/run1.json''])"
proof -
  let ?w = "world_with_log"
  have a: "abspath ?w ''../../etc/passwd'' = ''/etc/passwd''" by code_simp
  have b: "abspath ?w ''logs'' = ''/srv/app/logs''" by code_simp
  have h1: "\<not> prefix (abspath ?w ''logs'' @ ''/'') (abspath ?w ''../../etc/passwd'')"
    unfolding a b by simp
  have h2: "abspath ?w ''../../etc/passwd'' \<noteq> abspath ?w ''logs''"
    unfolding a b by simp
  have c: "parse_log_results ?w 0 ''logs/run1.json''
             = (Inr example_log, [Opened_Text ''logs/run1.json''])"
    by code_simp
  show ?thesis using a b c rejects_outside_logs[OF h1 h2, of 0] by simp
qed

lemma epoch_try_scrapes:
  assumes "subprocess_run w epoch cmd tmo = Completed 0 stdout stderr"
    and "no_artifact w epoch stdout"
  shows "epoch_try w rq cmd tmo epoch = scrape_output w rq epoch stdout"
  using assms by (auto simp: epoch_try_def no_artifact_def split: option.splits)

lemma scrape_statistics_finite:
  assumes "py_float number_text = Inr (Fin a)"
    and "int_of_float (fl_mul (scraped_score a) (fl_of_int limit)) = Inr c"
  shows "scrape_statistics limit epoch number_text =
           Inr \<lparr>er_epoch = int epoch + 1, er_score = PyFloat (scraped_score a),
                er_correct = c, er_total = limit\<rparr>"
  using assms
  by (cases "1 < a") (simp_all add: scrape_statistics_def bind_err_def scraped_score_def)

text \<open>
  Claim C10. When the external tool succeeds, no log artifact is found, the accuracy
  pattern matches the captured output, the matched number converts to a finite float and
  \<^verbatim>\<open>int(score * limit)\<close> converts, the epoch result has \<^verbatim>\<open>total\<close> equal to the requested
  limit, \<^verbatim>\<open>correct\<close> equal to \<^verbatim>\<open>int(score * limit)\<close>, and as score the scraped value,
  divided by 100 first when it is greater than 1.
\<close>

theorem scraped_epoch_result:
  assumes run: "subprocess_run w epoch cmd tmo = Completed 0 stdout stderr"
    and na: "no_artifact w epoch stdout"
    and m: "accuracy_search stdout = Some number_text"
    and v: "py_float number_text = Inr (Fin a)"
    and c: "int_of_float (fl_mul (scraped_score a) (fl_of_int (rq_limit rq))) = Inr c"
  shows "snd (epoch_try w rq cmd tmo epoch) =
           Inr (Some \<lparr>er_epoch = int epoch + 1, er_score = PyFloat (scraped_score a),
                      er_correct = c, er_total = rq_limit rq\<rparr>)"
  using epoch_try_scrapes[OF run na] scrape_statistics_finite[OF v c]
  by (simp add: scrape_output_def m Let_def)

text \<open>
  The theorem at the outputs \<^verbatim>\<open>accuracy: 0.85\<close> and \<^verbatim>\<open>Accuracy: 85\<close> with limit 10: the
  score is the float 0.85 and 8 samples count as correct.
\<close>

theorem scraped_epoch_result_witness:
  "snd (epoch_try world_fraction
          example_request [''inspect''] 600 0)
     = Inr (Some \<lparr>er_epoch = 1, er_score = PyFloat (Fin (7656119366529843 / 9007199254740992)),
                  er_correct = 8, er_total = 10\<rparr>)
   \<and> snd (epoch_try world_percent
          example_request [''inspect''] 600 0)
     = Inr (Some \<lparr>er_epoch = 1, er_score = PyFloat (Fin (7656119366529843 / 9007199254740992)),
                  er_correct = 8, er_total = 10\<rparr>)"
proof -
  let ?w1 = world_fraction
  let ?w2 = world_percent
  have r1: "subprocess_run ?w1 0 [''inspect''] 600 = Completed 0 ''accuracy: 0.85'' []"
    by code_simp
  have r2: "subprocess_run ?w2 0 [''inspect''] 600 = Completed 0 ''Accuracy: 85'' []"
    by code_simp
  have n1: "no_artifact ?w1 0 ''accuracy: 0.85''" by code_simp
  have n2: "no_artifact ?w2 0 ''Accuracy: 85''" by code_simp
  have m1: "accuracy_search ''accuracy: 0.85'' = Some ''0.85''" by code_simp
  have m2: "accuracy_search ''Accuracy: 85'' = Some ''85''" by code_simp
  have v1: "py_float ''0.85'' = Inr (Fin (7656119366529843 / 9007199254740992))" by code_simp
  have v2: "py_float ''85'' = Inr (Fin 85)" by code_simp
  have s1: "scraped_score (7656119366529843 / 9007199254740992)
              = Fin (7656119366529843 / 9007199254740992)"
    by (simp add: scraped_score_def)
  have s2: "scraped_score 85 = Fin (7656119366529843 / 9007199254740992)" by code_simp
  have c0: "int_of_float (fl_mul (Fin (7656119366529843 / 9007199254740992))
              (fl_of_int (rq_limit example_request))) = Inr 8"
    by code_simp
  have c1: "int_of_float (fl_mul (scraped_score (7656119366529843 / 9007199254740992))
              (fl_of_int (rq_limit example_request))) = Inr 8"
    unfolding s1 by (rule c0)
  have c2: "int_of_float (fl_mul (scraped_score 85) (fl_of_int (rq_limit example_request))) = Inr 8"
    unfolding s2 by (rule c0)
  have l: "rq_limit example_request = 10" by (simp add: example_request_def)
  show ?thesis
    using scraped_epoch_result[OF r1 n1 m1 v1 c1] scraped_epoch_result[OF r2 n2 m2 v2 c2]
    by (simp add: s1 s2 l)
qed

text \<open>
  Claim C7, as amended. When the external tool succeeds, a log artifact that is found but
  parses to nothing, and an output with no artifact and no accuracy figure, both end the
  epoch with one error event of the same code \<^verbatim>\<open>PARSE_ERROR\<close>; the two events differ in
  their message, and only the second carries details (a preview of the output) and
  follows a progress event.
\<close>

theorem parse_failures_share_code:
  assumes run: "subprocess_run w epoch cmd tmo = Completed 0 stdout stderr"
  shows "(find_log_path stdout = Some p \<and> path_exists w epoch p
            \<and> fst (parse_log_results w epoch p) = Inr d \<and> \<not> truthy d
          \<longrightarrow> epoch_try w rq cmd tmo epoch =
                ([create_error PARSE_ERROR (''Failed to parse results from '' @ p) []], Inr None))
       \<and> (no_artifact w epoch stdout \<and> accuracy_search stdout = None
          \<longrightarrow> epoch_try w rq cmd tmo epoch =
                ([create_progress ''Parsing results from output...'' [],
                  create_error PARSE_ERROR ''Could not parse benchmark results''
                    [(''output_preview'', JStr (take 500 stdout))]], Inr None))"
proof (intro conjI impI)
  assume "find_log_path stdout = Some p \<and> path_exists w epoch p
            \<and> fst (parse_log_results w epoch p) = Inr d \<and> \<not> truthy d"
  then show "epoch_try w rq cmd tmo epoch =
                ([create_error PARSE_ERROR (''Failed to parse results from '' @ p) []], Inr None)"
    using run by (simp add: epoch_try_def)
next
  assume a: "no_artifact w epoch stdout \<and> accuracy_search stdout = None"
  then show "epoch_try w rq cmd tmo epoch =
                ([create_progress ''Parsing results from output...'' [],
                  create_error PARSE_ERROR ''Could not parse benchmark results''
                    [(''output_preview'', JStr (take 500 stdout))]], Inr None)"
    using epoch_try_scrapes[OF run] by (simp add: scrape_output_def Let_def)
qed

text \<open>The theorem at an unparsable artifact, and at an output without results.\<close>

theorem parse_failures_share_code_witness:
  "epoch_try world_unparsable
     example_request [''inspect''] 600 0
     = ([create_error PARSE_ERROR ''Failed to parse results from logs/run1.json'' []], Inr None)
   \<and> epoch_try world_no_results
     example_request [''inspect''] 600 0
     = ([create_progress ''Parsing results from output...'' [],
         create_error PARSE_ERROR ''Could not parse benchmark results''
           [(''output_preview'', JStr ''no results'')]], Inr None)"
proof -
  let ?w1 = world_unparsable
  let ?w2 = world_no_results
  have r1: "subprocess_run ?w1 0 [''inspect''] 600 = Completed 0 ''Log: logs/run1.json'' []"
    by code_simp
  have r2: "subprocess_run ?w2 0 [''inspect''] 600 = Completed 0 ''no results'' []"
    by code_simp
  have f1: "find_log_path ''Log: logs/run1.json'' = Some ''logs/run1.json''" by code_simp
  have e1: "path_exists ?w1 0 ''logs/run1.json''" by code_simp
  have p1: "fst (parse_log_results ?w1 0 ''logs/run1.json'') = Inr JNull" by code_simp
  have n2: "no_artifact ?w2 0 ''no results''" by code_simp
  have a2: "accuracy_search ''no results'' = None" by code_simp
  show ?thesis
    using parse_failures_share_code[OF r1, of "''logs/run1.json''" JNull example_request]
      parse_failures_share_code[OF r2, of "''logs/run1.json''" JNull example_request]
      f1 e1 p1 n2 a2
    by simp
qed

text \<open>
  Claim C7 as stated asks for two distinct error kinds. A run whose artifact does not
  parse and a run without an artifact and without an accuracy figure both end with an
  error event of the code \<^verbatim>\<open>PARSE_ERROR\<close>.
\<close>

theorem parse_failures_same_error_code:
  "map event_type (fst (run_with_inspect_ai
       world_unparsable
       example_request))
     = [''progress'', ''progress'', ''error'']
   \<and> event_field (last (fst (run_with_inspect_ai
       world_unparsable
       example_request))) ''code'' = JStr ''PARSE_ERROR''
   \<and> map event_type (fst (run_with_inspect_ai
       world_no_results
       example_request))
     = [''progress'', ''progress'', ''progress'', ''error'']
   \<and> event_field (last (fst (run_with_inspect_ai
       world_no_results
       example_request))) ''code'' = JStr ''PARSE_ERROR''"
  by code_simp

section \<open>Properties of the result events\<close>

lemma count_correct_Inr:
  "count_correct sj xs = Inr n \<Longrightarrow>
     n = length (filter (\<lambda>s. is_sample_correct sj s = Inr True) xs)
     \<and> (\<forall>s \<in> set xs. \<exists>b. is_sample_correct sj s = Inr b)"
proof (induction xs arbitrary: n)
  case Nil
  then show ?case by simp
next
  case (Cons s ss)
  from Cons.prems obtain b m where b: "is_sample_correct sj s = Inr b"
    and m: "count_correct sj ss = Inr m" and n: "n = (if b then 1 else 0) + m"
    by (auto split: sum.splits)
  from Cons.IH[OF m] show ?case using b n by auto
qed

lemma event_type_result [simp]:
  "event_type (create_result q t c rs l extra) = ''result''"
  by (simp add: event_type_def create_result_def get_item_def)

lemma event_type_progress [simp]:
  "event_type (create_progress m extra) = ''progress''"
  by (simp add: event_type_def create_progress_def get_item_def)

lemma event_type_error [simp]:
  "event_type (create_error c m d) = ''error''"
  by (simp add: event_type_def create_error_def get_item_def)

lemma event_type_complete [simp]:
  "event_type (create_complete s c t extra) = ''complete''"
  by (simp add: event_type_def create_complete_def get_item_def)

lemma result_fields:
  "event_field (create_result q t c rs l extra) ''running_score'' = rs"
  "event_field (create_result q t c rs l extra) ''correct'' = JBool c"
  by (simp_all add: event_field_def create_result_def get_item_def)

lemma result_event_Inr:
  assumes "result_event w samples tot epoch i sample = Inr ev"
  shows "\<exists>b n. is_sample_correct (w_str_json w) sample = Inr b
           \<and> count_correct (w_str_json w) (take (i + 1) samples) = Inr n
           \<and> event_field ev ''correct'' = JBool b
           \<and> event_field ev ''running_score'' = JFloat (fl_round (of_nat n / of_nat (Suc i)))
           \<and> event_type ev = ''result''"
proof -
  have nz: "int i + 1 \<noteq> 0" by simp
  show ?thesis
    using assms
    by (auto simp: result_event_def bind_err_def num_truediv_def result_fields add.commute
        split: sum.splits)
qed

lemma result_loop_nth:
  "result_loop w samples tot epoch i rest = (evs, x) \<Longrightarrow>
     length evs \<le> length rest
     \<and> (\<forall>k < length evs. result_event w samples tot epoch (i + k) (rest ! k) = Inr (evs ! k))"
proof (induction rest arbitrary: i evs x)
  case Nil
  then show ?case by simp
next
  case (Cons sample rest)
  show ?case
  proof (cases "result_event w samples tot epoch i sample")
    case (Inl e)
    with Cons.prems show ?thesis by simp
  next
    case (Inr ev)
    obtain evs' x' where r: "result_loop w samples tot epoch (Suc i) rest = (evs', x')"
      by (cases "result_loop w samples tot epoch (Suc i) rest")
    with Cons.prems Inr have evs: "evs = ev # evs'" by simp
    from Cons.IH[OF r] have len: "length evs' \<le> length rest"
      and nth: "\<forall>k < length evs'. result_event w samples tot epoch (Suc i + k) (rest ! k) = Inr (evs' ! k)"
      by auto
    show ?thesis
    proof (intro conjI allI impI)
      show "length evs \<le> length (sample # rest)" using len evs by simp
    next
      fix k assume k: "k < length evs"
      show "result_event w samples tot epoch (i + k) ((sample # rest) ! k) = Inr (evs ! k)"
      proof (cases k)
        case 0
        then show ?thesis using Inr evs by simp
      next
        case (Suc j)
        with k evs have "j < length evs'" by simp
        with nth have "result_event w samples tot epoch (Suc i + j) (rest ! j) = Inr (evs' ! j)"
          by blast
        then show ?thesis using Suc evs by simp
      qed
    qed
  qed
qed

lemma result_loop_all_results:
  "result_loop w samples tot epoch i rest = (evs, x) \<Longrightarrow> \<forall>ev \<in> set evs. event_type ev = ''result''"
proof -
  assume a: "result_loop w samples tot epoch i rest = (evs, x)"
  show ?thesis
  proof
    fix ev assume "ev \<in> set evs"
    then obtain k where k: "k < length evs" and e: "evs ! k = ev" by (auto simp: in_set_conv_nth)
    from result_loop_nth[OF a] k have "result_event w samples tot epoch (i + k) (rest ! k) = Inr (evs ! k)"
      by blast
    from result_event_Inr[OF this] e show "event_type ev = ''result''" by blast
  qed
qed

lemma length_filter_cong_nth:
  assumes "n \<le> length xs" "n \<le> length ys" "\<forall>j < n. P (xs ! j) = Q (ys ! j)"
  shows "length (filter P (take n xs)) = length (filter Q (take n ys))"
  using assms
proof (induction n arbitrary: xs ys)
  case 0
  then show ?case by simp
next
  case (Suc n)
  then obtain x xs' y ys' where xs: "xs = x # xs'" and ys: "ys = y # ys'"
    by (cases xs; cases ys) auto
  from Suc.prems have h: "P x = Q y" and t: "\<forall>j < n. P (xs' ! j) = Q (ys' ! j)"
    unfolding xs ys by auto
  from Suc.prems have "n \<le> length xs'" "n \<le> length ys'" unfolding xs ys by auto
  from Suc.IH[OF this t] h show ?case unfolding xs ys by simp
qed

lemma result_loop_running_score:
  assumes loop: "result_loop w samples tot epoch 0 samples = (evs, x)"
    and k: "k < length evs"
  shows "event_field (evs ! k) ''running_score''
           = JFloat (fl_round (of_nat (correct_count (take (Suc k) evs)) / of_nat (Suc k)))"
proof -
  let ?sj = "w_str_json w"
  from result_loop_nth[OF loop] have len: "length evs \<le> length samples"
    and nth: "\<forall>j < length evs. result_event w samples tot epoch j (samples ! j) = Inr (evs ! j)"
    by auto
  have flag: "(is_sample_correct ?sj (samples ! j) = Inr True)
                = (event_field (evs ! j) ''correct'' = JBool True)" if "j < length evs" for j
  proof -
    from nth that have "result_event w samples tot epoch j (samples ! j) = Inr (evs ! j)" by blast
    from result_event_Inr[OF this] show ?thesis by auto
  qed
  from nth k have "result_event w samples tot epoch k (samples ! k) = Inr (evs ! k)" by blast
  from result_event_Inr[OF this] obtain n where
    n: "count_correct ?sj (take (k + 1) samples) = Inr n"
    and rs: "event_field (evs ! k) ''running_score'' = JFloat (fl_round (of_nat n / of_nat (Suc k)))"
    by blast
  from count_correct_Inr[OF n]
  have "n = length (filter (\<lambda>s. is_sample_correct ?sj s = Inr True) (take (Suc k) samples))"
    by simp
  also have "\<dots> = length (filter (\<lambda>ev. event_field ev ''correct'' = JBool True) (take (Suc k) evs))"
  proof (rule length_filter_cong_nth)
    show "Suc k \<le> length samples" using k len by simp
    show "Suc k \<le> length evs" using k by simp
    show "\<forall>j < Suc k. (is_sample_correct ?sj (samples ! j) = Inr True)
            = (event_field (evs ! j) ''correct'' = JBool True)"
      using flag k by auto
  qed
  finally have "n = correct_count (take (Suc k) evs)" by (simp add: correct_count_def)
  with rs show ?thesis by simp
qed


section \<open>The shape of the event sequence\<close>

lemma non_terminal_simps [simp]:
  "non_terminal []"
  "non_terminal (ev # evs) = ((event_type ev = ''progress'' \<or> event_type ev = ''result'') \<and> non_terminal evs)"
  "non_terminal (xs @ ys) = (non_terminal xs \<and> non_terminal ys)"
  by (auto simp: non_terminal_def)

lemma result_events_simps [simp]:
  "result_events [] = []"
  "result_events (ev # evs) = (if event_type ev = ''result'' then ev # result_events evs else result_events evs)"
  "result_events (xs @ ys) = result_events xs @ result_events ys"
  by (simp_all add: result_events_def)

lemma result_events_all: "\<forall>ev \<in> set evs. event_type ev = ''result'' \<Longrightarrow> result_events evs = evs"
  by (simp add: result_events_def)

lemma loop_output_Nil [simp]: "loop_output w []"
  unfolding loop_output_def by (rule exI[of _ "[]"]) simp

lemma ends_with_errorI: "non_terminal pre \<Longrightarrow> event_type ev = ''error'' \<Longrightarrow> ends_with_error (pre @ [ev])"
  by (auto simp: ends_with_error_def)

lemma ends_with_error_single [simp]: "event_type ev = ''error'' \<Longrightarrow> ends_with_error [ev]"
  using ends_with_errorI[of "[]" ev] by simp

lemma ends_with_error_prepend:
  "non_terminal xs \<Longrightarrow> ends_with_error ys \<Longrightarrow> ends_with_error (xs @ ys)"
  unfolding ends_with_error_def
  by (metis append.assoc non_terminal_simps(3))

lemma ends_with_error_results:
  "ends_with_error evs \<Longrightarrow> \<exists>pre ev. evs = pre @ [ev] \<and> event_type ev = ''error''"
  by (auto simp: ends_with_error_def)

lemma failed_process_event_type [simp]:
  "event_type (failed_process_event b rc so se) = ''error''"
  by (simp add: failed_process_event_def Let_def split: option.splits)

lemma handler_event_type [simp]: "event_type (handler_event w t e) = ''error''"
  by (simp add: handler_event_def)

lemma dispatch_event_type [simp]: "event_type (dispatch_event rq p t c) = ''progress''"
  by (simp add: dispatch_event_def)

lemma validate_parameters_type:
  "validate_parameters m b l p t s e = Some ev \<Longrightarrow> event_type ev = ''error''"
  by (auto simp: validate_parameters_def split: if_splits)

lemma final_event_type: "final_event w rq p c all = Inr ev \<Longrightarrow> event_type ev = ''complete''"
  by (auto simp: final_event_def bind_err_def Let_def split: if_splits sum.splits)

lemma epoch_complete_events_nonterminal [simp]:
  "non_terminal (epoch_complete_events w n r)"
  "result_events (epoch_complete_events w n r) = []"
  by (simp_all add: epoch_complete_events_def)

lemma result_loop_nonterminal:
  "result_loop w samples tot epoch i rest = (evs, x) \<Longrightarrow> non_terminal evs"
  using result_loop_all_results[of w samples tot epoch i rest evs x]
  by (auto simp: non_terminal_def)

text \<open>The shape of what the fallback yields.\<close>

lemma scrape_output_shape:
  assumes "scrape_output w rq epoch stdout = (evs, r)"
  shows "result_events evs = []
         \<and> (case r of Inr None \<Rightarrow> ends_with_error evs | _ \<Rightarrow> non_terminal evs)"
proof (cases "accuracy_search stdout")
  case None
  with assms have "evs = [create_progress ''Parsing results from output...'' []]
      @ [create_error PARSE_ERROR ''Could not parse benchmark results''
                           [(''output_preview'', JStr (take 500 stdout))]]" and "r = Inr None"
    by (auto simp: scrape_output_def Let_def)
  then show ?thesis using ends_with_errorI[of "[create_progress ''Parsing results from output...'' []]"]
    by simp
next
  case (Some t)
  with assms show ?thesis
    by (auto simp: scrape_output_def Let_def split: sum.splits)
qed

lemma epoch_try_shape:
  assumes "epoch_try w rq cmd tmo epoch = (evs, r)"
  shows "(if epoch = 0 then loop_output w (result_events evs) else result_events evs = [])
         \<and> (case r of Inr None \<Rightarrow> ends_with_error evs | _ \<Rightarrow> non_terminal evs)"
proof (cases "subprocess_run w epoch cmd tmo")
  case (Raised e)
  with assms show ?thesis by (auto simp: epoch_try_def)
next
  case (Completed rc so se)
  show ?thesis
  proof (cases "rc \<noteq> 0")
    case True
    with assms Completed show ?thesis
      by (auto simp: epoch_try_def)
  next
    case rc0: False
    show ?thesis
    proof (cases "no_artifact w epoch so")
      case True
      with assms Completed rc0 have "scrape_output w rq epoch so = (evs, r)"
        using epoch_try_scrapes[of w epoch cmd tmo so se rq] by simp
      from scrape_output_shape[OF this] show ?thesis by simp
    next
      case False
      then obtain p where p: "find_log_path so = Some p" and ex: "path_exists w epoch p"
        by (auto simp: no_artifact_def split: option.splits)
      show ?thesis
      proof (cases "fst (parse_log_results w epoch p)")
        case (Inl e)
        with assms Completed rc0 p ex show ?thesis by (auto simp: epoch_try_def)
      next
        case (Inr d)
        show ?thesis
        proof (cases "truthy d")
          case False
          with assms Completed rc0 p ex Inr show ?thesis
            by (auto simp: epoch_try_def)
        next
          case True
          show ?thesis
          proof (cases "log_statistics w epoch d")
            case (Inl e)
            with assms Completed rc0 p ex Inr True show ?thesis by (auto simp: epoch_try_def)
          next
            case st: (Inr sr)
            obtain samples er where sr: "sr = (samples, er)" by (cases sr)
            show ?thesis
            proof (cases "epoch = 0")
              case False
              with assms Completed rc0 p ex Inr True st sr show ?thesis
                by (auto simp: epoch_try_def)
            next
              case e0: True
              obtain levs x where l: "result_loop w samples (length samples) 0 0 samples = (levs, x)"
                by (cases "result_loop w samples (length samples) 0 0 samples")
              have lo: "loop_output w levs" unfolding loop_output_def using l by blast
              have re: "result_events levs = levs"
                using result_loop_all_results[OF l] by (rule result_events_all)
              have nt: "non_terminal levs" using l by (rule result_loop_nonterminal)
              from assms Completed rc0 p ex Inr True st sr e0 l
              have "(evs, r) = (case x of Some e \<Rightarrow> (levs, Inl e)
                        | None \<Rightarrow> (levs @ epoch_complete_events w (rq_epochs rq) er, Inr (Some er)))"
                by (simp add: epoch_try_def)
              then show ?thesis using lo re nt e0 by (cases x) auto
            qed
          qed
        qed
      qed
    qed
  qed
qed


lemma run_epoch_shape:
  assumes "run_epoch w rq provider task_name cfg tmo epoch = (evs, r)"
  shows "(if epoch = 0 then loop_output w (result_events evs) else result_events evs = [])
         \<and> (case r of None \<Rightarrow> ends_with_error evs | Some er \<Rightarrow> non_terminal evs)"
proof -
  let ?cmd = "build_inspect_command (w_float_repr w) task_name (rq_model_id rq) (rq_limit rq)
                  provider cfg (rq_temperature rq) (rq_seed rq) (rq_max_tokens rq) None"
  obtain tevs tr where t: "epoch_try w rq ?cmd tmo epoch = (tevs, tr)"
    by (cases "epoch_try w rq ?cmd tmo epoch")
  let ?pre = "(if 1 < rq_epochs rq then
               [create_progress
                  (''Starting epoch '' @ str_int (int epoch + 1) @ ''/''
                   @ str_int (rq_epochs rq) @ ''...'') []]
             else [])
            @ [create_progress (''Executing: '' @ join '' '' (take 5 ?cmd) @ ''...'') []]"
  have pre: "non_terminal ?pre" "result_events ?pre = []" by simp_all
  from epoch_try_shape[OF t]
  have re: "(if epoch = 0 then loop_output w (result_events tevs) else result_events tevs = [])"
    and sh: "(case tr of Inr None \<Rightarrow> ends_with_error tevs | _ \<Rightarrow> non_terminal tevs)"
    by auto
  show ?thesis
  proof (cases tr)
    case (Inl e)
    with assms t have evs: "evs = (?pre @ tevs) @ [handler_event w tmo e]" and r: "r = None"
      by (auto simp: run_epoch_def Let_def)
    have "non_terminal (?pre @ tevs)" using sh Inl pre by simp
    then have "ends_with_error evs" unfolding evs by (rule ends_with_errorI) simp
    moreover have "result_events evs = result_events tevs" unfolding evs using pre by simp
    ultimately show ?thesis using re r by simp
  next
    case (Inr x)
    with assms t have evs: "evs = ?pre @ tevs" and r: "r = x"
      by (auto simp: run_epoch_def Let_def)
    have res: "result_events evs = result_events tevs" unfolding evs using pre by simp
    show ?thesis
    proof (cases x)
      case None
      with sh Inr have "ends_with_error tevs" by simp
      then have "ends_with_error evs" unfolding evs using pre(1) by (rule ends_with_error_prepend[rotated])
      then show ?thesis using re res r None by simp
    next
      case (Some er)
      with sh Inr have "non_terminal tevs" by simp
      then have "non_terminal evs" unfolding evs using pre by simp
      then show ?thesis using re res r Some by simp
    qed
  qed
qed

lemma epochs_loop_shape:
  "epochs_loop w rq provider task_name cfg tmo epoch k acc = (evs, res) \<Longrightarrow>
     (if epoch = 0 then loop_output w (result_events evs) else result_events evs = [])
     \<and> (case res of None \<Rightarrow> ends_with_error evs
         | Some all_results \<Rightarrow> non_terminal evs \<and> length all_results = length acc + k)"
proof (induction k arbitrary: epoch acc evs res)
  case 0
  then show ?case by auto
next
  case (Suc k)
  obtain evs0 r0 where e0: "run_epoch w rq provider task_name cfg tmo epoch = (evs0, r0)"
    by (cases "run_epoch w rq provider task_name cfg tmo epoch")
  from run_epoch_shape[OF e0]
  have re0: "(if epoch = 0 then loop_output w (result_events evs0) else result_events evs0 = [])"
    and sh0: "(case r0 of None \<Rightarrow> ends_with_error evs0 | Some er \<Rightarrow> non_terminal evs0)"
    by auto
  show ?case
  proof (cases r0)
    case None
    with Suc.prems e0 have "evs = evs0" "res = None" by auto
    with re0 sh0 None show ?thesis by simp
  next
    case (Some er)
    obtain evs1 res1 where e1:
      "epochs_loop w rq provider task_name cfg tmo (Suc epoch) k (acc @ [er]) = (evs1, res1)"
      by (cases "epochs_loop w rq provider task_name cfg tmo (Suc epoch) k (acc @ [er])")
    from Suc.IH[OF e1] have re1: "result_events evs1 = []"
      and sh1: "(case res1 of None \<Rightarrow> ends_with_error evs1
                 | Some all_results \<Rightarrow> non_terminal evs1 \<and> length all_results = length (acc @ [er]) + k)"
      by auto
    from Suc.prems e0 Some e1 have evs: "evs = evs0 @ evs1" and res: "res = res1" by auto
    have nt0: "non_terminal evs0" using sh0 Some by simp
    have r: "result_events evs = result_events evs0" unfolding evs using re1 by simp
    show ?thesis
    proof (cases res1)
      case None
      with sh1 have "ends_with_error evs1" by simp
      with nt0 have "ends_with_error evs" unfolding evs by (rule ends_with_error_prepend)
      with re0 r res None show ?thesis by simp
    next
      case (Some all_results)
      with sh1 have "non_terminal evs1" "length all_results = length acc + Suc k" by auto
      with nt0 re0 r res Some show ?thesis unfolding evs by simp
    qed
  qed
qed


lemma lower_char_idem: "lower_char (lower_char c) = lower_char c"
proof -
  have c: "code (char_of (code c + 32)) = code c + 32" if "code c \<le> 222"
    using that by (simp add: code_def)
  show ?thesis
    by (cases "(65 \<le> code c \<and> code c \<le> 90) \<or> (192 \<le> code c \<and> code c \<le> 222 \<and> code c \<noteq> 215)")
       (auto simp: lower_char_def Let_def c)
qed

lemma lower_idem: "lower (lower s) = lower s"
  by (simp add: lower_def lower_char_idem)

lemma validate_parameters_None:
  assumes "validate_parameters m b l p t s (Some e) = None"
  shows "b \<in> set (map fst SUPPORTED_BENCHMARKS) \<and> lower p \<in> set (map fst PROVIDERS)
         \<and> 1 \<le> e \<and> e \<le> 100"
  using assms by (auto simp: validate_parameters_def split: if_splits)

lemma map_of_member: "k \<in> set (map fst kvs) \<Longrightarrow> \<exists>v. map_of kvs k = Some v"
  by (induction kvs) auto

lemma fl_round_nonzero:
  assumes "1 \<le> x"
  shows "fl_round x \<noteq> Fin 0"
proof -
  have x: "0 < x" using assms by simp
  let ?e = "ilog2 x"
  from ilog2_bounds[OF x] have lo: "pow2 ?e \<le> x" and hi: "x < pow2 (?e + 1)" by auto
  have e0: "0 \<le> ?e"
  proof (rule ccontr)
    assume "\<not> 0 \<le> ?e"
    then have "?e + 1 \<le> 0" by simp
    then have "pow2 (?e + 1) \<le> pow2 0" by (rule pow2_mono)
    with hi assms show False by (simp add: pow2_def)
  qed
  let ?u = "pow2 (?e - 52)"
  let ?n = "round_half_even (x / ?u)"
  have "of_int 1 \<le> x / ?u"
  proof -
    have "?u \<le> pow2 ?e" by (simp add: pow2_mono)
    with lo have "?u \<le> x" by simp
    then show ?thesis using pow2_pos[of "?e - 52"] by (simp add: pos_le_divide_eq)
  qed
  from round_half_even_ge[OF this] have n: "0 < ?n" by simp
  have r: "0 < of_int ?n * ?u" using n pow2_pos[of "?e - 52"] by simp
  have mx: "max ?e (- 1022) = ?e" using e0 by simp
  have ax: "\<bar>x\<bar> = x" using x by simp
  show ?thesis
    using x r by (auto simp: fl_round_def Let_def ax mx)
qed

lemma fl_div_nonzero:
  assumes "y \<noteq> Fin 0"
  shows "\<exists>q. fl_div x y = Some q"
  using assms by (cases "(x, y)" rule: fl_div.cases) (auto split: pyfloat.splits)

lemma num_truediv_count:
  assumes "0 < n"
  shows "\<exists>q. num_truediv x (PyInt (int n)) = Inr q"
proof (cases x)
  case (PyInt a)
  then show ?thesis using assms by (simp add: num_truediv_def)
next
  case (PyFloat f)
  have "fl_of_int (int n) \<noteq> Fin 0"
    unfolding fl_of_int_def using assms by (intro fl_round_nonzero) simp
  from fl_div_nonzero[OF this, of f] obtain q where "fl_div f (fl_of_int (int n)) = Some q" by blast
  then show ?thesis using PyFloat by (simp add: num_truediv_def to_float_def)
qed

lemma final_event_total:
  assumes "1 < rq_epochs rq \<longrightarrow> all_results \<noteq> []"
  shows "\<exists>ev. final_event w rq provider cfg all_results = Inr ev"
proof (cases "1 < rq_epochs rq")
  case False
  then show ?thesis by (simp add: final_event_def Let_def)
next
  case True
  with assms obtain r rs where a: "all_results = r # rs" by (cases all_results) auto
  let ?scores = "map er_score all_results"
  have "0 < length ?scores" using a by simp
  from num_truediv_count[OF this, of "py_sum (w_compensated_sum w) ?scores"] obtain q where
    q: "num_truediv (py_sum (w_compensated_sum w) ?scores) (PyInt (int (length ?scores))) = Inr q"
    by blast
  obtain mn mx where "py_min ?scores = Inr mn" "py_max ?scores = Inr mx"
    using a by auto
  with q True show ?thesis by (simp add: final_event_def Let_def bind_err_def)
qed

lemma is_terminal_types:
  "event_type ev = ''error'' \<Longrightarrow> is_terminal ev"
  "event_type ev = ''complete'' \<Longrightarrow> is_terminal ev"
  "event_type ev = ''progress'' \<or> event_type ev = ''result'' \<Longrightarrow> \<not> is_terminal ev"
  by (auto simp: is_terminal_def)

lemma one_terminal_lastI:
  "non_terminal pre \<Longrightarrow> is_terminal t \<Longrightarrow> one_terminal_last (pre @ [t])"
  unfolding one_terminal_last_def non_terminal_def
  using is_terminal_types(3) by blast

lemma ends_with_error_terminal: "ends_with_error evs \<Longrightarrow> one_terminal_last evs"
  unfolding ends_with_error_def using one_terminal_lastI is_terminal_types(1) by blast

lemma ends_with_error_last: "ends_with_error evs \<Longrightarrow> event_type (last evs) = ''error''"
  by (auto simp: ends_with_error_def)

text \<open>
  The shape of a run. Its result events are the output of one result loop. It ends either
  with its only terminal event, or with an exception before any event, which is then the
  exception of reading the timeout. A complete event at its end is the aggregate of as
  many epoch results as epochs were requested.
\<close>

lemma run_shape:
  assumes "run_with_inspect_ai w rq = (evs, x)"
  shows "loop_output w (result_events evs)
         \<and> (case x of
              None \<Rightarrow> one_terminal_last evs
            | Some e \<Rightarrow> evs = [] \<and> base_timeout w rq = Inl e)
         \<and> (evs \<noteq> [] \<and> event_type (last evs) = ''complete'' \<longrightarrow>
              (\<exists>cfg all_results.
                 final_event w rq (lower (rq_provider rq)) cfg all_results = Inr (last evs)
                 \<and> length all_results = nat (rq_epochs rq)))"
proof -
  let ?p = "lower (rq_provider rq)"
  let ?v = "validate_parameters (rq_model_id rq) (rq_benchmark rq) (rq_limit rq) ?p
                   (rq_temperature rq) (rq_seed rq) (Some (rq_epochs rq))"
  have single: "loop_output w (result_events [ev]) \<and> one_terminal_last [ev]
                 \<and> event_type (last [ev]) \<noteq> ''complete''"
    if "event_type ev = ''error''" for ev
    using that one_terminal_lastI[of "[]" ev] is_terminal_types(1)[of ev] by simp
  show ?thesis
  proof (cases "INSPECT_AI_AVAILABLE w \<and> INSPECT_EVALS_AVAILABLE w")
    case False
    have "x = None \<and> (\<exists>ev. evs = [ev] \<and> event_type ev = ''error'')"
    proof (cases "INSPECT_AI_AVAILABLE w")
      case True
      with False have "\<not> INSPECT_EVALS_AVAILABLE w" by simp
      with True assms show ?thesis by (simp add: run_with_inspect_ai_def Let_def) auto
    next
      case False
      with assms show ?thesis by (simp add: run_with_inspect_ai_def Let_def) auto
    qed
    then show ?thesis using single by auto
  next
    case av: True
    show ?thesis
    proof (cases ?v)
      case (Some ev)
      with assms av have "x = None" "evs = [ev]" by (auto simp: run_with_inspect_ai_def Let_def)
      then show ?thesis using single[OF validate_parameters_type[OF Some]] by simp
    next
      case None
      from validate_parameters_None[OF None]
      have b: "rq_benchmark rq \<in> set (map fst SUPPORTED_BENCHMARKS)"
        and p: "?p \<in> set (map fst PROVIDERS)" and e1: "1 \<le> rq_epochs rq"
        by (simp_all add: lower_idem)
      from map_of_member[OF b] obtain task_name where
        t: "map_of SUPPORTED_BENCHMARKS (rq_benchmark rq) = Some task_name" by blast
      from map_of_member[OF p] obtain cfg where c: "map_of PROVIDERS ?p = Some cfg" by blast
      let ?given = "(case rq_api_key rq of Some k \<Rightarrow> k | None \<Rightarrow> [])"
      let ?key = "(if ?given \<noteq> [] then ?given
                   else (case getenv w (api_key_env cfg) of Some k \<Rightarrow> k | None \<Rightarrow> []))"
      show ?thesis
      proof (cases "?key = []")
        case True
        with assms av None t c have "x = None \<and> (\<exists>ev. evs = [ev] \<and> event_type ev = ''error'')"
          by (auto simp: run_with_inspect_ai_def Let_def)
        then show ?thesis using single by auto
      next
        case key: False
        show ?thesis
        proof (cases "base_timeout w rq")
          case (Inl e)
          with assms av None t c key have "evs = []" "x = Some e"
            by (auto simp: run_with_inspect_ai_def Let_def)
          with Inl show ?thesis by simp
        next
          case (Inr base)
          let ?tmo = "eval_timeout_of rq base"
          let ?d = "dispatch_event rq ?p task_name cfg"
          obtain levs res where l:
            "epochs_loop w rq ?p task_name cfg ?tmo 0 (nat (rq_epochs rq)) [] = (levs, res)"
            by (cases "epochs_loop w rq ?p task_name cfg ?tmo 0 (nat (rq_epochs rq)) []")
          from epochs_loop_shape[OF l] have lo: "loop_output w (result_events levs)"
            and sh: "(case res of None \<Rightarrow> ends_with_error levs
                      | Some all_results \<Rightarrow> non_terminal levs
                          \<and> length all_results = nat (rq_epochs rq))"
            by (auto split: option.splits)
          have unfolded: "(evs, x) =
              (case res of
                 None \<Rightarrow> (?d # levs, None)
               | Some all_results \<Rightarrow>
                   (case final_event w rq ?p cfg all_results of
                      Inl e \<Rightarrow> (?d # levs, Some e)
                    | Inr ev \<Rightarrow> (?d # levs @ [ev], None)))"
            using assms av None t c key Inr l by (simp add: run_with_inspect_ai_def Let_def)
          show ?thesis
          proof (cases res)
            case None
            with unfolded have evs: "evs = [?d] @ levs" and x: "x = None" by simp_all
            from sh None have "ends_with_error levs" by simp
            then have "ends_with_error evs" unfolding evs
              by (intro ends_with_error_prepend) simp_all
            then have "one_terminal_last evs" "event_type (last evs) = ''error''"
              by (simp_all add: ends_with_error_terminal ends_with_error_last)
            moreover have "result_events evs = result_events levs" unfolding evs by simp
            ultimately show ?thesis using lo x by simp
          next
            case (Some all_results)
            with sh have nt: "non_terminal levs" and len: "length all_results = nat (rq_epochs rq)"
              by auto
            have "1 < rq_epochs rq \<longrightarrow> all_results \<noteq> []" using len by auto
            from final_event_total[OF this] obtain ev where
              f: "final_event w rq ?p cfg all_results = Inr ev" by blast
            from unfolded Some f have evs: "evs = (?d # levs) @ [ev]" and x: "x = None" by simp_all
            have ty: "event_type ev = ''complete''" using f by (rule final_event_type)
            have "non_terminal (?d # levs)" using nt by simp
            then have "one_terminal_last evs" unfolding evs
              using is_terminal_types(2)[OF ty] by (rule one_terminal_lastI)
            moreover have "result_events evs = result_events levs" unfolding evs using ty by simp
            moreover have "last evs = ev" unfolding evs by simp
            ultimately show ?thesis using lo x f len by auto
          qed
        qed
      qed
    qed
  qed
qed

section \<open>Properties of a run\<close>

lemma fl_less_trans: "fl_less a b \<Longrightarrow> fl_less b c \<Longrightarrow> fl_less a c"
  by (cases a; cases b; cases c) auto

lemma num_less_trans: "num_less a b \<Longrightarrow> num_less b c \<Longrightarrow> num_less a c"
  unfolding num_less_def by (rule fl_less_trans)

lemma num_less_irrefl: "\<not> num_less a a"
  unfolding num_less_def by (cases "num_exact a") auto

lemma fold_min_least:
  assumes "m \<in> set seen" "\<forall>s \<in> set seen. \<not> num_less s m"
  shows "is_least (seen @ xs) (foldl (\<lambda>m y. if num_less y m then y else m) m xs)"
  using assms
proof (induction xs arbitrary: m seen)
  case Nil
  then show ?case by (simp add: is_least_def)
next
  case (Cons y ys)
  let ?m = "if num_less y m then y else m"
  have "?m \<in> set (seen @ [y])" using Cons.prems(1) by simp
  moreover have "\<forall>s \<in> set (seen @ [y]). \<not> num_less s ?m"
    using Cons.prems(2) num_less_trans[of _ y m] num_less_irrefl[of y] by auto
  ultimately have "is_least ((seen @ [y]) @ ys) (foldl (\<lambda>m y. if num_less y m then y else m) ?m ys)"
    by (rule Cons.IH)
  then show ?case by simp
qed

lemma py_min_least: "py_min xs = Inr m \<Longrightarrow> is_least xs m"
proof (cases xs)
  case Nil
  then show "py_min xs = Inr m \<Longrightarrow> is_least xs m" by simp
next
  case (Cons x rest)
  assume "py_min xs = Inr m"
  with Cons have m: "m = foldl (\<lambda>m y. if num_less y m then y else m) x rest" by simp
  have "is_least ([x] @ rest) (foldl (\<lambda>m y. if num_less y m then y else m) x rest)"
    by (rule fold_min_least) (simp_all add: num_less_irrefl)
  then show "is_least xs m" using Cons m by simp
qed

lemma fold_max_greatest:
  assumes "m \<in> set seen" "\<forall>s \<in> set seen. \<not> num_less m s"
  shows "is_greatest (seen @ xs) (foldl (\<lambda>m y. if num_less m y then y else m) m xs)"
  using assms
proof (induction xs arbitrary: m seen)
  case Nil
  then show ?case by (simp add: is_greatest_def)
next
  case (Cons y ys)
  let ?m = "if num_less m y then y else m"
  have "?m \<in> set (seen @ [y])" using Cons.prems(1) by simp
  moreover have "\<forall>s \<in> set (seen @ [y]). \<not> num_less ?m s"
    using Cons.prems(2) num_less_trans[of m y] num_less_irrefl[of y] by auto
  ultimately have "is_greatest ((seen @ [y]) @ ys) (foldl (\<lambda>m y. if num_less m y then y else m) ?m ys)"
    by (rule Cons.IH)
  then show ?case by simp
qed

lemma py_max_greatest: "py_max xs = Inr m \<Longrightarrow> is_greatest xs m"
proof (cases xs)
  case Nil
  then show "py_max xs = Inr m \<Longrightarrow> is_greatest xs m" by simp
next
  case (Cons x rest)
  assume "py_max xs = Inr m"
  with Cons have m: "m = foldl (\<lambda>m y. if num_less m y then y else m) x rest" by simp
  have "is_greatest ([x] @ rest) (foldl (\<lambda>m y. if num_less m y then y else m) x rest)"
    by (rule fold_max_greatest) (simp_all add: num_less_irrefl)
  then show "is_greatest xs m" using Cons m by simp
qed

lemma final_event_multi:
  assumes f: "final_event w rq provider cfg all_results = Inr ev" and e: "1 < rq_epochs rq"
  shows "\<exists>avg mn mx.
           num_truediv (py_sum (w_compensated_sum w) (map er_score all_results))
               (PyInt (int (length all_results))) = Inr avg
           \<and> event_field ev ''score'' = JFloat avg
           \<and> is_least (map er_score all_results) mn \<and> event_field ev ''min_score'' = num_json mn
           \<and> is_greatest (map er_score all_results) mx \<and> event_field ev ''max_score'' = num_json mx
           \<and> event_field ev ''score_variance'' = num_json (num_sub mx mn)
           \<and> event_field ev ''epoch_results'' = JArr (map epoch_result_json all_results)"
proof -
  let ?scores = "map er_score all_results"
  from f e obtain avg mn mx where
    avg: "num_truediv (py_sum (w_compensated_sum w) ?scores) (PyInt (int (length ?scores))) = Inr avg"
    and mn: "py_min ?scores = Inr mn" and mx: "py_max ?scores = Inr mx"
    by (auto simp: final_event_def Let_def bind_err_def split: sum.splits)
  from f e avg mn mx have ev: "ev = create_complete (JFloat avg)
                     (sum_list (map er_correct all_results))
                     (sum_list (map er_total all_results))
                     (run_identity w rq provider cfg
                      @ [(''min_score'', num_json mn),
                         (''max_score'', num_json mx),
                         (''score_variance'', num_json (num_sub mx mn)),
                         (''epochs'', JInt (rq_epochs rq)),
                         (''epoch_results'', JArr (map epoch_result_json all_results))]
                      @ run_clock w rq)"
    by (simp add: final_event_def Let_def bind_err_def)
  have fields: "event_field ev ''score'' = JFloat avg"
    "event_field ev ''min_score'' = num_json mn"
    "event_field ev ''max_score'' = num_json mx"
    "event_field ev ''score_variance'' = num_json (num_sub mx mn)"
    "event_field ev ''epoch_results'' = JArr (map epoch_result_json all_results)"
    unfolding ev
    by (simp_all add: event_field_def create_complete_def get_item_def run_identity_def)
  show ?thesis
    using avg py_min_least[OF mn] py_max_greatest[OF mx] fields by auto
qed

text \<open>
  Claim C5, as amended. When more than one epoch is requested and the run ends with a
  complete event, that event carries one result per epoch and reports, in float
  arithmetic: as score the builtin sum of the per-epoch scores divided by their number; as
  \<^verbatim>\<open>min_score\<close> a least and as \<^verbatim>\<open>max_score\<close> a greatest of them; and as
  \<^verbatim>\<open>score_variance\<close> the float difference of the two. For the per-epoch scores 0.8, 0.6
  and 0.7 the minimum is the float 0.6 and the maximum the float 0.8; the score is
  0.6999999999999998 up to CPython 3.11 and 0.7000000000000001 from CPython 3.12 on, and
  the variance is 0.20000000000000007: each the result of rounded float operations, and
  none equal to the float 0.7 or 0.2.
\<close>

theorem epoch_aggregate:
  assumes run: "run_with_inspect_ai w rq = (evs, x)"
    and many: "1 < rq_epochs rq"
    and ended: "evs \<noteq> []" "event_type (last evs) = ''complete''"
  shows "\<exists>all_results avg mn mx.
           length all_results = nat (rq_epochs rq)
           \<and> event_field (last evs) ''epoch_results'' = JArr (map epoch_result_json all_results)
           \<and> num_truediv (py_sum (w_compensated_sum w) (map er_score all_results))
               (PyInt (int (length all_results)))
               = Inr avg
           \<and> event_field (last evs) ''score'' = JFloat avg
           \<and> is_least (map er_score all_results) mn
           \<and> event_field (last evs) ''min_score'' = num_json mn
           \<and> is_greatest (map er_score all_results) mx
           \<and> event_field (last evs) ''max_score'' = num_json mx
           \<and> event_field (last evs) ''score_variance'' = num_json (num_sub mx mn)"
proof -
  from run_shape[OF run] ended obtain cfg all_results where
    f: "final_event w rq (lower (rq_provider rq)) cfg all_results = Inr (last evs)"
    and len: "length all_results = nat (rq_epochs rq)" by blast
  from final_event_multi[OF f many] len show ?thesis by blast
qed

text \<open>The example run of three epochs, evaluated once for each way of summing.\<close>

lemma three_epochs_last:
  "last (fst (run_with_inspect_ai world_three_epochs request_three_epochs))
     = three_epochs_complete (6305039478318693 / 9007199254740992)"
  by code_simp

lemma three_epochs_last_compensated:
  "last (fst (run_with_inspect_ai world_three_epochs_compensated request_three_epochs))
     = three_epochs_complete (6305039478318695 / 9007199254740992)"
  by code_simp

lemma three_epochs_nonempty:
  "fst (run_with_inspect_ai world_three_epochs request_three_epochs) \<noteq> []"
proof -
  let ?run = "run_with_inspect_ai world_three_epochs request_three_epochs"
  have r: "?run = (fst ?run, snd ?run)" by simp
  have t: "base_timeout world_three_epochs request_three_epochs = Inr 600" by code_simp
  from run_shape[OF r] t have "one_terminal_last (fst ?run)" by (cases "snd ?run") auto
  then show ?thesis by (auto simp: one_terminal_last_def)
qed

text \<open>
  The theorem at a run of three epochs with 4 of 5, 3 of 5 and 7 of 10 correct samples.
\<close>

theorem epoch_aggregate_witness:
  "1 < rq_epochs request_three_epochs
   \<and> event_type (last (fst (run_with_inspect_ai world_three_epochs request_three_epochs)))
       = ''complete''
   \<and> (\<exists>all_results avg mn mx.
         length all_results = 3
         \<and> event_field (last (fst (run_with_inspect_ai world_three_epochs request_three_epochs)))
             ''epoch_results'' = JArr (map epoch_result_json all_results)
         \<and> num_truediv (py_sum (w_compensated_sum world_three_epochs) (map er_score all_results))
               (PyInt (int (length all_results)))
             = Inr avg
         \<and> event_field (last (fst (run_with_inspect_ai world_three_epochs request_three_epochs)))
             ''score'' = JFloat avg
         \<and> is_least (map er_score all_results) mn
         \<and> event_field (last (fst (run_with_inspect_ai world_three_epochs request_three_epochs)))
             ''min_score'' = num_json mn
         \<and> is_greatest (map er_score all_results) mx
         \<and> event_field (last (fst (run_with_inspect_ai world_three_epochs request_three_epochs)))
             ''max_score'' = num_json mx
         \<and> event_field (last (fst (run_with_inspect_ai world_three_epochs request_three_epochs)))
             ''score_variance'' = num_json (num_sub mx mn))"
proof -
  let ?run = "run_with_inspect_ai world_three_epochs request_three_epochs"
  have r: "?run = (fst ?run, snd ?run)" by simp
  have m: "1 < rq_epochs request_three_epochs" by code_simp
  have n: "fst ?run \<noteq> []" by (rule three_epochs_nonempty)
  have c: "event_type (last (fst ?run)) = ''complete''"
    unfolding three_epochs_last by code_simp
  have e: "nat (rq_epochs request_three_epochs) = 3" by code_simp
  show ?thesis using m c epoch_aggregate[OF r m n c] unfolding e by simp
qed

text \<open>
  Claim C5 as stated asks for the values 0.7 and 0.2 exactly. In the run of three epochs
  with the per-epoch scores 0.8, 0.6 and 0.7 the complete event reports the minimum 0.6
  and the maximum 0.8, but a score and a variance that are not the floats 0.7 and 0.2,
  whichever way the interpreter sums.
\<close>

theorem epoch_aggregate_not_exact:
  "event_field (last (fst (run_with_inspect_ai world_three_epochs request_three_epochs)))
     ''epoch_results''
     = JArr (map epoch_result_json
         [\<lparr>er_epoch = 1, er_score = PyFloat (fl_round (8 / 10)), er_correct = 4, er_total = 5\<rparr>,
          \<lparr>er_epoch = 2, er_score = PyFloat (fl_round (6 / 10)), er_correct = 3, er_total = 5\<rparr>,
          \<lparr>er_epoch = 3, er_score = PyFloat (fl_round (7 / 10)), er_correct = 7, er_total = 10\<rparr>])
   \<and> event_field (last (fst (run_with_inspect_ai world_three_epochs request_three_epochs)))
       ''min_score'' = JFloat (fl_round (6 / 10))
   \<and> event_field (last (fst (run_with_inspect_ai world_three_epochs request_three_epochs)))
       ''max_score'' = JFloat (fl_round (8 / 10))
   \<and> event_field (last (fst (run_with_inspect_ai world_three_epochs request_three_epochs)))
       ''score'' = JFloat (Fin (6305039478318693 / 9007199254740992))
   \<and> event_field (last (fst (run_with_inspect_ai world_three_epochs request_three_epochs)))
       ''score'' \<noteq> JFloat (fl_round (7 / 10))
   \<and> event_field (last (fst (run_with_inspect_ai world_three_epochs request_three_epochs)))
       ''score_variance'' = JFloat (Fin (1801439850948199 / 9007199254740992))
   \<and> event_field (last (fst (run_with_inspect_ai world_three_epochs request_three_epochs)))
       ''score_variance'' \<noteq> JFloat (fl_round (2 / 10))
   \<and> event_field
         (last (fst (run_with_inspect_ai world_three_epochs_compensated request_three_epochs)))
       ''epoch_results''
       = event_field (last (fst (run_with_inspect_ai world_three_epochs request_three_epochs)))
           ''epoch_results''
   \<and> event_field
         (last (fst (run_with_inspect_ai world_three_epochs_compensated request_three_epochs)))
       ''score'' = JFloat (Fin (6305039478318695 / 9007199254740992))
   \<and> event_field
         (last (fst (run_with_inspect_ai world_three_epochs_compensated request_three_epochs)))
       ''score'' \<noteq> JFloat (fl_round (7 / 10))
   \<and> event_field
         (last (fst (run_with_inspect_ai world_three_epochs_compensated request_three_epochs)))
       ''score_variance'' \<noteq> JFloat (fl_round (2 / 10))"
  unfolding three_epochs_last three_epochs_last_compensated by code_simp

text \<open>
  Claim C4. For every run and every \<open>k\<close> from 1 to the number of its result events, the
  \<open>k\<close>-th result event carries as \<^verbatim>\<open>running_score\<close> the quotient of the number of
  correct samples among the first \<open>k\<close> (as the result events report them) by \<open>k\<close>: the
  float nearest to that quotient, which is what the true division of the two integers
  gives. (The index \<open>k\<close> below counts from 0.)
\<close>

theorem running_score_exact:
  assumes "k < length (result_events (fst (run_with_inspect_ai w rq)))"
  shows "event_field (result_events (fst (run_with_inspect_ai w rq)) ! k) ''running_score''
           = JFloat (fl_round
               (of_nat (correct_count (take (Suc k) (result_events (fst (run_with_inspect_ai w rq)))))
                / of_nat (Suc k)))"
proof -
  obtain evs x where r: "run_with_inspect_ai w rq = (evs, x)"
    by (cases "run_with_inspect_ai w rq")
  from run_shape[OF r] have "loop_output w (result_events evs)" by simp
  then obtain samples tot y where
    l: "result_loop w samples tot 0 0 samples = (result_events evs, y)"
    unfolding loop_output_def by blast
  from assms r have k: "k < length (result_events evs)" by simp
  from result_loop_running_score[OF l k] show ?thesis using r by simp
qed

text \<open>
  The theorem at the third result event of a run over a log of three samples, the first
  of them correct.
\<close>

theorem running_score_exact_witness:
  "length (result_events (fst (run_with_inspect_ai world_with_log example_request))) = 3
   \<and> correct_count (take 3 (result_events (fst (run_with_inspect_ai world_with_log example_request))))
       = 1
   \<and> event_field (result_events (fst (run_with_inspect_ai world_with_log example_request)) ! 2)
       ''running_score'' = JFloat (fl_round (1 / 3))"
proof -
  let ?revs = "result_events (fst (run_with_inspect_ai world_with_log example_request))"
  have r: "?revs = example_results" by code_simp
  have l: "length ?revs = 3" unfolding r by code_simp
  have c: "correct_count (take 3 ?revs) = 1" unfolding r by code_simp
  have k: "2 < length ?revs" unfolding l by simp
  have s: "Suc 2 = 3" by simp
  show ?thesis using l c running_score_exact[OF k] unfolding s c by simp
qed

text \<open>
  Claim C8 holds for every run in which the timeout can be read: the run raises nothing
  and its events end with their only terminal event.
\<close>

theorem one_terminal_event_when_timeout_readable:
  assumes "run_with_inspect_ai w rq = (evs, x)" and "base_timeout w rq = Inr t"
  shows "x = None \<and> one_terminal_last evs"
  using run_shape[OF assms(1)] assms(2) by (cases x) auto

text \<open>
  Claim C8 fails where the timeout cannot be read. The environment variable
  \<^verbatim>\<open>EVAL_TIMEOUT\<close> is converted with \<^verbatim>\<open>int\<close> outside every \<^verbatim>\<open>try\<close> block and before the
  first event: with the value \<^verbatim>\<open>abc\<close> and no timeout argument, a request that passes
  validation yields no event at all, and the generator ends with \<^verbatim>\<open>ValueError\<close>.
\<close>

theorem unreadable_timeout_no_terminal_event:
  "run_with_inspect_ai world_bad_timeout example_request = ([], Some ValueError)"
  by code_simp


end
